theory Spec2Isabelle
  imports Complex_Main "HOL-Library.Sublist"
begin

section \<open>Data model of the SVG converter\<close>

text \<open>
  The development follows \<^verbatim>\<open>packages/chili-builder/src/svgConverter.ts\<close>.
  Coordinates are real numbers (every finite double is one). The arithmetic of the
  interpreter is taken at its exact value; the rounding of doubles is modelled in
  \<^verbatim>\<open>quadraticToCubic\<close>.
\<close>

text \<open>The class \<^verbatim>\<open>XYZ\<close> of chili-core: three numeric fields x, y, z.\<close>

record Point3 =
  px :: real
  py :: real
  pz :: real

definition XYZ :: "real \<Rightarrow> real \<Rightarrow> real \<Rightarrow> Point3" where
  "XYZ a b c = \<lparr>px = a, py = b, pz = c\<rparr>"

text \<open>
  The commands of \<^verbatim>\<open>new SVGPathData(d).toAbs().commands\<close>, one constructor per
  type tag of the switch in \<^verbatim>\<open>convertPathToEdges\<close>, with the fields the switch
  reads, in the order x1 y1 x2 y2 x y. \<open>OTHER t\<close> is a command whose tag \<open>t\<close> is none
  of the ten tags of the switch (its \<^verbatim>\<open>default\<close> branch).
\<close>

datatype command =
    MOVE_TO real real
  | LINE_TO real real
  | HORIZ_LINE_TO real
  | VERT_LINE_TO real
  | CURVE_TO real real real real real real
  | SMOOTH_CURVE_TO real real real real
  | QUAD_TO real real real real
  | SMOOTH_QUAD_TO real real
  | ARC real real real bool bool real real
  | CLOSE_PATH
  | OTHER nat

text \<open>
  The two constructions the interpreter asks the kernel for, with their arguments:
  \<^verbatim>\<open>line(start, end)\<close> and \<^verbatim>\<open>bezier(points)\<close>.
\<close>

datatype primitive = Line Point3 Point3 | CubicBezier "Point3 list"

text \<open>
  The geometry kernel \<^verbatim>\<open>document.application.shapeFactory\<close> is external. Each of
  its three constructors returns a \<^verbatim>\<open>Result\<close>; the kernel may keep state of its own,
  so every call takes the kernel state \<open>'k\<close> and returns the next one. For
  \<^verbatim>\<open>line\<close> and \<^verbatim>\<open>bezier\<close> the code only tests \<^verbatim>\<open>isOk\<close>, so the result is an
  option; for \<^verbatim>\<open>wire\<close> the error text is logged, so the result is a sum.

  A call may also throw instead of returning. \<open>line_throws F k a b = Some (m, k')\<close>
  says that the call \<^verbatim>\<open>line(a, b)\<close> in the kernel state \<open>k\<close> throws \<open>m\<close> and leaves
  the kernel in \<open>k'\<close>; the call returns \<open>line F k a b\<close> when \<open>line_throws F k a b\<close>
  is \<open>None\<close>. The same holds of \<^verbatim>\<open>bezier\<close> and of \<^verbatim>\<open>wire\<close> (after whose exception
  the kernel is not used again).
\<close>

record ('e, 'w, 'k) shapeFactory =
  line :: "'k \<Rightarrow> Point3 \<Rightarrow> Point3 \<Rightarrow> 'e option \<times> 'k"
  bezier :: "'k \<Rightarrow> Point3 list \<Rightarrow> 'e option \<times> 'k"
  wire :: "'k \<Rightarrow> 'e list \<Rightarrow> (string + 'w) \<times> 'k"
  line_throws :: "'k \<Rightarrow> Point3 \<Rightarrow> Point3 \<Rightarrow> (string \<times> 'k) option"
  bezier_throws :: "'k \<Rightarrow> Point3 list \<Rightarrow> (string \<times> 'k) option"
  wire_throws :: "'k \<Rightarrow> 'e list \<Rightarrow> string option"

text \<open>
  The local variables of \<^verbatim>\<open>convertPathToEdges\<close> (\<^verbatim>\<open>edges\<close>, \<^verbatim>\<open>currentPoint\<close>,
  \<^verbatim>\<open>pathStartPoint\<close>, \<^verbatim>\<open>lastControlPoint\<close>), the converter's \<^verbatim>\<open>logs\<close> field and
  the kernel state.
\<close>

record ('e, 'k) interp =
  edges :: "'e list"
  currentPoint :: Point3
  pathStartPoint :: Point3
  lastControlPoint :: "Point3 option"
  logs :: "string list"
  kst :: 'k

section \<open>Logging\<close>

fun string_of_nat :: "nat \<Rightarrow> string" where
  "string_of_nat n =
     (if n < 10 then [char_of (48 + n)]
      else string_of_nat (n div 10) @ [char_of (48 + n mod 10)])"

declare string_of_nat.simps [simp del]

text \<open>
  \<^verbatim>\<open>addLog\<close> prefixes the message with the wall-clock time; the clock is not
  modelled, the message is.
\<close>

definition addLog :: "string \<Rightarrow> string list \<Rightarrow> string list" where
  "addLog message lg = lg @ [message]"

section \<open>Double arithmetic\<close>

text \<open>
  A JavaScript number is an IEEE 754 double, and every double but the infinities
  and NaN is a real number. An arithmetic operation of the code returns the double
  nearest to the exact result, with ties going to the even significand:
  \<open>double_round\<close>. A double is an integer of magnitude below \<open>2^53\<close> times a power
  of two that is at least \<open>2^-1074\<close>, so the exponent of the spacing around \<open>x\<close> is
  \<open>double_exponent x\<close>. A result of magnitude \<open>2^1024\<close> or more is an infinity in the
  code; the model has none and rounds it like any other number.

  Rounding is modelled in \<^verbatim>\<open>quadraticToCubic\<close>, where a tolerance depends on it. In
  the interpreter the expressions of the code are taken at their exact value.
\<close>

definition round_even :: "real \<Rightarrow> int" where
  "round_even y =
     (let f = \<lfloor>y\<rfloor>
      in if y - of_int f < 1 / 2 then f
         else if y - of_int f > 1 / 2 then f + 1
         else if even f then f else f + 1)"

definition double_exponent :: "real \<Rightarrow> int" where
  "double_exponent x = max (\<lfloor>log 2 \<bar>x\<bar>\<rfloor> - 52) (- 1074)"

definition double_round :: "real \<Rightarrow> real" where
  "double_round x =
     (if x = 0 then 0
      else of_int (round_even (x / 2 powr of_int (double_exponent x)))
             * 2 powr of_int (double_exponent x))"

text \<open>The operators \<^verbatim>\<open>+\<close>, \<^verbatim>\<open>-\<close>, \<^verbatim>\<open>*\<close> and \<^verbatim>\<open>/\<close> on doubles.\<close>

definition fadd :: "real \<Rightarrow> real \<Rightarrow> real" where
  "fadd a b = double_round (a + b)"

definition fsub :: "real \<Rightarrow> real \<Rightarrow> real" where
  "fsub a b = double_round (a - b)"

definition fmul :: "real \<Rightarrow> real \<Rightarrow> real" where
  "fmul a b = double_round (a * b)"

definition fdiv :: "real \<Rightarrow> real \<Rightarrow> real" where
  "fdiv a b = double_round (a / b)"

section \<open>Quadratic to cubic\<close>

definition quadraticToCubic :: "Point3 \<Rightarrow> Point3 \<Rightarrow> Point3 \<Rightarrow> Point3 list" where
  "quadraticToCubic p0 p1 p2 =
     (let cp1 = XYZ (fadd (px p0) (fmul (fdiv 2 3) (fsub (px p1) (px p0))))
                    (fadd (py p0) (fmul (fdiv 2 3) (fsub (py p1) (py p0)))) 0;
          cp2 = XYZ (fadd (px p2) (fmul (fdiv 2 3) (fsub (px p1) (px p2))))
                    (fadd (py p2) (fmul (fdiv 2 3) (fsub (py p1) (py p2)))) 0
      in [p0, cp1, cp2, p2])"

section \<open>The path command interpreter\<close>

text \<open>\<^verbatim>\<open>if (r.isOk) edges.push(r.value)\<close>, for the result \<open>r\<close> of a kernel call.\<close>

definition push_result :: "'e option \<times> 'k \<Rightarrow> ('e, 'k) interp \<Rightarrow> ('e, 'k) interp" where
  "push_result r s =
     (case fst r of
        Some v \<Rightarrow> s\<lparr>edges := edges s @ [v], kst := snd r\<rparr>
      | None \<Rightarrow> s\<lparr>kst := snd r\<rparr>)"

definition distToStart :: "Point3 \<Rightarrow> Point3 \<Rightarrow> real" where
  "distToStart c p =
     sqrt ((px c - px p) ^ 2 + (py c - py p) ^ 2 + (pz c - pz p) ^ 2)"

text \<open>One iteration of the loop over the commands: the body of the switch.\<close>

fun step :: "('e, 'w, 'k) shapeFactory \<Rightarrow> ('e, 'k) interp \<Rightarrow> command \<Rightarrow> ('e, 'k) interp" where
  "step F s (MOVE_TO x y) =
     (let p = XYZ x (- y) 0
      in s\<lparr>currentPoint := p, pathStartPoint := p, lastControlPoint := None\<rparr>)"
| "step F s (LINE_TO x y) =
     (let lineEnd = XYZ x (- y) 0;
          s1 = push_result (line F (kst s) (currentPoint s) lineEnd) s
      in s1\<lparr>currentPoint := lineEnd, lastControlPoint := None\<rparr>)"
| "step F s (HORIZ_LINE_TO x) =
     (let hLineEnd = XYZ x (py (currentPoint s)) 0;
          s1 = push_result (line F (kst s) (currentPoint s) hLineEnd) s
      in s1\<lparr>currentPoint := hLineEnd, lastControlPoint := None\<rparr>)"
| "step F s (VERT_LINE_TO y) =
     (let vLineEnd = XYZ (px (currentPoint s)) (- y) 0;
          s1 = push_result (line F (kst s) (currentPoint s) vLineEnd) s
      in s1\<lparr>currentPoint := vLineEnd, lastControlPoint := None\<rparr>)"
| "step F s (CURVE_TO x1 y1 x2 y2 x y) =
     (let cp1 = XYZ x1 (- y1) 0;
          cp2 = XYZ x2 (- y2) 0;
          curveEnd = XYZ x (- y) 0;
          s1 = push_result (bezier F (kst s) [currentPoint s, cp1, cp2, curveEnd]) s
      in s1\<lparr>lastControlPoint := Some cp2, currentPoint := curveEnd\<rparr>)"
| "step F s (SMOOTH_CURVE_TO x2 y2 x y) =
     (let scp1 = (case lastControlPoint s of
                    Some l \<Rightarrow> XYZ (2 * px (currentPoint s) - px l)
                                   (2 * py (currentPoint s) - py l) 0
                  | None \<Rightarrow> currentPoint s);
          scp2 = XYZ x2 (- y2) 0;
          sCurveEnd = XYZ x (- y) 0;
          s1 = push_result (bezier F (kst s) [currentPoint s, scp1, scp2, sCurveEnd]) s
      in s1\<lparr>lastControlPoint := Some scp2, currentPoint := sCurveEnd\<rparr>)"
| "step F s (QUAD_TO x1 y1 x y) =
     (let qcp = XYZ x1 (- y1) 0;
          qEnd = XYZ x (- y) 0;
          cubicPoints = quadraticToCubic (currentPoint s) qcp qEnd;
          s1 = push_result (bezier F (kst s) cubicPoints) s
      in s1\<lparr>lastControlPoint := Some qcp, currentPoint := qEnd\<rparr>)"
| "step F s (SMOOTH_QUAD_TO x y) =
     (let sqcp = (case lastControlPoint s of
                    Some l \<Rightarrow> XYZ (2 * px (currentPoint s) - px l)
                                   (2 * py (currentPoint s) - py l) 0
                  | None \<Rightarrow> currentPoint s);
          sqEnd = XYZ x (- y) 0;
          sqCubicPoints = quadraticToCubic (currentPoint s) sqcp sqEnd;
          s1 = push_result (bezier F (kst s) sqCubicPoints) s
      in s1\<lparr>lastControlPoint := Some sqcp, currentPoint := sqEnd\<rparr>)"
| "step F s (ARC rX rY xRot lArcFlag sweepFlag x y) =
     (let s0 = s\<lparr>logs := addLog
                 ''Elliptical arc (A) command not fully supported yet, using line approximation''
                 (logs s)\<rparr>;
          arcEnd = XYZ x (- y) 0;
          s1 = push_result (line F (kst s0) (currentPoint s0) arcEnd) s0
      in s1\<lparr>currentPoint := arcEnd, lastControlPoint := None\<rparr>)"
| "step F s CLOSE_PATH =
     (let s1 = (if distToStart (currentPoint s) (pathStartPoint s) > 1 / 1000
                then push_result (line F (kst s) (currentPoint s) (pathStartPoint s)) s
                else s)
      in s1\<lparr>currentPoint := pathStartPoint s, lastControlPoint := None\<rparr>)"
| "step F s (OTHER t) =
     s\<lparr>logs := addLog (''Unsupported SVG path command: '' @ string_of_nat t) (logs s)\<rparr>"

text \<open>
  The loop is inside a \<^verbatim>\<open>try\<close>, so a kernel call that throws ends it. \<open>call_of\<close>
  is the kernel call of each branch of the switch, with the arguments it has in
  \<open>step\<close>, and \<open>thrown\<close> is the exception of that call, if it throws.
\<close>

fun call_of :: "('e, 'k) interp \<Rightarrow> command \<Rightarrow> primitive option" where
  "call_of s (MOVE_TO x y) = None"
| "call_of s (LINE_TO x y) = Some (Line (currentPoint s) (XYZ x (- y) 0))"
| "call_of s (HORIZ_LINE_TO x) = Some (Line (currentPoint s) (XYZ x (py (currentPoint s)) 0))"
| "call_of s (VERT_LINE_TO y) = Some (Line (currentPoint s) (XYZ (px (currentPoint s)) (- y) 0))"
| "call_of s (CURVE_TO x1 y1 x2 y2 x y) =
     Some (CubicBezier [currentPoint s, XYZ x1 (- y1) 0, XYZ x2 (- y2) 0, XYZ x (- y) 0])"
| "call_of s (SMOOTH_CURVE_TO x2 y2 x y) =
     Some (CubicBezier
       [currentPoint s,
        (case lastControlPoint s of
           Some l \<Rightarrow> XYZ (2 * px (currentPoint s) - px l) (2 * py (currentPoint s) - py l) 0
         | None \<Rightarrow> currentPoint s),
        XYZ x2 (- y2) 0, XYZ x (- y) 0])"
| "call_of s (QUAD_TO x1 y1 x y) =
     Some (CubicBezier (quadraticToCubic (currentPoint s) (XYZ x1 (- y1) 0) (XYZ x (- y) 0)))"
| "call_of s (SMOOTH_QUAD_TO x y) =
     Some (CubicBezier
       (quadraticToCubic (currentPoint s)
          (case lastControlPoint s of
             Some l \<Rightarrow> XYZ (2 * px (currentPoint s) - px l) (2 * py (currentPoint s) - py l) 0
           | None \<Rightarrow> currentPoint s)
          (XYZ x (- y) 0)))"
| "call_of s (ARC rX rY xRot lArcFlag sweepFlag x y) =
     Some (Line (currentPoint s) (XYZ x (- y) 0))"
| "call_of s CLOSE_PATH =
     (if distToStart (currentPoint s) (pathStartPoint s) > 1 / 1000
      then Some (Line (currentPoint s) (pathStartPoint s)) else None)"
| "call_of s (OTHER t) = None"

definition thrown ::
  "('e, 'w, 'k) shapeFactory \<Rightarrow> ('e, 'k) interp \<Rightarrow> command \<Rightarrow> (string \<times> 'k) option" where
  "thrown F s cmd =
     (case call_of s cmd of
        None \<Rightarrow> None
      | Some (Line a b) \<Rightarrow> line_throws F (kst s) a b
      | Some (CubicBezier ps) \<Rightarrow> bezier_throws F (kst s) ps)"

text \<open>
  The loop \<^verbatim>\<open>for (const cmd of commands)\<close>: \<open>Inr\<close> the state after the last
  command, or \<open>Inl\<close> the exception of the first kernel call that throws, with the log
  at that moment (the log lines of a branch all come before its kernel call) and
  the kernel state it leaves.
\<close>

fun run ::
  "('e, 'w, 'k) shapeFactory \<Rightarrow> ('e, 'k) interp \<Rightarrow> command list
     \<Rightarrow> (string \<times> string list \<times> 'k) + ('e, 'k) interp" where
  "run F s [] = Inr s"
| "run F s (cmd # rest) =
     (case thrown F s cmd of
        Some (error, k) \<Rightarrow> Inl (error, logs (step F s cmd), k)
      | None \<Rightarrow> run F (step F s cmd) rest)"

text \<open>
  \<^verbatim>\<open>convertPathToEdges\<close>. The path grammar parser (package svg-pathdata) is
  external: \<open>parse\<close> stands for \<^verbatim>\<open>new SVGPathData(pathData).toAbs().commands\<close>,
  with \<open>Inl\<close> the text of the exception it throws. The \<^verbatim>\<open>catch\<close> takes the
  exception of the parser and that of a kernel call alike. The result is the
  \<^verbatim>\<open>Result\<close> (\<open>Inl\<close> the error message), the log and the kernel state.
\<close>

definition initial :: "string list \<Rightarrow> 'k \<Rightarrow> ('e, 'k) interp" where
  "initial lg k =
     \<lparr>edges = [], currentPoint = XYZ 0 0 0, pathStartPoint = XYZ 0 0 0,
      lastControlPoint = None, logs = lg, kst = k\<rparr>"

definition convertPathToEdges ::
  "(string \<Rightarrow> string + command list) \<Rightarrow> ('e, 'w, 'k) shapeFactory \<Rightarrow> string list \<Rightarrow> 'k
     \<Rightarrow> string \<Rightarrow> (string + 'e list) \<times> string list \<times> 'k" where
  "convertPathToEdges parse F lg k pathData =
     (case parse pathData of
        Inl error \<Rightarrow>
          (Inl (''Path conversion error: '' @ error),
           addLog (''Path conversion exception: '' @ error) lg, k)
      | Inr commands \<Rightarrow>
          (let lg1 = addLog (''Parsed '' @ string_of_nat (length commands) @ '' path commands'') lg
           in case run F (initial lg1 k) commands of
                Inl (error, lg2, k2) \<Rightarrow>
                  (Inl (''Path conversion error: '' @ error),
                   addLog (''Path conversion exception: '' @ error) lg2, k2)
              | Inr s \<Rightarrow>
                  (Inr (edges s),
                   addLog (''Total edges generated: '' @ string_of_nat (length (edges s))) (logs s),
                   kst s)))"

section \<open>Shape to path reduction\<close>

text \<open>
  A DOM element as the converter reads it: its tag name, its attributes in order
  (\<^verbatim>\<open>getAttribute\<close> returns the first one of that name, or null) and its text
  content. A parsed document is the list of its elements in document order.
\<close>

record element =
  tag :: string
  attributes :: "(string \<times> string) list"
  textContent :: string

definition getAttribute :: "element \<Rightarrow> string \<Rightarrow> string option" where
  "getAttribute e n = map_of (attributes e) n"

text \<open>
  White space of \<^verbatim>\<open>trim\<close> and of the class \<^verbatim>\<open>\s\<close>. A \<open>char\<close> is one code unit
  below 256; among these the white space and line terminators of ECMAScript are
  tab, line feed, vertical tab, form feed, carriage return, space and the no-break
  space \<open>0xA0\<close>. Code units from 256 on are not in the model.
\<close>

definition is_space :: "char \<Rightarrow> bool" where
  "is_space c =
     (c \<in> set [CHR 0x09, CHR 0x0A, CHR 0x0B, CHR 0x0C, CHR 0x0D, CHR 0x20, CHR 0xA0])"

definition trim :: "string \<Rightarrow> string" where
  "trim s = rev (dropWhile is_space (rev (dropWhile is_space s)))"

text \<open>The separator class \<^verbatim>\<open>[\s,]\<close>.\<close>

definition is_sep :: "char \<Rightarrow> bool" where
  "is_sep c = (is_space c \<or> c = CHR '','')"

text \<open>
  \<^verbatim>\<open>s.split(/[\s,]+/)\<close>: the pieces between the maximal runs of separators; a
  separator at the start or at the end leaves an empty piece there, and the
  empty string gives one empty piece. \<open>acc\<close> is the piece being read.
\<close>

function split_sep :: "string \<Rightarrow> string \<Rightarrow> string list" where
  "split_sep acc [] = [acc]"
| "split_sep acc (c # cs) =
     (if is_sep c then acc # split_sep [] (dropWhile is_sep cs)
      else split_sep (acc @ [c]) cs)"
  by pat_completeness auto
termination
  by (relation "measure (\<lambda>(acc, s). length s)")
     (auto simp: length_dropWhile_le less_Suc_eq_le)

text \<open>
  The local \<^verbatim>\<open>pairs\<close> of \<^verbatim>\<open>polylineToPath\<close>: despite its name it holds the
  single coordinates, one string per number.
\<close>

definition pairs_of :: "string \<Rightarrow> string list" where
  "pairs_of points = filter (\<lambda>p. length p > 0) (split_sep [] (trim points))"

text \<open>The loop \<^verbatim>\<open>for (let i = 2; i < pairs.length; i += 2)\<close>.\<close>

function polyline_loop :: "string list \<Rightarrow> nat \<Rightarrow> string \<Rightarrow> string" where
  "polyline_loop pairs i path =
     (if i < length pairs
      then polyline_loop pairs (i + 2)
             (if i + 1 < length pairs
              then path @ '' L '' @ pairs ! i @ '','' @ pairs ! (i + 1)
              else path)
      else path)"
  by pat_completeness auto
termination
  by (relation "measure (\<lambda>(pairs, i, path). length pairs - i)") auto

declare polyline_loop.simps [simp del]

definition polylineToPath :: "element \<Rightarrow> string" where
  "polylineToPath e =
     (let points = (case getAttribute e ''points'' of
                      None \<Rightarrow> ''''
                    | Some v \<Rightarrow> (if v = '''' then '''' else v));
          pairs = pairs_of points
      in if length pairs < 2 then ''''
         else polyline_loop pairs 2 (''M '' @ pairs ! 0 @ '','' @ pairs ! 1))"

definition polygonToPath :: "element \<Rightarrow> string" where
  "polygonToPath e =
     (let polylinePath = polylineToPath e
      in if polylinePath \<noteq> '''' then polylinePath @ '' Z'' else '''')"

text \<open>
  \<^verbatim>\<open>rectToPath\<close>, \<^verbatim>\<open>circleToPath\<close>, \<^verbatim>\<open>ellipseToPath\<close> and \<^verbatim>\<open>lineToPath\<close> read
  their attributes with \<^verbatim>\<open>parseFloat\<close> and print doubles into the path string;
  neither is modelled, and the four functions are parameters of the conversion.
  Each returns a string, never null.
\<close>

record reducers =
  rectToPath :: "element \<Rightarrow> string"
  circleToPath :: "element \<Rightarrow> string"
  ellipseToPath :: "element \<Rightarrow> string"
  lineToPath :: "element \<Rightarrow> string"

definition convertBasicShapeToPath :: "reducers \<Rightarrow> element \<Rightarrow> string \<Rightarrow> string option" where
  "convertBasicShapeToPath R e type =
     (if type = ''rect'' then Some (rectToPath R e)
      else if type = ''circle'' then Some (circleToPath R e)
      else if type = ''ellipse'' then Some (ellipseToPath R e)
      else if type = ''line'' then Some (lineToPath R e)
      else if type = ''polyline'' then Some (polylineToPath e)
      else if type = ''polygon'' then Some (polygonToPath e)
      else None)"

section \<open>The document conversion\<close>

definition querySelectorAll :: "element list \<Rightarrow> string \<Rightarrow> element list" where
  "querySelectorAll svgDoc t = filter (\<lambda>e. tag e = t) svgDoc"

definition totalElements :: "element list \<Rightarrow> nat" where
  "totalElements svgDoc =
     length (querySelectorAll svgDoc ''path'') +
     length (querySelectorAll svgDoc ''rect'') +
     length (querySelectorAll svgDoc ''circle'') +
     length (querySelectorAll svgDoc ''ellipse'') +
     length (querySelectorAll svgDoc ''line'') +
     length (querySelectorAll svgDoc ''polyline'') +
     length (querySelectorAll svgDoc ''polygon'')"

definition allElements :: "element list \<Rightarrow> (element \<times> string) list" where
  "allElements svgDoc =
     map (\<lambda>e. (e, ''path'')) (querySelectorAll svgDoc ''path'') @
     map (\<lambda>e. (e, ''rect'')) (querySelectorAll svgDoc ''rect'') @
     map (\<lambda>e. (e, ''circle'')) (querySelectorAll svgDoc ''circle'') @
     map (\<lambda>e. (e, ''ellipse'')) (querySelectorAll svgDoc ''ellipse'') @
     map (\<lambda>e. (e, ''line'')) (querySelectorAll svgDoc ''line'') @
     map (\<lambda>e. (e, ''polyline'')) (querySelectorAll svgDoc ''polyline'') @
     map (\<lambda>e. (e, ''polygon'')) (querySelectorAll svgDoc ''polygon'')"

text \<open>
  Modelled from the spec: \<^verbatim>\<open>GroupNode\<close> and \<^verbatim>\<open>EditableShapeNode\<close> (chili-core) are
  not among the sources. The result group is the ordered list of its shape nodes,
  a shape node is a name with a wire, \<^verbatim>\<open>add\<close> appends and \<^verbatim>\<open>count\<close> is the
  length.
\<close>

type_synonym 'w shapeNode = "string \<times> 'w"

text \<open>
  The variables the loop over the elements updates: the group, the three
  counters, the log and the kernel state.
\<close>

record ('w, 'k) conv =
  folder :: "'w shapeNode list"
  successCount :: nat
  failCount :: nat
  elementIndex :: nat
  clogs :: "string list"
  ckst :: 'k

text \<open>JavaScript's \<^verbatim>\<open>a || b\<close> on a string or null: null and the empty string are falsy.\<close>

definition or_else :: "string option \<Rightarrow> string \<Rightarrow> string" where
  "or_else a b = (case a of None \<Rightarrow> b | Some v \<Rightarrow> (if v = '''' then b else v))"

text \<open>The prefix \<^verbatim>\<open>${type} ${elementIndex}\<close> of the log lines of one element.\<close>

definition label :: "string \<Rightarrow> nat \<Rightarrow> string" where
  "label type i = type @ '' '' @ string_of_nat i"

text \<open>
  The body of \<^verbatim>\<open>allElements.forEach\<close>. It is inside the \<^verbatim>\<open>try\<close> of
  \<^verbatim>\<open>convertFromSVG\<close>: an exception of \<^verbatim>\<open>wire\<close>, or of the creation of the shape
  node and its addition to the group, leaves the loop. \<open>N name w\<close> is the exception
  that \<^verbatim>\<open>new EditableShapeNode(document, name, w)\<close> followed by \<^verbatim>\<open>folder.add\<close> throws,
  if any. The result is \<open>Inl\<close> the exception with the log at that moment, or \<open>Inr\<close>
  the state after the body. (The exceptions of the parser and of \<^verbatim>\<open>line\<close> and
  \<^verbatim>\<open>bezier\<close> do not come this far: \<^verbatim>\<open>convertPathToEdges\<close> catches them.)
\<close>

definition processElement ::
  "(string \<Rightarrow> string + command list) \<Rightarrow> reducers \<Rightarrow> ('e, 'w, 'k) shapeFactory
     \<Rightarrow> (string \<Rightarrow> 'w \<Rightarrow> string option)
     \<Rightarrow> ('w, 'k) conv \<Rightarrow> element \<times> string \<Rightarrow> (string \<times> string list) + ('w, 'k) conv" where
  "processElement parse R F N c0 et =
     (let element = fst et; type = snd et;
          c = c0\<lparr>elementIndex := elementIndex c0 + 1\<rparr>;
          elementName = or_else (getAttribute element ''id'')
                          (or_else (getAttribute element ''data-name'')
                             (''Element '' @ string_of_nat (elementIndex c)));
          c = c\<lparr>clogs := addLog (''Processing '' @ label type (elementIndex c) @ '': ''
                              @ [CHR 0x22] @ elementName @ [CHR 0x22]) (clogs c)\<rparr>;
          pathData = (if type = ''path'' then getAttribute element ''d''
                      else convertBasicShapeToPath R element type)
      in if pathData = None \<or> pathData = Some '''' \<or> trim (the pathData) = ''''
         then Inr (c\<lparr>clogs := addLog (label type (elementIndex c)
                                   @ '': empty path data, skipping'') (clogs c)\<rparr>)
         else
           (case convertPathToEdges parse F (clogs c) (ckst c) (the pathData) of
              (Inl error, lg, k) \<Rightarrow>
                Inr (c\<lparr>clogs := addLog (label type (elementIndex c) @ '' conversion failed: ''
                                     @ error) lg,
                       ckst := k, failCount := failCount c + 1\<rparr>)
            | (Inr es, lg, k) \<Rightarrow>
                (let c = c\<lparr>clogs := addLog (label type (elementIndex c) @ '': generated ''
                                    @ string_of_nat (length es) @ '' edges'') lg,
                           ckst := k\<rparr>
                 in if length es = 0
                    then Inr (c\<lparr>clogs := addLog (label type (elementIndex c)
                                           @ '': no edges generated, skipping'') (clogs c)\<rparr>)
                    else
                      (case wire_throws F (ckst c) es of
                         Some error \<Rightarrow> Inl (error, clogs c)
                       | None \<Rightarrow>
                           (case wire F (ckst c) es of
                              (Inl error, k) \<Rightarrow>
                                Inr (c\<lparr>clogs := addLog (label type (elementIndex c)
                                            @ '' wire creation failed: '' @ error) (clogs c),
                                       ckst := k, failCount := failCount c + 1\<rparr>)
                            | (Inr w, k) \<Rightarrow>
                                (case N elementName w of
                                   Some error \<Rightarrow> Inl (error, clogs c)
                                 | None \<Rightarrow>
                                     Inr (c\<lparr>folder := folder c @ [(elementName, w)],
                                           clogs := addLog (label type (elementIndex c)
                                             @ '': successfully created as '' @ [CHR 0x22]
                                             @ elementName @ [CHR 0x22]) (clogs c),
                                           ckst := k,
                                           successCount := successCount c + 1\<rparr>)))))))"

definition join_lines :: "string list \<Rightarrow> string" where
  "join_lines ls =
     (case ls of [] \<Rightarrow> '''' | l # rest \<Rightarrow> foldl (\<lambda>a b. a @ [CHR 0x0A] @ b) l rest)"

definition getErrorWithLogs :: "string list \<Rightarrow> string \<Rightarrow> string" where
  "getErrorWithLogs lg errorMessage =
     errorMessage @ [CHR 0x0A, CHR 0x0A] @ ''--- Debug Log ---'' @ [CHR 0x0A] @ join_lines lg"

text \<open>
  The loop \<^verbatim>\<open>allElements.forEach\<close>: \<open>Inr\<close> the state after the last element, or
  \<open>Inl\<close> the first exception that leaves a body.
\<close>

fun forEach ::
  "(string \<Rightarrow> string + command list) \<Rightarrow> reducers \<Rightarrow> ('e, 'w, 'k) shapeFactory
     \<Rightarrow> (string \<Rightarrow> 'w \<Rightarrow> string option)
     \<Rightarrow> ('w, 'k) conv \<Rightarrow> (element \<times> string) list \<Rightarrow> (string \<times> string list) + ('w, 'k) conv" where
  "forEach parse R F N c [] = Inr c"
| "forEach parse R F N c (et # rest) =
     (case processElement parse R F N c et of
        Inl x \<Rightarrow> Inl x
      | Inr c1 \<Rightarrow> forEach parse R F N c1 rest)"

text \<open>The loop from the state in which \<^verbatim>\<open>convertFromSVG\<close> enters it, with the log \<open>lg\<close>.\<close>

definition processAll ::
  "(string \<Rightarrow> string + command list) \<Rightarrow> reducers \<Rightarrow> ('e, 'w, 'k) shapeFactory
     \<Rightarrow> (string \<Rightarrow> 'w \<Rightarrow> string option)
     \<Rightarrow> string list \<Rightarrow> 'k \<Rightarrow> (element \<times> string) list \<Rightarrow> (string \<times> string list) + ('w, 'k) conv" where
  "processAll parse R F N lg k els =
     forEach parse R F N
       \<lparr>folder = [], successCount = 0, failCount = 0, elementIndex = 0, clogs = lg, ckst = k\<rparr>
       els"

definition found_message :: "element list \<Rightarrow> string" where
  "found_message svgDoc =
     ''Found '' @ string_of_nat (totalElements svgDoc) @ '' SVG elements (''
     @ string_of_nat (length (querySelectorAll svgDoc ''path'')) @ '' path, ''
     @ string_of_nat (length (querySelectorAll svgDoc ''rect'')) @ '' rect, ''
     @ string_of_nat (length (querySelectorAll svgDoc ''circle'')) @ '' circle, ''
     @ string_of_nat (length (querySelectorAll svgDoc ''ellipse'')) @ '' ellipse, ''
     @ string_of_nat (length (querySelectorAll svgDoc ''line'')) @ '' line, ''
     @ string_of_nat (length (querySelectorAll svgDoc ''polyline'')) @ '' polyline, ''
     @ string_of_nat (length (querySelectorAll svgDoc ''polygon'')) @ '' polygon)''"

text \<open>
  \<^verbatim>\<open>convertFromSVG\<close>, from the document that \<^verbatim>\<open>DOMParser\<close> returns. A document
  that failed to parse holds a \<^verbatim>\<open>parsererror\<close> element. The outer \<^verbatim>\<open>catch\<close> takes
  the exception that leaves the loop; the calls before the loop (the DOM queries
  and the creation of the group) are taken not to throw.
\<close>

definition convertFromSVG ::
  "(string \<Rightarrow> string + command list) \<Rightarrow> reducers \<Rightarrow> ('e, 'w, 'k) shapeFactory
     \<Rightarrow> (string \<Rightarrow> 'w \<Rightarrow> string option)
     \<Rightarrow> 'k \<Rightarrow> element list \<Rightarrow> string + 'w shapeNode list" where
  "convertFromSVG parse R F N k svgDoc =
     (let lg = addLog ''SVG content parsed by DOMParser'' (addLog ''SVG import started'' [])
      in case find (\<lambda>e. tag e = ''parsererror'') svgDoc of
           Some parserError \<Rightarrow>
             Inl (getErrorWithLogs
                    (addLog (''Parser error detected: '' @ textContent parserError) lg)
                    ''Invalid SVG file'')
         | None \<Rightarrow>
             (let lg = addLog (found_message svgDoc) lg
              in if totalElements svgDoc = 0
                 then Inl (getErrorWithLogs lg ''No supported SVG elements found'')
                 else
                   (case processAll parse R F N lg k (allElements svgDoc) of
                      Inl (error, lg1) \<Rightarrow>
                        Inl (getErrorWithLogs (addLog (''Exception caught: '' @ error) lg1)
                               (''SVG conversion error: '' @ error))
                    | Inr c \<Rightarrow>
                        (let lg = addLog (''Import completed: ''
                                     @ string_of_nat (successCount c) @ '' success, ''
                                     @ string_of_nat (failCount c) @ '' failed'') (clogs c)
                         in if length (folder c) = 0
                            then Inl (getErrorWithLogs lg ''No valid paths could be imported'')
                            else Inr (folder c)))))"

section \<open>Notions used to state the properties\<close>

text \<open>
  The kernel that builds every primitive and answers with the request itself, and
  never throws: run on it, the interpreter's \<open>edges\<close> are the primitives it emits.
\<close>

definition echo :: "(primitive, primitive list, unit) shapeFactory" where
  "echo = \<lparr>line = (\<lambda>k a b. (Some (Line a b), k)),
           bezier = (\<lambda>k ps. (Some (CubicBezier ps), k)),
           wire = (\<lambda>k es. (Inr es, k)),
           line_throws = (\<lambda>k a b. None),
           bezier_throws = (\<lambda>k ps. None),
           wire_throws = (\<lambda>k es. None)\<rparr>"

definition requests :: "command list \<Rightarrow> primitive list" where
  "requests cmds = edges (foldl (step echo) (initial [] ()) cmds)"

text \<open>What a kernel result adds to \<open>edges\<close>: its value when it is ok, nothing otherwise.\<close>

definition pushed :: "'e option \<times> 'k \<Rightarrow> 'e list" where
  "pushed r = (case fst r of Some v \<Rightarrow> [v] | None \<Rightarrow> [])"

text \<open>
  A kernel serving a list of requests one after the other from the state \<open>k\<close>:
  the values of the requests that succeed, in order, and the last kernel state.
\<close>

fun serve :: "('e, 'w, 'k) shapeFactory \<Rightarrow> 'k \<Rightarrow> primitive list \<Rightarrow> 'e list \<times> 'k" where
  "serve F k [] = ([], k)"
| "serve F k (r # rs) =
     (let res = (case r of Line a b \<Rightarrow> line F k a b | CubicBezier ps \<Rightarrow> bezier F k ps);
          rest = serve F (snd res) rs
      in (pushed res @ fst rest, snd rest))"

text \<open>The tracked state of the interpreter.\<close>

definition track :: "('e, 'k) interp \<Rightarrow> Point3 \<times> Point3 \<times> Point3 option" where
  "track s = (currentPoint s, pathStartPoint s, lastControlPoint s)"

text \<open>Points of the working plane, and the vector operations on points.\<close>

definition planar :: "Point3 \<Rightarrow> bool" where
  "planar p = (pz p = 0)"

definition padd :: "Point3 \<Rightarrow> Point3 \<Rightarrow> Point3" where
  "padd a b = XYZ (px a + px b) (py a + py b) (pz a + pz b)"

definition psub :: "Point3 \<Rightarrow> Point3 \<Rightarrow> Point3" where
  "psub a b = XYZ (px a - px b) (py a - py b) (pz a - pz b)"

definition pscale :: "real \<Rightarrow> Point3 \<Rightarrow> Point3" where
  "pscale t a = XYZ (t * px a) (t * py a) (t * pz a)"

text \<open>
  The point at parameter \<open>t\<close> of the quadratic B\'ezier curve with control points
  \<open>p0 p1 p2\<close> and of the cubic one with the four control points of a list
  (Bernstein form).
\<close>

definition quadratic_at :: "Point3 \<Rightarrow> Point3 \<Rightarrow> Point3 \<Rightarrow> real \<Rightarrow> Point3" where
  "quadratic_at p0 p1 p2 t =
     padd (pscale ((1 - t) ^ 2) p0) (padd (pscale (2 * (1 - t) * t) p1) (pscale (t ^ 2) p2))"

fun cubic_at :: "Point3 list \<Rightarrow> real \<Rightarrow> Point3" where
  "cubic_at [b0, b1, b2, b3] t =
     padd (pscale ((1 - t) ^ 3) b0)
       (padd (pscale (3 * (1 - t) ^ 2 * t) b1)
          (padd (pscale (3 * (1 - t) * t ^ 2) b2) (pscale (t ^ 3) b3)))"
| "cubic_at _ t = XYZ 0 0 0"

text \<open>The commands that clear the last control point, and the four curve commands.\<close>

fun clears :: "command \<Rightarrow> bool" where
  "clears (MOVE_TO x y) = True"
| "clears (LINE_TO x y) = True"
| "clears (HORIZ_LINE_TO x) = True"
| "clears (VERT_LINE_TO y) = True"
| "clears (ARC rX rY xRot lArcFlag sweepFlag x y) = True"
| "clears CLOSE_PATH = True"
| "clears _ = False"

fun is_curve :: "command \<Rightarrow> bool" where
  "is_curve (CURVE_TO x1 y1 x2 y2 x y) = True"
| "is_curve (SMOOTH_CURVE_TO x2 y2 x y) = True"
| "is_curve (QUAD_TO x1 y1 x y) = True"
| "is_curve (SMOOTH_QUAD_TO x y) = True"
| "is_curve _ = False"

text \<open>All three tracked points lie in the working plane.\<close>

definition planar_state :: "('e, 'k) interp \<Rightarrow> bool" where
  "planar_state s =
     (planar (currentPoint s) \<and> planar (pathStartPoint s)
      \<and> (case lastControlPoint s of None \<Rightarrow> True | Some l \<Rightarrow> planar l))"

text \<open>
  A kernel for the examples: it refuses a line between two equal points, a
  B\'ezier curve that has not four control points and a wire without edges, and
  it counts its calls.
\<close>

definition strict :: "(primitive, primitive list, nat) shapeFactory" where
  "strict = \<lparr>line = (\<lambda>k a b. (if a = b then None else Some (Line a b), k + 1)),
             bezier = (\<lambda>k ps. (if length ps = 4 then Some (CubicBezier ps) else None, k + 1)),
             wire = (\<lambda>k es. (if es = [] then Inl ''empty wire'' else Inr es, k + 1)),
             line_throws = (\<lambda>k a b. None),
             bezier_throws = (\<lambda>k ps. None),
             wire_throws = (\<lambda>k es. None)\<rparr>"

text \<open>
  A kernel for the examples that throws: on a line between two equal points and
  on a wire of more than two edges. Otherwise it builds what it is asked for.
\<close>

definition brittle :: "(primitive, primitive list, nat) shapeFactory" where
  "brittle = \<lparr>line = (\<lambda>k a b. (Some (Line a b), k + 1)),
              bezier = (\<lambda>k ps. (Some (CubicBezier ps), k + 1)),
              wire = (\<lambda>k es. (Inr es, k + 1)),
              line_throws = (\<lambda>k a b. if a = b then Some (''degenerate line'', k + 1) else None),
              bezier_throws = (\<lambda>k ps. None),
              wire_throws = (\<lambda>k es. if 2 < length es then Some ''wire not connected'' else None)\<rparr>"

text \<open>The creation of shape nodes that never throws.\<close>

definition no_throw :: "string \<Rightarrow> 'w \<Rightarrow> string option" where
  "no_throw name w = None"

text \<open>A kernel none of whose calls to \<^verbatim>\<open>line\<close> and \<^verbatim>\<open>bezier\<close> throws.\<close>

definition returns :: "('e, 'w, 'k) shapeFactory \<Rightarrow> bool" where
  "returns F = ((\<forall>k a b. line_throws F k a b = None) \<and> (\<forall>k ps. bezier_throws F k ps = None))"

text \<open>A parser for the examples: a table from path strings to their commands.\<close>

definition table_parse :: "(string \<times> command list) list \<Rightarrow> string \<Rightarrow> string + command list" where
  "table_parse tbl d =
     (case map_of tbl d of Some cmds \<Rightarrow> Inr cmds | None \<Rightarrow> Inl ''Unexpected character'')"

text \<open>
  The seven element types in the order in which \<^verbatim>\<open>convertFromSVG\<close> lists them, and
  the position of a type in that order.
\<close>

definition supportedTypes :: "string list" where
  "supportedTypes = [''path'', ''rect'', ''circle'', ''ellipse'', ''line'', ''polyline'', ''polygon'']"

definition rank :: "string \<Rightarrow> nat" where
  "rank t = length (takeWhile (\<lambda>u. u \<noteq> t) supportedTypes)"

text \<open>The log of \<^verbatim>\<open>convertFromSVG\<close> when the loop over the elements starts.\<close>

definition importLog :: "element list \<Rightarrow> string list" where
  "importLog svgDoc =
     addLog (found_message svgDoc)
       (addLog ''SVG content parsed by DOMParser'' (addLog ''SVG import started'' []))"

text \<open>
  The local \<^verbatim>\<open>pathData\<close> of the loop body, the test that makes the body skip the
  element, the local \<^verbatim>\<open>elementName\<close> and the first log line of the body.
\<close>

definition pathDataOf :: "reducers \<Rightarrow> element \<Rightarrow> string \<Rightarrow> string option" where
  "pathDataOf R e type =
     (if type = ''path'' then getAttribute e ''d'' else convertBasicShapeToPath R e type)"

definition emptyData :: "string option \<Rightarrow> bool" where
  "emptyData pathData = (pathData = None \<or> pathData = Some '''' \<or> trim (the pathData) = '''')"

definition elementNameOf :: "element \<Rightarrow> nat \<Rightarrow> string" where
  "elementNameOf e i =
     or_else (getAttribute e ''id'')
       (or_else (getAttribute e ''data-name'') (''Element '' @ string_of_nat i))"

definition processingLine :: "element \<Rightarrow> string \<Rightarrow> nat \<Rightarrow> string" where
  "processingLine e type i =
     ''Processing '' @ label type i @ '': '' @ [CHR 0x22] @ elementNameOf e i @ [CHR 0x22]"

text \<open>
  The first log lines of the loop bodies, and the names of the shape nodes, for a
  list of elements processed one after the other when \<^verbatim>\<open>elementIndex\<close> is \<open>i\<close> at
  the start.
\<close>

fun processingLines :: "nat \<Rightarrow> (element \<times> string) list \<Rightarrow> string list" where
  "processingLines i [] = []"
| "processingLines i (et # rest) =
     processingLine (fst et) (snd et) (i + 1) # processingLines (i + 1) rest"

fun nodeNames :: "nat \<Rightarrow> (element \<times> string) list \<Rightarrow> string list" where
  "nodeNames i [] = []"
| "nodeNames i (et # rest) = elementNameOf (fst et) (i + 1) # nodeNames (i + 1) rest"

text \<open>Reducers for the examples: one fixed path string for each of the four shapes.\<close>

definition sample_reducers :: reducers where
  "sample_reducers =
     \<lparr>rectToPath = (\<lambda>e. ''M 0,0 h 10 v 5 h -10 Z''),
      circleToPath = (\<lambda>e. ''M -1,0 C -1,-1 -1,-1 0,-1 Z''),
      ellipseToPath = (\<lambda>e. ''M -2,0 C -2,-1 -2,-1 0,-1 Z''),
      lineToPath = (\<lambda>e. ''M 0,0 L 1,1'')\<rparr>"

text \<open>
  The path text \<^verbatim>\<open>M t0,t1 L t2,t3 L t4,t5 ...\<close> of a list of coordinate strings
  (a last string without a partner is left out), and the commands the path grammar
  assigns to that text when \<open>num\<close> reads a coordinate string as a number: one
  \<^verbatim>\<open>MOVE_TO\<close> and one \<^verbatim>\<open>LINE_TO\<close> for each \<^verbatim>\<open>L\<close>. They state what is assumed of
  the external parser.
\<close>

fun lineto_text :: "string list \<Rightarrow> string" where
  "lineto_text (a # b # rest) = '' L '' @ a @ '','' @ b @ lineto_text rest"
| "lineto_text _ = ''''"

definition polyline_text :: "string list \<Rightarrow> string" where
  "polyline_text ts = ''M '' @ ts ! 0 @ '','' @ ts ! 1 @ lineto_text (drop 2 ts)"

fun lineto_commands :: "(string \<Rightarrow> real) \<Rightarrow> string list \<Rightarrow> command list" where
  "lineto_commands num (a # b # rest) = LINE_TO (num a) (num b) # lineto_commands num rest"
| "lineto_commands num _ = []"

definition polyline_commands :: "(string \<Rightarrow> real) \<Rightarrow> string list \<Rightarrow> command list" where
  "polyline_commands num ts =
     MOVE_TO (num (ts ! 0)) (num (ts ! 1)) # lineto_commands num (drop 2 ts)"

text \<open>A reader of coordinate strings for the examples: a table.\<close>

definition table_num :: "(string \<times> real) list \<Rightarrow> string \<Rightarrow> real" where
  "table_num tbl t = (case map_of tbl t of Some r \<Rightarrow> r | None \<Rightarrow> 0)"

section \<open>Basic facts\<close>

lemma Point3_eqI: "px a = px b \<Longrightarrow> py a = py b \<Longrightarrow> pz a = pz b \<Longrightarrow> (a::Point3) = b"
  by simp

lemma XYZ_sel [simp]: "px (XYZ a b c) = a" "py (XYZ a b c) = b" "pz (XYZ a b c) = c"
  by (simp_all add: XYZ_def)

lemma XYZ_eq [simp]: "(XYZ a b c = XYZ a' b' c') = (a = a' \<and> b = b' \<and> c = c')"
  by (simp add: XYZ_def)

lemma push_result_simps [simp]:
  "edges (push_result r s) = edges s @ pushed r"
  "kst (push_result r s) = snd r"
  "currentPoint (push_result r s) = currentPoint s"
  "pathStartPoint (push_result r s) = pathStartPoint s"
  "lastControlPoint (push_result r s) = lastControlPoint s"
  "logs (push_result r s) = logs s"
  by (simp_all add: push_result_def pushed_def split: option.splits)

lemma echo_simps [simp]:
  "line echo k a b = (Some (Line a b), k)"
  "bezier echo k ps = (Some (CubicBezier ps), k)"
  "wire echo k es = (Inr es, k)"
  "line_throws echo k a b = None"
  "bezier_throws echo k ps = None"
  "wire_throws echo k es = None"
  by (simp_all add: echo_def)

lemma pushed_Some [simp]: "pushed (Some v, k) = [v]"
  by (simp add: pushed_def)

lemma pushed_None [simp]: "pushed (None, k) = []"
  by (simp add: pushed_def)

lemma sqrt_gt_milli: "(sqrt d > 1 / 1000) = (d > 1 / 1000000)"
proof -
  have "(sqrt d > 1 / 1000) = (sqrt d > sqrt (1 / 1000000))"
    by (simp add: real_sqrt_divide)
  also have "\<dots> = (d > 1 / 1000000)"
    by (rule real_sqrt_less_iff)
  finally show ?thesis .
qed

section \<open>The tracked state does not depend on the kernel\<close>

lemma track_step:
  "track s = track s' \<Longrightarrow> track (step F s c) = track (step F' s' c)"
  by (cases c) (auto simp add: track_def Let_def split: option.splits)

lemma track_run:
  "track s = track s' \<Longrightarrow> track (foldl (step F) s cmds) = track (foldl (step F') s' cmds)"
  by (induction cmds arbitrary: s s') (simp_all add: track_step)

lemma serve_append:
  "serve F k (rs @ rs') =
     (fst (serve F k rs) @ fst (serve F (snd (serve F k rs)) rs'),
      snd (serve F (snd (serve F k rs)) rs'))"
  by (induction rs arbitrary: k) (simp_all add: Let_def)

lemma step_serve:
  assumes "track s = track s'"
  shows "\<exists>R. edges (step echo s' c) = edges s' @ R
           \<and> edges (step F s c) = edges s @ fst (serve F (kst s) R)
           \<and> kst (step F s c) = snd (serve F (kst s) R)"
  using assms
  by (cases c) (auto simp add: track_def Let_def split: option.splits)

lemma run_serve:
  assumes "track s = track s'"
  shows "\<exists>R. edges (foldl (step echo) s' cmds) = edges s' @ R
           \<and> edges (foldl (step F) s cmds) = edges s @ fst (serve F (kst s) R)
           \<and> kst (foldl (step F) s cmds) = snd (serve F (kst s) R)"
proof (induction cmds rule: rev_induct)
  case Nil
  show ?case by simp
next
  case (snoc c cmds)
  then obtain R where R: "edges (foldl (step echo) s' cmds) = edges s' @ R"
    "edges (foldl (step F) s cmds) = edges s @ fst (serve F (kst s) R)"
    "kst (foldl (step F) s cmds) = snd (serve F (kst s) R)" by blast
  have t: "track (foldl (step F) s cmds) = track (foldl (step echo) s' cmds)"
    using assms by (rule track_run)
  from step_serve [OF t, of c F] obtain R' where R':
    "edges (step echo (foldl (step echo) s' cmds) c) = edges (foldl (step echo) s' cmds) @ R'"
    "edges (step F (foldl (step F) s cmds) c)
       = edges (foldl (step F) s cmds) @ fst (serve F (kst (foldl (step F) s cmds)) R')"
    "kst (step F (foldl (step F) s cmds) c) = snd (serve F (kst (foldl (step F) s cmds)) R')"
    by blast
  show ?case
    by (rule exI [of _ "R @ R'"]) (simp add: R R' serve_append)
qed

lemma run_requests:
  "edges (foldl (step F) (initial lg k) cmds) = fst (serve F k (requests cmds))"
  "kst (foldl (step F) (initial lg k) cmds) = snd (serve F k (requests cmds))"
proof -
  have "track (initial lg k :: ('a, 'b) interp) = track (initial [] () :: (primitive, unit) interp)"
    by (simp add: track_def initial_def)
  from run_serve [OF this, of cmds F]
  show "edges (foldl (step F) (initial lg k) cmds) = fst (serve F k (requests cmds))"
    "kst (foldl (step F) (initial lg k) cmds) = snd (serve F k (requests cmds))"
    by (auto simp: requests_def initial_def)
qed

section \<open>Closing a sub-path\<close>



section \<open>Rounding of doubles\<close>

lemma round_even_error: "\<bar>of_int (round_even y) - y\<bar> \<le> 1 / 2"
  unfolding round_even_def Let_def by (auto; linarith)

lemma pow_floor_log: "0 < a \<Longrightarrow> 2 powr of_int \<lfloor>log 2 a\<rfloor> \<le> a"
proof -
  assume a: "0 < a"
  have "2 powr of_int \<lfloor>log 2 a\<rfloor> \<le> 2 powr (log 2 a)"
    by (rule powr_mono) simp_all
  also have "\<dots> = a" using a by simp
  finally show ?thesis .
qed

lemma double_exponent_unique:
  assumes "x \<noteq> 0" "2 ^ 52 \<le> \<bar>x\<bar> / 2 powr of_int e" "\<bar>x\<bar> / 2 powr of_int e < 2 ^ 53"
    "- 1074 \<le> e"
  shows "double_exponent x = e"
proof -
  have a: "0 < \<bar>x\<bar>" using assms(1) by simp
  have p: "(0::real) < 2 powr of_int e" by simp
  have "2 powr 52 * 2 powr of_int e \<le> \<bar>x\<bar>"
    using assms(2) p by (simp add: pos_le_divide_eq)
  then have "2 powr (52 + of_int e) \<le> \<bar>x\<bar>"
    by (simp add: powr_add)
  then have lo: "52 + of_int e \<le> log 2 \<bar>x\<bar>"
    using a by (simp add: powr_le_iff)
  have "\<bar>x\<bar> < 2 powr 53 * 2 powr of_int e"
    using assms(3) p by (simp add: pos_divide_less_eq)
  then have "\<bar>x\<bar> < 2 powr (53 + of_int e)"
    by (simp add: powr_add)
  then have hi: "log 2 \<bar>x\<bar> < 53 + of_int e"
    using a by (simp add: less_powr_iff)
  have "\<lfloor>log 2 \<bar>x\<bar>\<rfloor> = 52 + e"
    by (rule floor_unique) (use lo hi in simp_all)
  then show ?thesis
    using assms(4) by (simp add: double_exponent_def)
qed

lemma double_round_error: "\<bar>double_round x - x\<bar> \<le> \<bar>x\<bar> / 2 ^ 53 + 2 powr (- 1075)"
proof (cases "x = 0")
  case True
  then show ?thesis by (simp add: double_round_def)
next
  case False
  define e where "e = double_exponent x"
  define y where "y = x / 2 powr of_int e"
  have p: "(0::real) < 2 powr of_int e" by simp
  have xy: "y * 2 powr of_int e = x" by (simp add: y_def)
  have dr: "double_round x = of_int (round_even y) * 2 powr of_int e"
    using False by (simp add: double_round_def e_def y_def)
  have "double_round x - x = of_int (round_even y) * 2 powr of_int e - y * 2 powr of_int e"
    by (simp only: dr xy)
  also have "\<dots> = (of_int (round_even y) - y) * 2 powr of_int e"
    by (simp add: algebra_simps)
  finally have "\<bar>double_round x - x\<bar> = \<bar>of_int (round_even y) - y\<bar> * 2 powr of_int e"
    by (simp add: abs_mult)
  also have "\<dots> \<le> 1 / 2 * 2 powr of_int e"
    by (rule mult_right_mono [OF round_even_error]) simp
  finally have h: "\<bar>double_round x - x\<bar> \<le> 2 powr of_int e / 2" by simp
  have "2 powr of_int e / 2 \<le> \<bar>x\<bar> / 2 ^ 53 + 2 powr (- 1075)"
  proof (cases "e = - 1074")
    case True
    have "(2::real) powr (- 1075) * 2 powr 1 = 2 powr (- 1075 + 1)"
      by (rule powr_add [symmetric])
    then have "(2::real) powr (- 1074) / 2 = 2 powr (- 1075)"
      by simp
    then show ?thesis using True by simp
  next
    case False
    then have ee: "e = \<lfloor>log 2 \<bar>x\<bar>\<rfloor> - 52"
      by (simp add: e_def double_exponent_def max_def split: if_splits)
    have "(2::real) powr of_int e = 2 powr of_int \<lfloor>log 2 \<bar>x\<bar>\<rfloor> / 2 powr 52"
      by (simp add: ee powr_diff)
    also have "\<dots> \<le> \<bar>x\<bar> / 2 powr 52"
      by (rule divide_right_mono [OF pow_floor_log]) (use \<open>x \<noteq> 0\<close> in simp_all)
    also have "\<dots> = \<bar>x\<bar> / 2 ^ 52"
      by simp
    finally have "2 powr of_int e / 2 \<le> \<bar>x\<bar> / 2 ^ 53" by simp
    then show ?thesis by (simp add: add_increasing2)
  qed
  with h show ?thesis by linarith
qed

lemma double_round_eval:
  assumes "x \<noteq> 0" "2 ^ 52 \<le> \<bar>x\<bar> / 2 powr of_int e" "\<bar>x\<bar> / 2 powr of_int e < 2 ^ 53"
    "- 1074 \<le> e"
  shows "double_round x = of_int (round_even (x / 2 powr of_int e)) * 2 powr of_int e"
  using assms(1) by (simp add: double_round_def double_exponent_unique [OF assms])

lemma two_thirds: "double_round (2 / 3) = 6004799503160661 / 2 ^ 53"
proof -
  have "double_round (2 / 3) = of_int (round_even (2 / 3 / 2 powr of_int (- 53))) * 2 powr of_int (- 53)"
    by (rule double_round_eval) (simp_all add: powr_minus)
  also have "(2::real) / 3 / 2 powr of_int (- 53) = 18014398509481984 / 3"
    by (simp add: powr_minus)
  also have "round_even (18014398509481984 / 3) = 6004799503160661"
    by (simp add: round_even_def Let_def)
  finally show ?thesis by (simp add: powr_minus)
qed

lemma double_round_error_numeral:
  "\<bar>double_round x - x\<bar> \<le> \<bar>x\<bar> / 9007199254740992 + 2 powr (- 1075)"
  using double_round_error [of x] by simp

lemma rounded_within:
  assumes "\<bar>x\<bar> \<le> U"
  shows "\<bar>double_round x - x\<bar> \<le> U / 9007199254740992 + 2 powr (- 1075)"
proof -
  have "\<bar>x\<bar> / 9007199254740992 \<le> U / 9007199254740992" using assms by simp
  with double_round_error_numeral [of x] show ?thesis by linarith
qed

lemma two_thirds_scale:
  fixes x U :: real
  assumes "0 \<le> x" "x \<le> U"
  shows "6004799503160661 / 9007199254740992 * x \<le> 2 / 3 * U"
  using assms by linarith

lemma elevation_error:
  assumes "\<bar>a\<bar> \<le> B" "\<bar>b\<bar> \<le> B"
  shows "\<bar>fadd a (fmul (fdiv 2 3) (fsub b a)) - (a + 2 / 3 * (b - a))\<bar>
           \<le> 6 * B / 2 ^ 53 + 3 * 2 powr (- 1075)"
proof -
  define h :: real where "h = 2 powr (- 1075)"
  define d where "d = double_round (b - a)"
  define P where "P = 6004799503160661 / 9007199254740992 * d"
  define m where "m = double_round P"
  define s where "s = double_round (a + m)"
  have h0: "0 \<le> h" by (simp add: h_def)
  have h1: "h \<le> 1 / 2 ^ 1075"
    by (simp add: h_def powr_minus powr_realpow [symmetric] divide_simps)
  have B0: "0 \<le> B" using assms(1) by argo
  have c: "fdiv 2 3 = 6004799503160661 / 9007199254740992"
    by (simp add: fdiv_def two_thirds)
  have s: "fadd a (fmul (fdiv 2 3) (fsub b a)) = s"
    by (simp add: c fadd_def fmul_def fsub_def s_def m_def P_def d_def)
  have e1: "\<bar>b - a\<bar> \<le> 2 * B" using assms by argo
  have e2: "\<bar>d - (b - a)\<bar> \<le> 2 * B / 9007199254740992 + h"
    unfolding d_def h_def by (rule rounded_within [OF e1])
  have e3: "\<bar>d\<bar> \<le> 2 * B + 2 * B / 9007199254740992 + h" using e1 e2 by argo
  have pd: "\<bar>P\<bar> = 6004799503160661 / 9007199254740992 * \<bar>d\<bar>"
    by (simp add: P_def abs_mult)
  have e4: "\<bar>P\<bar> \<le> 2 / 3 * (2 * B + 2 * B / 9007199254740992 + h)"
    unfolding pd by (rule two_thirds_scale [OF abs_ge_zero e3])
  have e5: "\<bar>P - 2 / 3 * (b - a)\<bar>
              \<le> 2 / 3 * (2 * B / 9007199254740992 + h) + 2 * B / (3 * 9007199254740992)"
    unfolding P_def using e2 e1 B0 h0 by argo
  have r2: "\<bar>m - P\<bar> \<le> 2 / 3 * (2 * B + 2 * B / 9007199254740992 + h) / 9007199254740992 + h"
    unfolding m_def h_def by (rule rounded_within [OF e4 [unfolded h_def]])
  have e6: "\<bar>m - 2 / 3 * (b - a)\<bar>
              \<le> 2 / 3 * (2 * B + 2 * B / 9007199254740992 + h) / 9007199254740992 + h
                  + 2 / 3 * (2 * B / 9007199254740992 + h) + 2 * B / (3 * 9007199254740992)"
    using r2 e5 by argo
  have e7: "\<bar>a + m\<bar> \<le> B + 4 / 3 * B
              + (2 / 3 * (2 * B + 2 * B / 9007199254740992 + h) / 9007199254740992 + h
                  + 2 / 3 * (2 * B / 9007199254740992 + h) + 2 * B / (3 * 9007199254740992))"
    using e6 e1 assms(1) by argo
  have r3: "\<bar>s - (a + m)\<bar> \<le> (B + 4 / 3 * B
              + (2 / 3 * (2 * B + 2 * B / 9007199254740992 + h) / 9007199254740992 + h
                  + 2 / 3 * (2 * B / 9007199254740992 + h) + 2 * B / (3 * 9007199254740992)))
              / 9007199254740992 + h"
    unfolding s_def h_def by (rule rounded_within [OF e7 [unfolded h_def]])
  have "\<bar>s - (a + 2 / 3 * (b - a))\<bar> \<le> 6 * B / 9007199254740992 + 3 * h"
    using r3 e6 B0 h0 by argo
  then show ?thesis by (simp add: s h_def)
qed

section \<open>Degree elevation\<close>

lemma double_round_zero [simp]: "double_round 0 = 0"
  by (simp add: double_round_def)

lemma double_round_pow26: "double_round (2 ^ 26) = 2 ^ 26"
proof -
  have "double_round (2 ^ 26) = of_int (round_even (2 ^ 26 / 2 powr of_int (- 26))) * 2 powr of_int (- 26)"
    by (rule double_round_eval) (simp_all add: powr_minus)
  also have "(2::real) ^ 26 / 2 powr of_int (- 26) = 4503599627370496"
    by (simp add: powr_minus)
  also have "round_even 4503599627370496 = 4503599627370496"
    by (simp add: round_even_def Let_def)
  finally show ?thesis by (simp add: powr_minus)
qed

lemma double_round_scaled: "double_round (6004799503160661 / 2 ^ 27) = 6004799503160661 / 2 ^ 27"
proof -
  have "double_round (6004799503160661 / 2 ^ 27)
          = of_int (round_even (6004799503160661 / 2 ^ 27 / 2 powr of_int (- 27))) * 2 powr of_int (- 27)"
    by (rule double_round_eval) (simp_all add: powr_minus)
  also have "(6004799503160661::real) / 2 ^ 27 / 2 powr of_int (- 27) = 6004799503160661"
    by (simp add: powr_minus)
  also have "round_even 6004799503160661 = 6004799503160661"
    by (simp add: round_even_def Let_def)
  finally show ?thesis by (simp add: powr_minus)
qed

lemma elevation_example:
  "fadd 0 (fmul (fdiv 2 3) (fsub (2 ^ 26) 0)) = 6004799503160661 / 2 ^ 27"
proof -
  have "fmul (fdiv 2 3) (fsub (2 ^ 26) 0) = double_round (6004799503160661 / 2 ^ 53 * 2 ^ 26)"
    by (simp only: fmul_def fdiv_def fsub_def two_thirds diff_zero double_round_pow26)
  also have "(6004799503160661::real) / 2 ^ 53 * 2 ^ 26 = 6004799503160661 / 2 ^ 27"
    by simp
  finally have "fmul (fdiv 2 3) (fsub (2 ^ 26) 0) = 6004799503160661 / 2 ^ 27"
    by (simp only: double_round_scaled)
  then show ?thesis
    by (simp only: fadd_def add_0 double_round_scaled)
qed

lemma elevation_zero: "fadd 0 (fmul (fdiv 2 3) (fsub 0 0)) = 0"
  by (simp add: fadd_def fmul_def fsub_def)

lemma tiny: "(2::real) powr (- 1075) \<le> 1 / 2 ^ 60"
proof -
  have "(2::real) powr (- 1075) \<le> 2 powr (- 60)"
    by (rule powr_mono) simp_all
  also have "\<dots> = 1 / 2 ^ 60"
    by (simp add: powr_minus divide_simps)
  finally show ?thesis .
qed

lemma half_way:
  "px (cubic_at [p0, c1, c2, p2] (1 / 2)) - px (quadratic_at p0 p1 p2 (1 / 2))
     = 3 / 8 * ((px c1 - (px p0 + 2 / 3 * (px p1 - px p0)))
                + (px c2 - (px p2 + 2 / 3 * (px p1 - px p2))))"
  "py (cubic_at [p0, c1, c2, p2] (1 / 2)) - py (quadratic_at p0 p1 p2 (1 / 2))
     = 3 / 8 * ((py c1 - (py p0 + 2 / 3 * (py p1 - py p0)))
                + (py c2 - (py p2 + 2 / 3 * (py p1 - py p2))))"
  "pz (cubic_at [p0, c1, c2, p2] (1 / 2)) - pz (quadratic_at p0 p1 p2 (1 / 2))
     = 3 / 8 * (pz c1 + pz c2) - (pz p0 + 4 * pz p1 + pz p2) / 8"
  by (simp_all add: quadratic_at_def padd_def pscale_def power2_eq_square power3_eq_cube
      field_simps)




section \<open>Invariants of the interpreter state\<close>

lemma strict_simps [simp]:
  "line strict k a b = (if a = b then None else Some (Line a b), k + 1)"
  "bezier strict k ps = (if length ps = 4 then Some (CubicBezier ps) else None, k + 1)"
  "wire strict k es = (if es = [] then Inl ''empty wire'' else Inr es, k + 1)"
  "line_throws strict k a b = None"
  "bezier_throws strict k ps = None"
  "wire_throws strict k es = None"
  by (simp_all add: strict_def)

lemma brittle_simps [simp]:
  "line brittle k a b = (Some (Line a b), k + 1)"
  "bezier brittle k ps = (Some (CubicBezier ps), k + 1)"
  "wire brittle k es = (Inr es, k + 1)"
  "line_throws brittle k a b = (if a = b then Some (''degenerate line'', k + 1) else None)"
  "bezier_throws brittle k ps = None"
  "wire_throws brittle k es = (if 2 < length es then Some ''wire not connected'' else None)"
  by (simp_all add: brittle_def)

lemma planar_step: "planar_state s \<Longrightarrow> planar_state (step F s c)"
  by (cases c) (auto simp: planar_state_def planar_def Let_def split: option.splits)

lemma planar_run: "planar_state s \<Longrightarrow> planar_state (foldl (step F) s cmds)"
  by (induction cmds arbitrary: s) (simp_all add: planar_step)

lemma planar_initial: "planar_state (initial lg k)"
  by (simp add: planar_state_def planar_def initial_def)

lemma reflect_planar:
  "planar c \<Longrightarrow> planar l \<Longrightarrow> XYZ (2 * px c - px l) (2 * py c - py l) 0 = psub (pscale 2 c) l"
  by (simp add: planar_def psub_def pscale_def)

lemma logs_step:
  "s\<lparr>logs := []\<rparr> = s'\<lparr>logs := []\<rparr> \<Longrightarrow> (step F s c)\<lparr>logs := []\<rparr> = (step F s' c)\<lparr>logs := []\<rparr>"
proof -
  assume a: "s\<lparr>logs := []\<rparr> = s'\<lparr>logs := []\<rparr>"
  have e: "edges s = edges s'" "currentPoint s = currentPoint s'"
    "pathStartPoint s = pathStartPoint s'" "lastControlPoint s = lastControlPoint s'"
    "kst s = kst s'" "interp.more s = interp.more s'"
    using arg_cong [OF a, of edges] arg_cong [OF a, of currentPoint]
      arg_cong [OF a, of pathStartPoint] arg_cong [OF a, of lastControlPoint]
      arg_cong [OF a, of kst] arg_cong [OF a, of interp.more] by simp_all
  show ?thesis
    by (cases c) (simp_all add: e Let_def push_result_def split: option.splits)
qed

lemma logs_run:
  "s\<lparr>logs := []\<rparr> = s'\<lparr>logs := []\<rparr>
     \<Longrightarrow> (foldl (step F) s cmds)\<lparr>logs := []\<rparr> = (foldl (step F) s' cmds)\<lparr>logs := []\<rparr>"
proof (induction cmds arbitrary: s s')
  case Nil
  then show ?case by simp
next
  case (Cons c cmds)
  from Cons.IH [OF logs_step [OF Cons.prems]] show ?case by simp
qed

lemma requests_skip_other: "requests (cmds @ OTHER t # cmds') = requests (cmds @ cmds')"
proof -
  let ?s = "foldl (step echo) (initial [] ()) cmds"
  have "(step echo ?s (OTHER t))\<lparr>logs := []\<rparr> = ?s\<lparr>logs := []\<rparr>"
    by simp
  from logs_run [OF this, of echo cmds']
  have "edges ((foldl (step echo) (step echo ?s (OTHER t)) cmds')\<lparr>logs := []\<rparr>)
          = edges ((foldl (step echo) ?s cmds')\<lparr>logs := []\<rparr>)"
    by simp
  then show ?thesis by (simp add: requests_def)
qed

section \<open>Kernel calls that throw\<close>

lemma thrown_logs:
  assumes "s\<lparr>logs := []\<rparr> = s'\<lparr>logs := []\<rparr>"
  shows "thrown F s c = thrown F s' c"
proof -
  have e: "currentPoint s = currentPoint s'" "pathStartPoint s = pathStartPoint s'"
    "lastControlPoint s = lastControlPoint s'" "kst s = kst s'"
    using arg_cong [OF assms, of currentPoint] arg_cong [OF assms, of pathStartPoint]
      arg_cong [OF assms, of lastControlPoint] arg_cong [OF assms, of kst] by simp_all
  show ?thesis
    by (cases c) (simp_all add: thrown_def e split: option.splits)
qed

lemma initial_logs: "(initial lg k)\<lparr>logs := []\<rparr> = (initial lg' k)\<lparr>logs := []\<rparr>"
  by (simp add: initial_def)

lemma thrown_initial:
  "thrown F (foldl (step F) (initial lg k) pre) c = thrown F (foldl (step F) (initial lg' k) pre) c"
  by (rule thrown_logs [OF logs_run [OF initial_logs]])

lemma thrown_returns: "returns F \<Longrightarrow> thrown F s c = None"
  by (simp add: thrown_def returns_def split: option.splits primitive.splits)

lemma run_Inr: "run F s cmds = Inr s' \<Longrightarrow> s' = foldl (step F) s cmds"
proof (induction cmds arbitrary: s)
  case Nil
  then show ?case by simp
next
  case (Cons c cmds)
  from Cons.prems have "thrown F s c = None \<and> run F (step F s c) cmds = Inr s'"
    by (simp split: option.splits prod.splits)
  with Cons.IH [of "step F s c"] show ?case by simp
qed

lemma run_quiet:
  assumes "\<forall>pre c post. cmds = pre @ c # post \<longrightarrow> thrown F (foldl (step F) s pre) c = None"
  shows "run F s cmds = Inr (foldl (step F) s cmds)"
  using assms
proof (induction cmds arbitrary: s)
  case Nil
  then show ?case by simp
next
  case (Cons a cmds)
  have h: "thrown F s a = None"
    using Cons.prems [rule_format, of "[]" a cmds] by simp
  have "\<forall>pre c post. cmds = pre @ c # post \<longrightarrow> thrown F (foldl (step F) (step F s a) pre) c = None"
  proof (intro allI impI)
    fix pre c post
    assume "cmds = pre @ c # post"
    then have "a # cmds = (a # pre) @ c # post" by simp
    from Cons.prems [rule_format, OF this]
    show "thrown F (foldl (step F) (step F s a) pre) c = None" by simp
  qed
  from Cons.IH [OF this] h show ?case by simp
qed

lemma run_first_throw:
  assumes "\<forall>pre' c' post'. pre = pre' @ c' # post' \<longrightarrow> thrown F (foldl (step F) s pre') c' = None"
    "thrown F (foldl (step F) s pre) c = Some (error, k')"
  shows "run F s (pre @ c # post) = Inl (error, logs (step F (foldl (step F) s pre) c), k')"
  using assms
proof (induction pre arbitrary: s)
  case Nil
  then show ?case by simp
next
  case (Cons a pre)
  have h: "thrown F s a = None"
    using Cons.prems(1) [rule_format, of "[]" a pre] by simp
  have q: "\<forall>pre' c' post'. pre = pre' @ c' # post'
             \<longrightarrow> thrown F (foldl (step F) (step F s a) pre') c' = None"
  proof (intro allI impI)
    fix pre' c' post'
    assume "pre = pre' @ c' # post'"
    then have "a # pre = (a # pre') @ c' # post'" by simp
    from Cons.prems(1) [rule_format, OF this]
    show "thrown F (foldl (step F) (step F s a) pre') c' = None" by simp
  qed
  have t: "thrown F (foldl (step F) (step F s a) pre) c = Some (error, k')"
    using Cons.prems(2) by simp
  from Cons.IH [OF q t] h show ?case by simp
qed

lemma run_isl:
  "isl (run F s cmds)
     \<longleftrightarrow> (\<exists>pre c post. cmds = pre @ c # post \<and> thrown F (foldl (step F) s pre) c \<noteq> None)"
proof (induction cmds arbitrary: s)
  case Nil
  show ?case by simp
next
  case (Cons a cmds)
  show ?case
  proof (cases "thrown F s a")
    case (Some ek)
    then have l: "isl (run F s (a # cmds))" by (simp split: prod.splits)
    have "a # cmds = [] @ a # cmds \<and> thrown F (foldl (step F) s []) a \<noteq> None"
      using Some by simp
    then have "\<exists>pre c post. a # cmds = pre @ c # post \<and> thrown F (foldl (step F) s pre) c \<noteq> None"
      by blast
    with l show ?thesis by blast
  next
    case None
    then have r: "run F s (a # cmds) = run F (step F s a) cmds" by simp
    have "(\<exists>pre c post. a # cmds = pre @ c # post \<and> thrown F (foldl (step F) s pre) c \<noteq> None)
           \<longleftrightarrow> (\<exists>pre c post. cmds = pre @ c # post
                  \<and> thrown F (foldl (step F) (step F s a) pre) c \<noteq> None)"
    proof
      assume "\<exists>pre c post. a # cmds = pre @ c # post \<and> thrown F (foldl (step F) s pre) c \<noteq> None"
      then obtain pre c post where p: "a # cmds = pre @ c # post"
        "thrown F (foldl (step F) s pre) c \<noteq> None" by blast
      show "\<exists>pre c post. cmds = pre @ c # post
              \<and> thrown F (foldl (step F) (step F s a) pre) c \<noteq> None"
      proof (cases pre)
        case Nil
        with p None show ?thesis by simp
      next
        case (Cons b pre')
        with p have "cmds = pre' @ c # post \<and> thrown F (foldl (step F) (step F s a) pre') c \<noteq> None"
          by simp
        then show ?thesis by blast
      qed
    next
      assume "\<exists>pre c post. cmds = pre @ c # post
              \<and> thrown F (foldl (step F) (step F s a) pre) c \<noteq> None"
      then obtain pre c post where p: "cmds = pre @ c # post"
        "thrown F (foldl (step F) (step F s a) pre) c \<noteq> None" by blast
      then have "a # cmds = (a # pre) @ c # post \<and> thrown F (foldl (step F) s (a # pre)) c \<noteq> None"
        by simp
      then show "\<exists>pre c post. a # cmds = pre @ c # post
              \<and> thrown F (foldl (step F) s pre) c \<noteq> None"
        by blast
    qed
    with Cons.IH [of "step F s a"] r show ?thesis by simp
  qed
qed

lemma run_returns: "returns F \<Longrightarrow> run F s cmds = Inr (foldl (step F) s cmds)"
  by (rule run_quiet) (simp add: thrown_returns)

lemma step_call:
  "edges (step F s c) = edges s @
     (case call_of s c of
        None \<Rightarrow> []
      | Some (Line a b) \<Rightarrow> pushed (line F (kst s) a b)
      | Some (CubicBezier ps) \<Rightarrow> pushed (bezier F (kst s) ps))"
  by (cases c) (simp_all add: Let_def)

section \<open>The interpreter on any command sequence\<close>

text \<open>
  Claim C3, amended. \<^verbatim>\<open>convertPathToEdges\<close> returns an error exactly when the
  grammar parse throws or a kernel call of the command loop throws, and the message
  is that of the parse or of the first call that throws. On every command sequence
  the parse returns and on which no kernel call throws (so on every one when the
  kernel's \<^verbatim>\<open>line\<close> and \<^verbatim>\<open>bezier\<close> never throw), the result is ok and holds what the
  kernel builds for the primitives the interpreter emits, served in order: a
  construction that returns a failure leaves out that one primitive and the following
  ones are still served. A command with an unknown tag only adds a line to the log,
  calls nothing, and the sequence emits the same primitives as without it. The call
  that can throw in a command is the one whose result the command pushes.
\<close>

theorem interpretation_ok:
  "(isl (fst (convertPathToEdges parse F lg k d)) \<longleftrightarrow>
      isl (parse d)
      \<or> (\<exists>cmds pre c post. parse d = Inr cmds \<and> cmds = pre @ c # post
            \<and> thrown F (foldl (step F) (initial [] k) pre) c \<noteq> None))
   \<and> (\<forall>cmds. parse d = Inr cmds
          \<and> (\<forall>pre c post. cmds = pre @ c # post
                \<longrightarrow> thrown F (foldl (step F) (initial [] k) pre) c = None) \<longrightarrow>
         fst (convertPathToEdges parse F lg k d) = Inr (fst (serve F k (requests cmds))))
   \<and> (\<forall>cmds. parse d = Inr cmds \<and> returns F \<longrightarrow>
         fst (convertPathToEdges parse F lg k d) = Inr (fst (serve F k (requests cmds))))
   \<and> (\<forall>pre c post error k'. parse d = Inr (pre @ c # post)
          \<and> (\<forall>pre' c' post'. pre = pre' @ c' # post'
                \<longrightarrow> thrown F (foldl (step F) (initial [] k) pre') c' = None)
          \<and> thrown F (foldl (step F) (initial [] k) pre) c = Some (error, k') \<longrightarrow>
         fst (convertPathToEdges parse F lg k d) = Inl (''Path conversion error: '' @ error))
   \<and> (\<forall>error. parse d = Inl error \<longrightarrow>
         fst (convertPathToEdges parse F lg k d) = Inl (''Path conversion error: '' @ error))
   \<and> step F s (OTHER t) = s\<lparr>logs := logs s @ [''Unsupported SVG path command: '' @ string_of_nat t]\<rparr>
   \<and> thrown F s (OTHER t) = None
   \<and> requests (cmds1 @ OTHER t # cmds2) = requests (cmds1 @ cmds2)
   \<and> edges (step F s c0) = edges s @
        (case call_of s c0 of
           None \<Rightarrow> []
         | Some (Line a b) \<Rightarrow> pushed (line F (kst s) a b)
         | Some (CubicBezier ps) \<Rightarrow> pushed (bezier F (kst s) ps))
   \<and> (fst (line F k a b) = None \<longrightarrow>
         serve F k (Line a b # R) = serve F (snd (line F k a b)) R)
   \<and> (fst (bezier F k ps) = None \<longrightarrow>
         serve F k (CubicBezier ps # R) = serve F (snd (bezier F k ps)) R)"
proof -
  have 1: "isl (fst (convertPathToEdges parse F lg k d)) \<longleftrightarrow>
      isl (parse d)
      \<or> (\<exists>cmds pre c post. parse d = Inr cmds \<and> cmds = pre @ c # post
            \<and> thrown F (foldl (step F) (initial [] k) pre) c \<noteq> None)"
  proof (cases "parse d")
    case (Inl error)
    then show ?thesis by (simp add: convertPathToEdges_def)
  next
    case (Inr cmds)
    define lg1 where "lg1 = addLog (''Parsed '' @ string_of_nat (length cmds) @ '' path commands'') lg"
    have "isl (fst (convertPathToEdges parse F lg k d)) \<longleftrightarrow> isl (run F (initial lg1 k) cmds)"
      by (simp add: convertPathToEdges_def Inr Let_def lg1_def split: sum.splits prod.splits)
    also have "\<dots> \<longleftrightarrow> (\<exists>pre c post. cmds = pre @ c # post
                  \<and> thrown F (foldl (step F) (initial lg1 k) pre) c \<noteq> None)"
      by (rule run_isl)
    also have "\<dots> \<longleftrightarrow> (\<exists>pre c post. cmds = pre @ c # post
                  \<and> thrown F (foldl (step F) (initial [] k) pre) c \<noteq> None)"
      by (simp only: thrown_initial [of F lg1 k _ _ "[]"])
    finally show ?thesis by (simp add: Inr)
  qed
  have 2: "fst (convertPathToEdges parse F lg k d) = Inr (fst (serve F k (requests cmds)))"
    if p: "parse d = Inr cmds"
      and q: "\<forall>pre c post. cmds = pre @ c # post
                \<longrightarrow> thrown F (foldl (step F) (initial [] k) pre) c = None" for cmds
  proof -
    define lg1 where "lg1 = addLog (''Parsed '' @ string_of_nat (length cmds) @ '' path commands'') lg"
    have "\<forall>pre c post. cmds = pre @ c # post
                \<longrightarrow> thrown F (foldl (step F) (initial lg1 k) pre) c = None"
      using q by (simp only: thrown_initial [of F lg1 k _ _ "[]"])
    then have "run F (initial lg1 k) cmds = Inr (foldl (step F) (initial lg1 k) cmds)"
      by (rule run_quiet)
    then show ?thesis
      by (simp add: convertPathToEdges_def p Let_def lg1_def run_requests)
  qed
  have 3: "fst (convertPathToEdges parse F lg k d) = Inr (fst (serve F k (requests cmds)))"
    if "parse d = Inr cmds \<and> returns F" for cmds
    using that by (intro 2) (simp_all add: thrown_returns)
  have 4: "fst (convertPathToEdges parse F lg k d) = Inl (''Path conversion error: '' @ error)"
    if p: "parse d = Inr (pre @ c # post)"
      and q: "\<forall>pre' c' post'. pre = pre' @ c' # post'
                \<longrightarrow> thrown F (foldl (step F) (initial [] k) pre') c' = None"
      and t: "thrown F (foldl (step F) (initial [] k) pre) c = Some (error, k')"
    for pre c post error k'
  proof -
    define lg1 where
      "lg1 = addLog (''Parsed '' @ string_of_nat (length (pre @ c # post)) @ '' path commands'') lg"
    have q': "\<forall>pre' c' post'. pre = pre' @ c' # post'
                \<longrightarrow> thrown F (foldl (step F) (initial lg1 k) pre') c' = None"
      using q by (simp only: thrown_initial [of F lg1 k _ _ "[]"])
    have t': "thrown F (foldl (step F) (initial lg1 k) pre) c = Some (error, k')"
      using t by (simp only: thrown_initial [of F lg1 k _ _ "[]"])
    have "run F (initial lg1 k) (pre @ c # post)
            = Inl (error, logs (step F (foldl (step F) (initial lg1 k) pre) c), k')"
      using q' t' by (rule run_first_throw)
    then show ?thesis
      by (simp add: convertPathToEdges_def p Let_def lg1_def)
  qed
  have 5: "\<forall>error. parse d = Inl error \<longrightarrow>
         fst (convertPathToEdges parse F lg k d) = Inl (''Path conversion error: '' @ error)"
    by (simp add: convertPathToEdges_def)
  have 6: "step F s (OTHER t)
             = s\<lparr>logs := logs s @ [''Unsupported SVG path command: '' @ string_of_nat t]\<rparr>"
    by (simp add: addLog_def)
  have 7: "thrown F s (OTHER t) = None"
    by (simp add: thrown_def)
  have 8: "fst (line F k a b) = None \<longrightarrow>
         serve F k (Line a b # R) = serve F (snd (line F k a b)) R"
    by (simp add: Let_def pushed_def)
  have 9: "fst (bezier F k ps) = None \<longrightarrow>
         serve F k (CubicBezier ps # R) = serve F (snd (bezier F k ps)) R"
    by (simp add: Let_def pushed_def)
  show ?thesis
    using 1 2 3 4 5 6 7 8 9 requests_skip_other [of cmds1 t cmds2] step_call [of F s c0]
    by blast
qed

theorem interpretation_ok_witness:
  "fst (convertPathToEdges
          (table_parse [(''M 0,0 L 0,0 L 1,0'', [MOVE_TO 0 0, LINE_TO 0 0, OTHER 99, LINE_TO 1 0])])
          strict [] 0 ''M 0,0 L 0,0 L 1,0'')
     = Inr [Line (XYZ 0 0 0) (XYZ 1 0 0)]
   \<and> requests [MOVE_TO 0 0, LINE_TO 0 0, OTHER 99, LINE_TO 1 0]
       = [Line (XYZ 0 0 0) (XYZ 0 0 0), Line (XYZ 0 0 0) (XYZ 1 0 0)]
   \<and> isl (fst (convertPathToEdges (table_parse []) strict [] 0 ''M 0,0 L''))
   \<and> fst (convertPathToEdges
          (table_parse [(''M 0,0 L 1,0 L 1,0'', [MOVE_TO 0 0, LINE_TO 1 0, LINE_TO 1 0])])
          brittle [] 0 ''M 0,0 L 1,0 L 1,0'')
     = Inl ''Path conversion error: degenerate line''"
proof -
  have r: "returns strict"
    by (simp add: returns_def)
  have q: "\<forall>pre' c' post'. [MOVE_TO 0 0, LINE_TO 1 0] = pre' @ c' # post'
             \<longrightarrow> thrown brittle (foldl (step brittle) (initial [] 0) pre') c' = None"
    by (auto simp add: Cons_eq_append_conv thrown_def initial_def Let_def)
  have t: "thrown brittle (foldl (step brittle) (initial [] 0) [MOVE_TO 0 0, LINE_TO 1 0]) (LINE_TO 1 0)
             = Some (''degenerate line'', 2)"
    by (simp add: thrown_def initial_def Let_def push_result_def)
  show ?thesis
    using interpretation_ok [of
      "table_parse [(''M 0,0 L 0,0 L 1,0'', [MOVE_TO 0 0, LINE_TO 0 0, OTHER 99, LINE_TO 1 0])]"
      strict "[]" 0 "''M 0,0 L 0,0 L 1,0''" "initial [] 0" 99 "[MOVE_TO 0 0, LINE_TO 0 0]"
      "[LINE_TO 1 0]" "OTHER 99" "XYZ 0 0 0" "XYZ 0 0 0" "[Line (XYZ 0 0 0) (XYZ 1 0 0)]" "[]"]
      interpretation_ok [of "table_parse []" strict "[]" 0 "''M 0,0 L''"]
      interpretation_ok [of
        "table_parse [(''M 0,0 L 1,0 L 1,0'', [MOVE_TO 0 0, LINE_TO 1 0, LINE_TO 1 0])]"
        brittle "[]" 0 "''M 0,0 L 1,0 L 1,0''", THEN conjunct2, THEN conjunct2, THEN conjunct2,
        THEN conjunct1, rule_format, of "[MOVE_TO 0 0, LINE_TO 1 0]" "LINE_TO 1 0" "[]"
        "''degenerate line''" 2]
      r q t
    by (simp add: table_parse_def requests_def initial_def Let_def)
qed

text \<open>
  The claim as it was written fails on a kernel that throws: the grammar parse of
  \<^verbatim>\<open>M 0,0 L 0,0\<close> returns two commands, the kernel's \<^verbatim>\<open>line\<close> throws between two
  equal points, and the result is an error. On the kernel that returns a failure
  instead, the same commands give an empty list of edges.
\<close>

theorem kernel_exception_counterexample:
  "table_parse [(''M 0,0 L 0,0'', [MOVE_TO 0 0, LINE_TO 0 0])] ''M 0,0 L 0,0''
     = Inr [MOVE_TO 0 0, LINE_TO 0 0]
   \<and> fst (convertPathToEdges (table_parse [(''M 0,0 L 0,0'', [MOVE_TO 0 0, LINE_TO 0 0])])
            brittle [] 0 ''M 0,0 L 0,0'')
       = Inl ''Path conversion error: degenerate line''
   \<and> fst (convertPathToEdges (table_parse [(''M 0,0 L 0,0'', [MOVE_TO 0 0, LINE_TO 0 0])])
            strict [] 0 ''M 0,0 L 0,0'')
       = Inr []"
  by (simp add: convertPathToEdges_def table_parse_def thrown_def initial_def Let_def)

text \<open>
  Claim C10. Two runs of the interpreter on the same commands, on any two kernels
  in any states and with any logs, have the same current point, sub-path start point
  and last control point after every prefix of the commands; the \<open>edges\<close> of each
  run are what its kernel builds for one and the same list of requests, so the runs
  differ only in which of these primitives appear.
\<close>

theorem kernel_outcomes:
  "track (foldl (step F) (initial lg k) (take n cmds))
     = track (foldl (step F') (initial lg' k') (take n cmds))
   \<and> edges (foldl (step F) (initial lg k) cmds) = fst (serve F k (requests cmds))
   \<and> edges (foldl (step F') (initial lg' k') cmds) = fst (serve F' k' (requests cmds))"
proof -
  have "track (foldl (step F) (initial lg k) (take n cmds))
     = track (foldl (step F') (initial lg' k') (take n cmds))"
    by (rule track_run) (simp add: track_def initial_def)
  then show ?thesis
    by (simp add: run_requests)
qed

section \<open>Reflection of the last control point\<close>

text \<open>
  Claim C5. In every state \<open>s\<close> the interpreter reaches, \<^verbatim>\<open>SMOOTH_CURVE_TO\<close> asks
  for the B\'ezier curve whose first control point is \<open>2 * currentPoint - l\<close>
  (in each of the three coordinates) when the last control point is \<open>l\<close>, and is the
  current point itself when there is none. Right after a \<^verbatim>\<open>CURVE_TO\<close> with second
  control point \<open>cp2\<close> and end point \<open>e\<close> it is \<open>2 * e - cp2\<close>.
\<close>

theorem smooth_cubic_reflection:
  assumes "s = foldl (step F) (initial lg k) cmds"
  shows "(\<forall>l. lastControlPoint s = Some l \<longrightarrow>
            step F s (SMOOTH_CURVE_TO x2 y2 x y) =
              (push_result (bezier F (kst s)
                 [currentPoint s, psub (pscale 2 (currentPoint s)) l,
                  XYZ x2 (- y2) 0, XYZ x (- y) 0]) s)
              \<lparr>lastControlPoint := Some (XYZ x2 (- y2) 0), currentPoint := XYZ x (- y) 0\<rparr>)
         \<and> (lastControlPoint s = None \<longrightarrow>
            step F s (SMOOTH_CURVE_TO x2 y2 x y) =
              (push_result (bezier F (kst s)
                 [currentPoint s, currentPoint s, XYZ x2 (- y2) 0, XYZ x (- y) 0]) s)
              \<lparr>lastControlPoint := Some (XYZ x2 (- y2) 0), currentPoint := XYZ x (- y) 0\<rparr>)
         \<and> edges (step F (step F s (CURVE_TO a1 b1 a2 b2 a b)) (SMOOTH_CURVE_TO x2 y2 x y)) =
             edges (step F s (CURVE_TO a1 b1 a2 b2 a b))
             @ pushed (bezier F (kst (step F s (CURVE_TO a1 b1 a2 b2 a b)))
                 [XYZ a (- b) 0, psub (pscale 2 (XYZ a (- b) 0)) (XYZ a2 (- b2) 0),
                  XYZ x2 (- y2) 0, XYZ x (- y) 0])"
proof -
  have p: "planar_state s"
    unfolding assms by (rule planar_run [OF planar_initial])
  have 1: "\<forall>l. lastControlPoint s = Some l \<longrightarrow>
            step F s (SMOOTH_CURVE_TO x2 y2 x y) =
              (push_result (bezier F (kst s)
                 [currentPoint s, psub (pscale 2 (currentPoint s)) l,
                  XYZ x2 (- y2) 0, XYZ x (- y) 0]) s)
              \<lparr>lastControlPoint := Some (XYZ x2 (- y2) 0), currentPoint := XYZ x (- y) 0\<rparr>"
    using p by (auto simp: planar_state_def Let_def reflect_planar)
  have 2: "lastControlPoint s = None \<longrightarrow>
            step F s (SMOOTH_CURVE_TO x2 y2 x y) =
              (push_result (bezier F (kst s)
                 [currentPoint s, currentPoint s, XYZ x2 (- y2) 0, XYZ x (- y) 0]) s)
              \<lparr>lastControlPoint := Some (XYZ x2 (- y2) 0), currentPoint := XYZ x (- y) 0\<rparr>"
    by (simp add: Let_def)
  have 3: "edges (step F (step F s (CURVE_TO a1 b1 a2 b2 a b)) (SMOOTH_CURVE_TO x2 y2 x y)) =
             edges (step F s (CURVE_TO a1 b1 a2 b2 a b))
             @ pushed (bezier F (kst (step F s (CURVE_TO a1 b1 a2 b2 a b)))
                 [XYZ a (- b) 0, psub (pscale 2 (XYZ a (- b) 0)) (XYZ a2 (- b2) 0),
                  XYZ x2 (- y2) 0, XYZ x (- y) 0])"
    by (simp add: Let_def psub_def pscale_def)
  show ?thesis using 1 2 3 by blast
qed

theorem smooth_cubic_reflection_witness:
  "edges (foldl (step echo) (initial [] ()) [MOVE_TO 0 0, CURVE_TO 1 1 2 1 3 0, SMOOTH_CURVE_TO 5 1 6 0])
     = [CubicBezier [XYZ 0 0 0, XYZ 1 (- 1) 0, XYZ 2 (- 1) 0, XYZ 3 0 0],
        CubicBezier [XYZ 3 0 0, XYZ 4 1 0, XYZ 5 (- 1) 0, XYZ 6 0 0]]"
  using smooth_cubic_reflection [of "foldl (step echo) (initial [] ()) [MOVE_TO 0 0, CURVE_TO 1 1 2 1 3 0]"
      echo "[]" "()" "[MOVE_TO 0 0, CURVE_TO 1 1 2 1 3 0]" 5 1 6 0 0 0 0 0 0 0]
  by (simp add: initial_def Let_def psub_def pscale_def)

text \<open>
  Claim C2, amended. The last control point is absent at the start and after
  \<^verbatim>\<open>MOVE_TO\<close>, \<^verbatim>\<open>LINE_TO\<close>, \<^verbatim>\<open>HORIZ_LINE_TO\<close>, \<^verbatim>\<open>VERT_LINE_TO\<close>, \<^verbatim>\<open>ARC\<close> and
  \<^verbatim>\<open>CLOSE_PATH\<close>, and left as it was by a command with an unknown tag. After
  \<^verbatim>\<open>CURVE_TO\<close> and \<^verbatim>\<open>SMOOTH_CURVE_TO\<close> it is the second control point of the command,
  after \<^verbatim>\<open>QUAD_TO\<close> the control point of the command, and after \<^verbatim>\<open>SMOOTH_QUAD_TO\<close>
  the control point that command has used. A smooth command that finds it absent
  uses the current point as its control point, so it does right after a command
  that clears it; one that finds it present reflects it, whichever curve family has
  set it: \<^verbatim>\<open>SMOOTH_QUAD_TO\<close> right after a cubic command reflects the second control
  point of the cubic curve, and \<^verbatim>\<open>SMOOTH_CURVE_TO\<close> right after a quadratic command
  reflects the quadratic control point.
\<close>

theorem control_point_policy:
  "(clears c \<longrightarrow> lastControlPoint (step F s c) = None)
   \<and> (is_curve c \<longrightarrow> lastControlPoint (step F s c) \<noteq> None)
   \<and> lastControlPoint (step F s (OTHER t)) = lastControlPoint s
   \<and> lastControlPoint (foldl (step F) (initial lg k) []) = None
   \<and> (lastControlPoint s = None \<longrightarrow>
        lastControlPoint (step F s (SMOOTH_QUAD_TO x y)) = Some (currentPoint s)
        \<and> edges (step F s (SMOOTH_CURVE_TO x2 y2 x y)) =
            edges s @ pushed (bezier F (kst s)
              [currentPoint s, currentPoint s, XYZ x2 (- y2) 0, XYZ x (- y) 0]))
   \<and> (\<forall>l. lastControlPoint s = Some l \<longrightarrow>
        lastControlPoint (step F s (SMOOTH_QUAD_TO x y)) =
          Some (XYZ (2 * px (currentPoint s) - px l) (2 * py (currentPoint s) - py l) 0)
        \<and> edges (step F s (SMOOTH_CURVE_TO x2 y2 x y)) =
            edges s @ pushed (bezier F (kst s)
              [currentPoint s,
               XYZ (2 * px (currentPoint s) - px l) (2 * py (currentPoint s) - py l) 0,
               XYZ x2 (- y2) 0, XYZ x (- y) 0]))
   \<and> (clears c \<longrightarrow>
        lastControlPoint (step F (step F s c) (SMOOTH_QUAD_TO x y))
          = Some (currentPoint (step F s c)))
   \<and> lastControlPoint (step F s (CURVE_TO a1 b1 a2 b2 a b)) = Some (XYZ a2 (- b2) 0)
   \<and> lastControlPoint (step F s (SMOOTH_CURVE_TO a2 b2 a b)) = Some (XYZ a2 (- b2) 0)
   \<and> lastControlPoint (step F s (QUAD_TO a1 b1 a b)) = Some (XYZ a1 (- b1) 0)
   \<and> edges (step F s (SMOOTH_QUAD_TO x y)) =
        edges s @ pushed (bezier F (kst s)
          (quadraticToCubic (currentPoint s)
             (the (lastControlPoint (step F s (SMOOTH_QUAD_TO x y)))) (XYZ x (- y) 0)))
   \<and> lastControlPoint (step F (step F s (CURVE_TO a1 b1 a2 b2 a b)) (SMOOTH_QUAD_TO x y))
        = Some (XYZ (2 * a - a2) (2 * (- b) - (- b2)) 0)
   \<and> lastControlPoint (step F (step F s (SMOOTH_CURVE_TO a2 b2 a b)) (SMOOTH_QUAD_TO x y))
        = Some (XYZ (2 * a - a2) (2 * (- b) - (- b2)) 0)
   \<and> edges (step F (step F s (QUAD_TO a1 b1 a b)) (SMOOTH_CURVE_TO x2 y2 x y)) =
        edges (step F s (QUAD_TO a1 b1 a b))
        @ pushed (bezier F (kst (step F s (QUAD_TO a1 b1 a b)))
            [XYZ a (- b) 0, XYZ (2 * a - a1) (2 * (- b) - (- b1)) 0,
             XYZ x2 (- y2) 0, XYZ x (- y) 0])
   \<and> edges (step F (step F s (SMOOTH_QUAD_TO a b)) (SMOOTH_CURVE_TO x2 y2 x y)) =
        edges (step F s (SMOOTH_QUAD_TO a b))
        @ pushed (bezier F (kst (step F s (SMOOTH_QUAD_TO a b)))
            [XYZ a (- b) 0,
             XYZ (2 * a - px (the (lastControlPoint (step F s (SMOOTH_QUAD_TO a b)))))
                 (2 * (- b) - py (the (lastControlPoint (step F s (SMOOTH_QUAD_TO a b))))) 0,
             XYZ x2 (- y2) 0, XYZ x (- y) 0])"
proof -
  have 1: "clears c \<longrightarrow> lastControlPoint (step F s c) = None"
    by (cases c) (simp_all add: Let_def)
  have 2: "is_curve c \<longrightarrow> lastControlPoint (step F s c) \<noteq> None"
    by (cases c) (simp_all add: Let_def)
  have 3: "lastControlPoint (step F s (OTHER t)) = lastControlPoint s"
    by simp
  have 4: "lastControlPoint (foldl (step F) (initial lg k) []) = None"
    by (simp add: initial_def)
  have 5: "lastControlPoint s' = None \<longrightarrow>
        lastControlPoint (step F s' (SMOOTH_QUAD_TO x y)) = Some (currentPoint s')
        \<and> edges (step F s' (SMOOTH_CURVE_TO x2 y2 x y)) =
            edges s' @ pushed (bezier F (kst s')
              [currentPoint s', currentPoint s', XYZ x2 (- y2) 0, XYZ x (- y) 0])" for s'
    by (simp add: Let_def)
  have 6: "\<forall>l. lastControlPoint s' = Some l \<longrightarrow>
        lastControlPoint (step F s' (SMOOTH_QUAD_TO x y)) =
          Some (XYZ (2 * px (currentPoint s') - px l) (2 * py (currentPoint s') - py l) 0)
        \<and> edges (step F s' (SMOOTH_CURVE_TO x2 y2 x y)) =
            edges s' @ pushed (bezier F (kst s')
              [currentPoint s',
               XYZ (2 * px (currentPoint s') - px l) (2 * py (currentPoint s') - py l) 0,
               XYZ x2 (- y2) 0, XYZ x (- y) 0])" for s'
    by (simp add: Let_def)
  have 7: "clears c \<longrightarrow>
        lastControlPoint (step F (step F s c) (SMOOTH_QUAD_TO x y))
          = Some (currentPoint (step F s c))"
    using 1 5 [of "step F s c"] by blast
  have 8: "lastControlPoint (step F s (CURVE_TO a1 b1 a2 b2 a b)) = Some (XYZ a2 (- b2) 0)"
    "lastControlPoint (step F s (SMOOTH_CURVE_TO a2 b2 a b)) = Some (XYZ a2 (- b2) 0)"
    "lastControlPoint (step F s (QUAD_TO a1 b1 a b)) = Some (XYZ a1 (- b1) 0)"
    by (simp_all add: Let_def)
  have 9: "edges (step F s (SMOOTH_QUAD_TO x y)) =
        edges s @ pushed (bezier F (kst s)
          (quadraticToCubic (currentPoint s)
             (the (lastControlPoint (step F s (SMOOTH_QUAD_TO x y)))) (XYZ x (- y) 0)))"
    by (simp add: Let_def)
  have 10: "lastControlPoint (step F (step F s (CURVE_TO a1 b1 a2 b2 a b)) (SMOOTH_QUAD_TO x y))
        = Some (XYZ (2 * a - a2) (2 * (- b) - (- b2)) 0)"
    "lastControlPoint (step F (step F s (SMOOTH_CURVE_TO a2 b2 a b)) (SMOOTH_QUAD_TO x y))
        = Some (XYZ (2 * a - a2) (2 * (- b) - (- b2)) 0)"
    by (simp_all add: Let_def)
  have 11: "edges (step F (step F s (QUAD_TO a1 b1 a b)) (SMOOTH_CURVE_TO x2 y2 x y)) =
        edges (step F s (QUAD_TO a1 b1 a b))
        @ pushed (bezier F (kst (step F s (QUAD_TO a1 b1 a b)))
            [XYZ a (- b) 0, XYZ (2 * a - a1) (2 * (- b) - (- b1)) 0,
             XYZ x2 (- y2) 0, XYZ x (- y) 0])"
    by (simp add: Let_def)
  have 12: "edges (step F (step F s (SMOOTH_QUAD_TO a b)) (SMOOTH_CURVE_TO x2 y2 x y)) =
        edges (step F s (SMOOTH_QUAD_TO a b))
        @ pushed (bezier F (kst (step F s (SMOOTH_QUAD_TO a b)))
            [XYZ a (- b) 0,
             XYZ (2 * a - px (the (lastControlPoint (step F s (SMOOTH_QUAD_TO a b)))))
                 (2 * (- b) - py (the (lastControlPoint (step F s (SMOOTH_QUAD_TO a b))))) 0,
             XYZ x2 (- y2) 0, XYZ x (- y) 0])"
    by (simp add: Let_def)
  show ?thesis using 1 2 3 4 5 [of s] 6 [of s] 7 8 9 10 11 12 by blast
qed

theorem control_point_policy_witness:
  "lastControlPoint (step echo (initial [] ()) (LINE_TO 1 2)) = None
   \<and> lastControlPoint (step echo (initial [] ()) (QUAD_TO 1 1 2 0)) = Some (XYZ 1 (- 1) 0)
   \<and> lastControlPoint (step echo (step echo (initial [] ()) (LINE_TO 1 2)) (SMOOTH_QUAD_TO 5 0))
       = Some (XYZ 1 (- 2) 0)
   \<and> lastControlPoint
        (step echo (step echo (initial [] ()) (CURVE_TO 1 1 2 1 3 0)) (SMOOTH_QUAD_TO 5 0))
       = Some (XYZ 4 1 0)
   \<and> edges (step echo (step echo (initial [] ()) (QUAD_TO 1 1 2 0)) (SMOOTH_CURVE_TO 3 1 4 0))
       = edges (step echo (initial [] ()) (QUAD_TO 1 1 2 0))
         @ [CubicBezier [XYZ 2 0 0, XYZ 3 1 0, XYZ 3 (- 1) 0, XYZ 4 0 0]]"
  using control_point_policy [where c = "LINE_TO 1 2" and F = echo and s = "initial [] ()"
      and t = 0 and lg = "[]" and k = "()" and x = 5 and y = 0 and ?x2.0 = 3 and ?y2.0 = 1
      and ?a1.0 = 1 and ?b1.0 = 1 and ?a2.0 = 2 and ?b2.0 = 1 and a = 3 and b = 0]
    control_point_policy [where c = "LINE_TO 1 2" and F = echo and s = "initial [] ()"
      and t = 0 and lg = "[]" and k = "()" and x = 4 and y = 0 and ?x2.0 = 3 and ?y2.0 = 1
      and ?a1.0 = 1 and ?b1.0 = 1 and ?a2.0 = 2 and ?b2.0 = 1 and a = 2 and b = 0]
  by (simp add: initial_def Let_def)

text \<open>
  The claim as it was written fails: after \<^verbatim>\<open>M 0,0 C 1,1 2,1 3,0\<close> the command
  \<^verbatim>\<open>T 5,0\<close> reflects the second control point of the cubic curve and gets
  \<open>(4, 1, 0)\<close>, not the current point \<open>(3, 0, 0)\<close>; and after \<^verbatim>\<open>Q 1,1 2,0\<close> the
  command \<^verbatim>\<open>S 3,1 4,0\<close> reflects the quadratic control point and gets \<open>(3, 1, 0)\<close>,
  not the current point \<open>(2, 0, 0)\<close>.
\<close>

theorem cross_family_counterexample:
  "currentPoint (foldl (step echo) (initial [] ()) [MOVE_TO 0 0, CURVE_TO 1 1 2 1 3 0])
     = XYZ 3 0 0
   \<and> lastControlPoint
        (foldl (step echo) (initial [] ()) [MOVE_TO 0 0, CURVE_TO 1 1 2 1 3 0, SMOOTH_QUAD_TO 5 0])
     = Some (XYZ 4 1 0)
   \<and> lastControlPoint
        (foldl (step echo) (initial [] ()) [MOVE_TO 0 0, CURVE_TO 1 1 2 1 3 0, SMOOTH_QUAD_TO 5 0])
     \<noteq> Some (currentPoint
                (foldl (step echo) (initial [] ()) [MOVE_TO 0 0, CURVE_TO 1 1 2 1 3 0]))
   \<and> requests [MOVE_TO 0 0, QUAD_TO 1 1 2 0, SMOOTH_CURVE_TO 3 1 4 0] ! 1
     = CubicBezier [XYZ 2 0 0, XYZ 3 1 0, XYZ 3 (- 1) 0, XYZ 4 0 0]"
  by (simp add: initial_def Let_def requests_def quadraticToCubic_def)

section \<open>Strings of the examples\<close>

lemma string_of_nat_0 [simp]: "string_of_nat 0 = ''0''"
  by code_simp

lemma string_of_nat_1 [simp]: "string_of_nat 1 = ''1''"
  by code_simp

lemma string_of_nat_Suc_0 [simp]: "string_of_nat (Suc 0) = ''1''"
  by code_simp

lemma string_of_nat_2 [simp]: "string_of_nat 2 = ''2''"
  by code_simp

lemma string_of_nat_3 [simp]: "string_of_nat 3 = ''3''"
  by code_simp

lemma pairs_example: "pairs_of ''0,0'' = [''0'', ''0'']"
  by (simp add: pairs_of_def trim_def is_space_def is_sep_def)

lemma pairs_example2: "pairs_of '' 0,0 10,0,  10,10 '' = [''0'', ''0'', ''10'', ''0'', ''10'', ''10'']"
  by (simp add: pairs_of_def trim_def is_space_def is_sep_def)

lemma pairs_empty: "pairs_of '''' = []" "pairs_of '' 7 '' = [''7'']"
  by (simp_all add: pairs_of_def trim_def is_space_def is_sep_def)

section \<open>One element of the document\<close>

lemma processElement_unfold:
  "processElement parse R F N c (e, type) =
     (if emptyData (pathDataOf R e type)
      then Inr (c\<lparr>elementIndex := elementIndex c + 1,
                  clogs := clogs c @ [processingLine e type (elementIndex c + 1),
                             label type (elementIndex c + 1) @ '': empty path data, skipping'']\<rparr>)
      else
        (case convertPathToEdges parse F (clogs c @ [processingLine e type (elementIndex c + 1)])
                (ckst c) (the (pathDataOf R e type)) of
           (Inl error, lg, k) \<Rightarrow>
             Inr (c\<lparr>elementIndex := elementIndex c + 1,
                    clogs := lg @ [label type (elementIndex c + 1) @ '' conversion failed: '' @ error],
                    ckst := k, failCount := failCount c + 1\<rparr>)
         | (Inr es, lg, k) \<Rightarrow>
             (if es = []
              then Inr (c\<lparr>elementIndex := elementIndex c + 1,
                          clogs := lg @ [label type (elementIndex c + 1) @ '': generated ''
                                           @ string_of_nat (length es) @ '' edges'',
                                         label type (elementIndex c + 1)
                                           @ '': no edges generated, skipping''],
                          ckst := k\<rparr>)
              else
                (case wire_throws F k es of
                   Some error \<Rightarrow>
                     Inl (error, lg @ [label type (elementIndex c + 1) @ '': generated ''
                                         @ string_of_nat (length es) @ '' edges''])
                 | None \<Rightarrow>
                     (case wire F k es of
                        (Inl error, k2) \<Rightarrow>
                          Inr (c\<lparr>elementIndex := elementIndex c + 1,
                                 clogs := lg @ [label type (elementIndex c + 1) @ '': generated ''
                                                  @ string_of_nat (length es) @ '' edges'',
                                                label type (elementIndex c + 1)
                                                  @ '' wire creation failed: '' @ error],
                                 ckst := k2, failCount := failCount c + 1\<rparr>)
                      | (Inr w, k2) \<Rightarrow>
                          (case N (elementNameOf e (elementIndex c + 1)) w of
                             Some error \<Rightarrow>
                               Inl (error, lg @ [label type (elementIndex c + 1) @ '': generated ''
                                                   @ string_of_nat (length es) @ '' edges''])
                           | None \<Rightarrow>
                               Inr (c\<lparr>elementIndex := elementIndex c + 1,
                                      folder := folder c @ [(elementNameOf e (elementIndex c + 1), w)],
                                      clogs := lg @ [label type (elementIndex c + 1) @ '': generated ''
                                                       @ string_of_nat (length es) @ '' edges'',
                                                     label type (elementIndex c + 1)
                                                       @ '': successfully created as '' @ [CHR 0x22]
                                                       @ elementNameOf e (elementIndex c + 1)
                                                       @ [CHR 0x22]],
                                      ckst := k2, successCount := successCount c + 1\<rparr>)))))))"
  unfolding processElement_def Let_def fst_conv snd_conv pathDataOf_def [symmetric]
    emptyData_def [symmetric]
  by (simp add: addLog_def processingLine_def elementNameOf_def
      split: prod.splits sum.splits option.splits)

lemma logs_grow_step: "\<exists>m. logs (step F s c) = logs s @ m"
  by (cases c) (simp_all add: Let_def addLog_def)

lemma logs_grow: "\<exists>m. logs (foldl (step F) s cmds) = logs s @ m"
proof (induction cmds arbitrary: s)
  case Nil
  show ?case by simp
next
  case (Cons c cmds)
  obtain m where m: "logs (step F s c) = logs s @ m"
    using logs_grow_step [of F s c] by blast
  obtain m' where "logs (foldl (step F) (step F s c) cmds) = logs (step F s c) @ m'"
    using Cons.IH [of "step F s c"] by blast
  then have "logs (foldl (step F) s (c # cmds)) = logs s @ (m @ m')"
    by (simp add: m)
  then show ?case by blast
qed

lemma run_logs: "run F s cmds = Inl (error, lg2, k2) \<Longrightarrow> \<exists>m. lg2 = logs s @ m"
proof (induction cmds arbitrary: s)
  case Nil
  then show ?case by simp
next
  case (Cons c cmds)
  obtain m where m: "logs (step F s c) = logs s @ m"
    using logs_grow_step [of F s c] by blast
  show ?case
  proof (cases "thrown F s c")
    case (Some ek)
    with Cons.prems have "lg2 = logs (step F s c)"
      by (simp split: prod.splits)
    with m show ?thesis by blast
  next
    case None
    with Cons.prems have "run F (step F s c) cmds = Inl (error, lg2, k2)" by simp
    from Cons.IH [OF this] obtain m' where "lg2 = logs (step F s c) @ m'" by blast
    then have "lg2 = logs s @ (m @ m')" by (simp add: m)
    then show ?thesis by blast
  qed
qed

lemma cpe_logs: "\<exists>m. fst (snd (convertPathToEdges parse F lg k d)) = lg @ m"
proof (cases "parse d")
  case (Inl error)
  then show ?thesis by (simp add: convertPathToEdges_def addLog_def)
next
  case (Inr cmds)
  define lg1 where "lg1 = lg @ [''Parsed '' @ string_of_nat (length cmds) @ '' path commands'']"
  show ?thesis
  proof (cases "run F (initial lg1 k) cmds")
    case (Inl x)
    obtain error lg2 k2 where x: "x = (error, lg2, k2)" by (cases x) auto
    from run_logs [OF Inl [unfolded x]] obtain m where "lg2 = lg1 @ m"
      by (auto simp: initial_def)
    then have "fst (snd (convertPathToEdges parse F lg k d))
                 = lg @ ([''Parsed '' @ string_of_nat (length cmds) @ '' path commands''] @ m
                          @ [''Path conversion exception: '' @ error])"
      using Inl Inr x by (simp add: convertPathToEdges_def Let_def addLog_def lg1_def)
    then show ?thesis by blast
  next
    case (Inr s)
    have s: "s = foldl (step F) (initial lg1 k) cmds"
      using Inr by (rule run_Inr)
    obtain m where "logs s = lg1 @ m"
      using logs_grow [of F "initial lg1 k" cmds] s by (auto simp: initial_def)
    then have "fst (snd (convertPathToEdges parse F lg k d))
                 = lg @ ([''Parsed '' @ string_of_nat (length cmds) @ '' path commands''] @ m
                          @ [''Total edges generated: '' @ string_of_nat (length (edges s))])"
      using Inr \<open>parse d = Inr cmds\<close>
      by (simp add: convertPathToEdges_def Let_def addLog_def lg1_def)
    then show ?thesis by blast
  qed
qed

lemma cpe_Inl:
  "parse d = Inl err \<Longrightarrow>
   convertPathToEdges parse F lg k d =
     (Inl (''Path conversion error: '' @ err), lg @ [''Path conversion exception: '' @ err], k)"
  by (simp add: convertPathToEdges_def addLog_def)

lemma cpe_quiet:
  assumes "parse d = Inr cmds"
    "\<forall>pre c post. cmds = pre @ c # post \<longrightarrow> thrown F (foldl (step F) (initial [] k) pre) c = None"
  shows "convertPathToEdges parse F lg k d =
     (Inr (fst (serve F k (requests cmds))),
      logs (foldl (step F)
              (initial (lg @ [''Parsed '' @ string_of_nat (length cmds) @ '' path commands'']) k)
              cmds)
        @ [''Total edges generated: ''
             @ string_of_nat (length (fst (serve F k (requests cmds))))],
      snd (serve F k (requests cmds)))"
proof -
  define lg1 where "lg1 = lg @ [''Parsed '' @ string_of_nat (length cmds) @ '' path commands'']"
  have "\<forall>pre c post. cmds = pre @ c # post
                \<longrightarrow> thrown F (foldl (step F) (initial lg1 k) pre) c = None"
    using assms(2) by (simp only: thrown_initial [of F lg1 k _ _ "[]"])
  then have "run F (initial lg1 k) cmds = Inr (foldl (step F) (initial lg1 k) cmds)"
    by (rule run_quiet)
  then show ?thesis
    by (simp add: convertPathToEdges_def assms(1) Let_def lg1_def run_requests addLog_def)
qed

lemma cpe_returns:
  assumes "parse d = Inr cmds" "returns F"
  shows "convertPathToEdges parse F lg k d =
     (Inr (fst (serve F k (requests cmds))),
      logs (foldl (step F)
              (initial (lg @ [''Parsed '' @ string_of_nat (length cmds) @ '' path commands'']) k)
              cmds)
        @ [''Total edges generated: ''
             @ string_of_nat (length (fst (serve F k (requests cmds))))],
      snd (serve F k (requests cmds)))"
  using assms(1) by (rule cpe_quiet) (simp add: thrown_returns [OF assms(2)])

lemma skip_empty:
  "emptyData (pathDataOf R e type) \<Longrightarrow>
   processElement parse R F N c (e, type) =
     Inr (c\<lparr>elementIndex := elementIndex c + 1,
            clogs := clogs c @ [processingLine e type (elementIndex c + 1),
                                label type (elementIndex c + 1) @ '': empty path data, skipping'']\<rparr>)"
  by (simp add: processElement_unfold)

lemma parse_failure:
  assumes "\<not> emptyData (pathDataOf R e type)" "parse (the (pathDataOf R e type)) = Inl err"
  shows "processElement parse R F N c (e, type) =
     Inr (c\<lparr>elementIndex := elementIndex c + 1,
            clogs := clogs c @ [processingLine e type (elementIndex c + 1),
                                ''Path conversion exception: '' @ err,
                                label type (elementIndex c + 1) @ '' conversion failed: ''
                                  @ ''Path conversion error: '' @ err],
            failCount := failCount c + 1\<rparr>)"
  using assms by (simp add: processElement_unfold cpe_Inl)

lemma conversion_failure:
  assumes "\<not> emptyData (pathDataOf R e type)"
    "convertPathToEdges parse F (clogs c @ [processingLine e type (elementIndex c + 1)]) (ckst c)
       (the (pathDataOf R e type)) = (Inl msg, lg, k1)"
  shows "processElement parse R F N c (e, type) =
     Inr (c\<lparr>elementIndex := elementIndex c + 1,
            clogs := lg @ [label type (elementIndex c + 1) @ '' conversion failed: '' @ msg],
            ckst := k1, failCount := failCount c + 1\<rparr>)"
  using assms by (simp add: processElement_unfold)

lemma no_edges:
  assumes "\<not> emptyData (pathDataOf R e type)"
    "convertPathToEdges parse F (clogs c @ [processingLine e type (elementIndex c + 1)]) (ckst c)
       (the (pathDataOf R e type)) = (Inr [], lg, k1)"
  shows "processElement parse R F N c (e, type) =
     Inr (c\<lparr>elementIndex := elementIndex c + 1,
            clogs := lg @ [label type (elementIndex c + 1) @ '': generated 0 edges'',
                           label type (elementIndex c + 1) @ '': no edges generated, skipping''],
            ckst := k1\<rparr>)"
  using assms by (simp add: processElement_unfold)

lemma wire_failure:
  assumes "\<not> emptyData (pathDataOf R e type)"
    "convertPathToEdges parse F (clogs c @ [processingLine e type (elementIndex c + 1)]) (ckst c)
       (the (pathDataOf R e type)) = (Inr es, lg, k1)"
    "es \<noteq> []" "wire_throws F k1 es = None" "wire F k1 es = (Inl err, k2)"
  shows "processElement parse R F N c (e, type) =
     Inr (c\<lparr>elementIndex := elementIndex c + 1,
            clogs := lg @ [label type (elementIndex c + 1) @ '': generated ''
                             @ string_of_nat (length es) @ '' edges'',
                           label type (elementIndex c + 1) @ '' wire creation failed: '' @ err],
            ckst := k2, failCount := failCount c + 1\<rparr>)"
  using assms by (simp add: processElement_unfold)

lemma wire_success:
  assumes "\<not> emptyData (pathDataOf R e type)"
    "convertPathToEdges parse F (clogs c @ [processingLine e type (elementIndex c + 1)]) (ckst c)
       (the (pathDataOf R e type)) = (Inr es, lg, k1)"
    "es \<noteq> []" "wire_throws F k1 es = None" "wire F k1 es = (Inr w, k2)"
    "N (elementNameOf e (elementIndex c + 1)) w = None"
  shows "processElement parse R F N c (e, type) =
     Inr (c\<lparr>elementIndex := elementIndex c + 1,
            folder := folder c @ [(elementNameOf e (elementIndex c + 1), w)],
            clogs := lg @ [label type (elementIndex c + 1) @ '': generated ''
                             @ string_of_nat (length es) @ '' edges'',
                           label type (elementIndex c + 1) @ '': successfully created as ''
                             @ [CHR 0x22] @ elementNameOf e (elementIndex c + 1) @ [CHR 0x22]],
            ckst := k2, successCount := successCount c + 1\<rparr>)"
  using assms by (simp add: processElement_unfold)

lemma wire_exception:
  assumes "\<not> emptyData (pathDataOf R e type)"
    "convertPathToEdges parse F (clogs c @ [processingLine e type (elementIndex c + 1)]) (ckst c)
       (the (pathDataOf R e type)) = (Inr es, lg, k1)"
    "es \<noteq> []" "wire_throws F k1 es = Some error"
  shows "processElement parse R F N c (e, type) =
     Inl (error, lg @ [label type (elementIndex c + 1) @ '': generated ''
                         @ string_of_nat (length es) @ '' edges''])"
  using assms by (simp add: processElement_unfold)

lemma node_exception:
  assumes "\<not> emptyData (pathDataOf R e type)"
    "convertPathToEdges parse F (clogs c @ [processingLine e type (elementIndex c + 1)]) (ckst c)
       (the (pathDataOf R e type)) = (Inr es, lg, k1)"
    "es \<noteq> []" "wire_throws F k1 es = None" "wire F k1 es = (Inr w, k2)"
    "N (elementNameOf e (elementIndex c + 1)) w = Some error"
  shows "processElement parse R F N c (e, type) =
     Inl (error, lg @ [label type (elementIndex c + 1) @ '': generated ''
                         @ string_of_nat (length es) @ '' edges''])"
  using assms by (simp add: processElement_unfold)

lemma processElement_escapes:
  "isl (processElement parse R F N c (e, type)) \<longleftrightarrow>
     \<not> emptyData (pathDataOf R e type)
     \<and> (\<exists>es lg k1.
           convertPathToEdges parse F (clogs c @ [processingLine e type (elementIndex c + 1)])
             (ckst c) (the (pathDataOf R e type)) = (Inr es, lg, k1)
           \<and> es \<noteq> []
           \<and> (wire_throws F k1 es \<noteq> None
               \<or> (\<exists>w k2. wire F k1 es = (Inr w, k2)
                     \<and> N (elementNameOf e (elementIndex c + 1)) w \<noteq> None)))"
  by (auto simp add: processElement_unfold split: prod.splits sum.splits option.splits)

lemma processElement_Inr:
  assumes "processElement parse R F N c et = Inr c'"
  shows "elementIndex c' = elementIndex c + 1
       \<and> (folder c' = folder c \<and> successCount c' = successCount c
           \<or> (\<exists>w. folder c' = folder c @ [(elementNameOf (fst et) (elementIndex c + 1), w)]
                 \<and> successCount c' = successCount c + 1))
       \<and> (\<exists>m. clogs c' = clogs c @ processingLine (fst et) (snd et) (elementIndex c + 1) # m)"
proof -
  obtain e type where et: "et = (e, type)" by (cases et) auto
  obtain r lg k1 where cv:
    "convertPathToEdges parse F (clogs c @ [processingLine e type (elementIndex c + 1)]) (ckst c)
       (the (pathDataOf R e type)) = (r, lg, k1)"
    by (metis prod_cases3)
  obtain m where m: "lg = (clogs c @ [processingLine e type (elementIndex c + 1)]) @ m"
    using cpe_logs [of parse F "clogs c @ [processingLine e type (elementIndex c + 1)]" "ckst c"
        "the (pathDataOf R e type)"] cv by auto
  show ?thesis
    using assms unfolding et processElement_unfold cv
    by (auto simp add: m split: if_splits sum.splits option.splits prod.splits)
qed

lemma forEach_Inr:
  assumes "forEach parse R F N c els = Inr c'"
  shows "elementIndex c' = elementIndex c + length els
       \<and> (successCount c = length (folder c) \<longrightarrow> successCount c' = length (folder c'))
       \<and> (\<exists>rest. clogs c' = clogs c @ rest \<and> subseq (processingLines (elementIndex c) els) rest)
       \<and> (\<exists>ns. map fst (folder c') = map fst (folder c) @ ns
                \<and> subseq ns (nodeNames (elementIndex c) els))"
  using assms
proof (induction els arbitrary: c)
  case Nil
  then show ?case by simp
next
  case (Cons et els)
  from Cons.prems obtain c1 where c1: "processElement parse R F N c et = Inr c1"
    and f: "forEach parse R F N c1 els = Inr c'"
    by (auto split: sum.splits)
  note p = processElement_Inr [OF c1]
  note ih = Cons.IH [OF f]
  have i: "elementIndex c1 = elementIndex c + 1" using p by blast
  have 1: "elementIndex c' = elementIndex c + length (et # els)"
    using ih i by simp
  have s1: "successCount c = length (folder c) \<longrightarrow> successCount c1 = length (folder c1)"
    using p by auto
  have 2: "successCount c = length (folder c) \<longrightarrow> successCount c' = length (folder c')"
    using s1 ih by blast
  obtain m where m: "clogs c1 = clogs c @ processingLine (fst et) (snd et) (elementIndex c + 1) # m"
    using p by blast
  obtain rest where rest: "clogs c' = clogs c1 @ rest"
    "subseq (processingLines (elementIndex c1) els) rest"
    using ih by blast
  have "subseq (processingLines (elementIndex c + 1) els) (m @ rest)"
    using rest(2) unfolding i by (rule subseq_drop_many)
  then have "clogs c' = clogs c @ (processingLine (fst et) (snd et) (elementIndex c + 1) # m @ rest)
      \<and> subseq (processingLines (elementIndex c) (et # els))
          (processingLine (fst et) (snd et) (elementIndex c + 1) # m @ rest)"
    by (simp add: rest(1) m)
  then have 3: "\<exists>rest. clogs c' = clogs c @ rest
      \<and> subseq (processingLines (elementIndex c) (et # els)) rest"
    by blast
  obtain ns where ns: "map fst (folder c') = map fst (folder c1) @ ns"
    "subseq ns (nodeNames (elementIndex c1) els)"
    using ih by blast
  have "folder c1 = folder c
      \<or> (\<exists>w. folder c1 = folder c @ [(elementNameOf (fst et) (elementIndex c + 1), w)])"
    using p by blast
  then have 4: "\<exists>ns. map fst (folder c') = map fst (folder c) @ ns
                \<and> subseq ns (nodeNames (elementIndex c) (et # els))"
  proof
    assume "folder c1 = folder c"
    then have "map fst (folder c') = map fst (folder c) @ ns
        \<and> subseq ns (nodeNames (elementIndex c) (et # els))"
      using ns unfolding i by (simp add: list_emb_Cons)
    then show ?thesis by blast
  next
    assume "\<exists>w. folder c1 = folder c @ [(elementNameOf (fst et) (elementIndex c + 1), w)]"
    then have "map fst (folder c') = map fst (folder c) @ (elementNameOf (fst et) (elementIndex c + 1) # ns)
        \<and> subseq (elementNameOf (fst et) (elementIndex c + 1) # ns)
            (nodeNames (elementIndex c) (et # els))"
      using ns unfolding i by auto
    then show ?thesis by blast
  qed
  show ?case using 1 2 3 4 by blast
qed

lemma forEach_escapes:
  "isl (forEach parse R F N c els) \<longleftrightarrow>
     (\<exists>pre et post c1. els = pre @ et # post \<and> forEach parse R F N c pre = Inr c1
        \<and> isl (processElement parse R F N c1 et))"
proof (induction els arbitrary: c)
  case Nil
  show ?case by simp
next
  case (Cons a els)
  show ?case
  proof (cases "processElement parse R F N c a")
    case (Inl x)
    then have l: "isl (forEach parse R F N c (a # els))" by simp
    have "a # els = [] @ a # els \<and> forEach parse R F N c [] = Inr c
        \<and> isl (processElement parse R F N c a)"
      using Inl by simp
    then have "\<exists>pre et post c1. a # els = pre @ et # post \<and> forEach parse R F N c pre = Inr c1
        \<and> isl (processElement parse R F N c1 et)"
      by blast
    with l show ?thesis by blast
  next
    case (Inr c2)
    then have r: "forEach parse R F N c (a # els) = forEach parse R F N c2 els" by simp
    have "(\<exists>pre et post c1. a # els = pre @ et # post \<and> forEach parse R F N c pre = Inr c1
              \<and> isl (processElement parse R F N c1 et))
          \<longleftrightarrow> (\<exists>pre et post c1. els = pre @ et # post \<and> forEach parse R F N c2 pre = Inr c1
              \<and> isl (processElement parse R F N c1 et))"
    proof
      assume "\<exists>pre et post c1. a # els = pre @ et # post \<and> forEach parse R F N c pre = Inr c1
              \<and> isl (processElement parse R F N c1 et)"
      then obtain pre et post c1 where p: "a # els = pre @ et # post"
        "forEach parse R F N c pre = Inr c1" "isl (processElement parse R F N c1 et)" by blast
      show "\<exists>pre et post c1. els = pre @ et # post \<and> forEach parse R F N c2 pre = Inr c1
              \<and> isl (processElement parse R F N c1 et)"
      proof (cases pre)
        case Nil
        with p Inr show ?thesis by simp
      next
        case (Cons b pre')
        with p Inr have "els = pre' @ et # post \<and> forEach parse R F N c2 pre' = Inr c1
            \<and> isl (processElement parse R F N c1 et)"
          by simp
        then show ?thesis by blast
      qed
    next
      assume "\<exists>pre et post c1. els = pre @ et # post \<and> forEach parse R F N c2 pre = Inr c1
              \<and> isl (processElement parse R F N c1 et)"
      then obtain pre et post c1 where p: "els = pre @ et # post"
        "forEach parse R F N c2 pre = Inr c1" "isl (processElement parse R F N c1 et)" by blast
      then have "a # els = (a # pre) @ et # post \<and> forEach parse R F N c (a # pre) = Inr c1
          \<and> isl (processElement parse R F N c1 et)"
        using Inr by simp
      then show "\<exists>pre et post c1. a # els = pre @ et # post \<and> forEach parse R F N c pre = Inr c1
              \<and> isl (processElement parse R F N c1 et)"
        by blast
    qed
    with Cons.IH [of c2] r show ?thesis by simp
  qed
qed

lemma forEach_quiet:
  assumes "\<forall>k es. wire_throws F k es = None" "\<forall>n w. N n w = None"
  shows "\<not> isl (forEach parse R F N c els)"
proof -
  have "\<not> isl (processElement parse R F N c1 et)" for c1 et
    using assms by (cases et) (simp add: processElement_escapes)
  then show ?thesis by (simp add: forEach_escapes)
qed

lemma total_zero: "(totalElements doc = 0) = (allElements doc = [])"
  by (simp add: totalElements_def allElements_def)

lemma convert_fails:
  "isl (convertFromSVG parse R F N k doc) \<longleftrightarrow>
     (\<exists>e\<in>set doc. tag e = ''parsererror'') \<or> totalElements doc = 0
     \<or> (case processAll parse R F N (importLog doc) k (allElements doc) of
          Inl x \<Rightarrow> True
        | Inr c \<Rightarrow> folder c = [])"
proof (cases "find (\<lambda>e. tag e = ''parsererror'') doc")
  case None
  then have "\<not> (\<exists>e\<in>set doc. tag e = ''parsererror'')"
    by (simp add: find_None_iff)
  then show ?thesis using None
    by (simp add: convertFromSVG_def Let_def importLog_def split: sum.splits prod.splits)
next
  case (Some pe)
  then have "\<exists>e\<in>set doc. tag e = ''parsererror''"
    by (auto simp: find_Some_iff intro: nth_mem)
  then show ?thesis using Some
    by (simp add: convertFromSVG_def Let_def)
qed

lemma convert_loop:
  assumes "\<not> (\<exists>e\<in>set doc. tag e = ''parsererror'')" "totalElements doc \<noteq> 0"
  shows "convertFromSVG parse R F N k doc =
     (case processAll parse R F N (importLog doc) k (allElements doc) of
        Inl (error, lg1) \<Rightarrow>
          Inl (getErrorWithLogs (lg1 @ [''Exception caught: '' @ error])
                 (''SVG conversion error: '' @ error))
      | Inr c \<Rightarrow>
          if folder c = []
          then Inl (getErrorWithLogs
                      (clogs c @ [''Import completed: '' @ string_of_nat (successCount c)
                                    @ '' success, '' @ string_of_nat (failCount c) @ '' failed''])
                      ''No valid paths could be imported'')
          else Inr (folder c))"
proof -
  have "find (\<lambda>e. tag e = ''parsererror'') doc = None"
    using assms(1) by (simp add: find_None_iff)
  then show ?thesis
    using assms(2)
    by (simp add: convertFromSVG_def Let_def importLog_def addLog_def
        split: sum.splits prod.splits)
qed

lemma serve_echo: "serve echo k rs = (rs, k)"
  by (induction rs arbitrary: k) (simp_all add: pushed_def split: primitive.splits)

lemma returns_echo: "returns echo"
  by (simp add: returns_def)

lemma returns_strict: "returns strict"
  by (simp add: returns_def)

lemma cpe_served:
  assumes "parse d = Inr cmds" "returns F" "serve F k (requests cmds) = (es, k1)"
  shows "\<exists>lg'. convertPathToEdges parse F lg k d = (Inr es, lg', k1)"
  using cpe_returns [where parse = parse and d = d and cmds = cmds and F = F and lg = lg and k = k]
    assms
  by simp

lemma element_built:
  assumes "\<not> emptyData (pathDataOf R e type)" "parse (the (pathDataOf R e type)) = Inr cmds"
    "returns F" "serve F (ckst c) (requests cmds) = (es, k1)" "es \<noteq> []"
    "wire_throws F k1 es = None" "wire F k1 es = (Inr w, k2)"
    "N (elementNameOf e (elementIndex c + 1)) w = None"
  shows "\<exists>c'. processElement parse R F N c (e, type) = Inr c'
           \<and> folder c' = folder c @ [(elementNameOf e (elementIndex c + 1), w)]
           \<and> successCount c' = successCount c + 1 \<and> failCount c' = failCount c
           \<and> elementIndex c' = elementIndex c + 1 \<and> ckst c' = k2"
proof -
  obtain lg where cv:
    "convertPathToEdges parse F (clogs c @ [processingLine e type (elementIndex c + 1)]) (ckst c)
       (the (pathDataOf R e type)) = (Inr es, lg, k1)"
    using cpe_served [where parse = parse and d = "the (pathDataOf R e type)" and cmds = cmds
        and F = F and k = "ckst c" and es = es and ?k1.0 = k1
        and lg = "clogs c @ [processingLine e type (elementIndex c + 1)]"] assms(2,3,4)
    by blast
  show ?thesis
    using wire_success [where R = R and e = e and type = type and parse = parse and F = F
        and c = c and es = es and lg = lg and ?k1.0 = k1 and w = w and ?k2.0 = k2 and N = N]
      assms(1,5,6,7,8) cv
    by simp
qed

lemma element_wire_failed:
  assumes "\<not> emptyData (pathDataOf R e type)" "parse (the (pathDataOf R e type)) = Inr cmds"
    "returns F" "serve F (ckst c) (requests cmds) = (es, k1)" "es \<noteq> []"
    "wire_throws F k1 es = None" "wire F k1 es = (Inl err, k2)"
  shows "\<exists>c'. processElement parse R F N c (e, type) = Inr c'
           \<and> folder c' = folder c
           \<and> successCount c' = successCount c \<and> failCount c' = failCount c + 1
           \<and> elementIndex c' = elementIndex c + 1 \<and> ckst c' = k2
           \<and> last (clogs c') = label type (elementIndex c + 1) @ '' wire creation failed: '' @ err"
proof -
  obtain lg where cv:
    "convertPathToEdges parse F (clogs c @ [processingLine e type (elementIndex c + 1)]) (ckst c)
       (the (pathDataOf R e type)) = (Inr es, lg, k1)"
    using cpe_served [where parse = parse and d = "the (pathDataOf R e type)" and cmds = cmds
        and F = F and k = "ckst c" and es = es and ?k1.0 = k1
        and lg = "clogs c @ [processingLine e type (elementIndex c + 1)]"] assms(2,3,4)
    by blast
  show ?thesis
    using wire_failure [where R = R and e = e and type = type and parse = parse and F = F
        and c = c and es = es and lg = lg and ?k1.0 = k1 and err = err and ?k2.0 = k2 and N = N]
      assms(1,5,6,7) cv
    by simp
qed

lemma element_wire_throws:
  assumes "\<not> emptyData (pathDataOf R e type)" "parse (the (pathDataOf R e type)) = Inr cmds"
    "returns F" "serve F (ckst c) (requests cmds) = (es, k1)" "es \<noteq> []"
    "wire_throws F k1 es = Some error"
  shows "\<exists>lg. processElement parse R F N c (e, type) = Inl (error, lg)"
proof -
  obtain lg where cv:
    "convertPathToEdges parse F (clogs c @ [processingLine e type (elementIndex c + 1)]) (ckst c)
       (the (pathDataOf R e type)) = (Inr es, lg, k1)"
    using cpe_served [where parse = parse and d = "the (pathDataOf R e type)" and cmds = cmds
        and F = F and k = "ckst c" and es = es and ?k1.0 = k1
        and lg = "clogs c @ [processingLine e type (elementIndex c + 1)]"] assms(2,3,4)
    by blast
  show ?thesis
    using wire_exception [where R = R and e = e and type = type and parse = parse and F = F
        and c = c and es = es and lg = lg and ?k1.0 = k1 and error = error and N = N]
      assms(1,5,6) cv
    by simp
qed

lemma element_no_edges:
  assumes "\<not> emptyData (pathDataOf R e type)" "parse (the (pathDataOf R e type)) = Inr cmds"
    "returns F" "serve F (ckst c) (requests cmds) = ([], k1)"
  shows "\<exists>c'. processElement parse R F N c (e, type) = Inr c'
           \<and> folder c' = folder c
           \<and> successCount c' = successCount c \<and> failCount c' = failCount c
           \<and> elementIndex c' = elementIndex c + 1 \<and> ckst c' = k1
           \<and> last (clogs c') = label type (elementIndex c + 1) @ '': no edges generated, skipping''"
proof -
  obtain lg where cv:
    "convertPathToEdges parse F (clogs c @ [processingLine e type (elementIndex c + 1)]) (ckst c)
       (the (pathDataOf R e type)) = (Inr [], lg, k1)"
    using cpe_served [where parse = parse and d = "the (pathDataOf R e type)" and cmds = cmds
        and F = F and k = "ckst c" and es = "[]" and ?k1.0 = k1
        and lg = "clogs c @ [processingLine e type (elementIndex c + 1)]"] assms(2,3,4)
    by blast
  show ?thesis
    using no_edges [where R = R and e = e and type = type and parse = parse and F = F
        and c = c and lg = lg and ?k1.0 = k1 and N = N]
      assms(1) cv
    by simp
qed

section \<open>The order in which the elements are processed\<close>

lemma rank_simps [simp]:
  "rank ''path'' = 0" "rank ''rect'' = 1" "rank ''circle'' = 2" "rank ''ellipse'' = 3"
  "rank ''line'' = 4" "rank ''polyline'' = 5" "rank ''polygon'' = 6"
  by (simp_all add: rank_def supportedTypes_def)

lemma allElements_concat:
  "allElements doc =
     concat (map (\<lambda>t. map (\<lambda>e. (e, t)) (filter (\<lambda>e. tag e = t) doc)) supportedTypes)"
  by (simp add: allElements_def supportedTypes_def querySelectorAll_def)

lemma sorted_const_map: "sorted (map (\<lambda>x. (c::nat)) xs)"
  by (induction xs) simp_all

lemma allElements_sorted: "sorted (map (\<lambda>et. rank (snd et)) (allElements doc))"
  by (auto simp add: allElements_def sorted_append comp_def sorted_const_map)

lemma filter_tagged:
  "filter (\<lambda>et. snd et = t) (map (\<lambda>e. (e, u)) xs) = (if u = t then map (\<lambda>e. (e, u)) xs else [])"
  by (induction xs) simp_all

lemma allElements_within:
  "map fst (filter (\<lambda>et. snd et = t) (allElements doc)) =
     (if t \<in> set supportedTypes then filter (\<lambda>e. tag e = t) doc else [])"
  by (simp add: allElements_def filter_tagged supportedTypes_def querySelectorAll_def comp_def)

text \<open>
  Claim C9. The elements are processed type by type in the order path, rect, circle,
  ellipse, line, polyline, polygon, and in document order within each type: the list
  the loop runs over is the concatenation, in that order of the types, of the
  elements of each type as they stand in the document; the ranks of the types along
  the list never decrease, and the elements of one type are exactly those of the
  document with that tag, in document order. \<^verbatim>\<open>convertFromSVG\<close> runs the loop body
  over that list from its first element on: the result is read off the state after
  the loop, every body counts its element and logs its \<^verbatim>\<open>Processing\<close> line with the
  running index, so these lines stand in the log in the order of the list, and the
  shape nodes are added to the group in that order too.
\<close>

theorem type_grouped_order:
  "allElements doc =
     concat (map (\<lambda>t. map (\<lambda>e. (e, t)) (filter (\<lambda>e. tag e = t) doc)) supportedTypes)
   \<and> supportedTypes
        = [''path'', ''rect'', ''circle'', ''ellipse'', ''line'', ''polyline'', ''polygon'']
   \<and> sorted (map (\<lambda>et. rank (snd et)) (allElements doc))
   \<and> map fst (filter (\<lambda>et. snd et = t) (allElements doc)) =
       (if t \<in> set supportedTypes then filter (\<lambda>e. tag e = t) doc else [])
   \<and> processAll parse R F N lg k (allElements doc) =
       forEach parse R F N
         \<lparr>folder = [], successCount = 0, failCount = 0, elementIndex = 0, clogs = lg, ckst = k\<rparr>
         (allElements doc)
   \<and> forEach parse R F N c (et # els) =
       (case processElement parse R F N c et of
          Inl x \<Rightarrow> Inl x
        | Inr c1 \<Rightarrow> forEach parse R F N c1 els)
   \<and> (\<not> (\<exists>e\<in>set doc. tag e = ''parsererror'') \<and> totalElements doc \<noteq> 0 \<longrightarrow>
        convertFromSVG parse R F N k doc =
          (case forEach parse R F N
                  \<lparr>folder = [], successCount = 0, failCount = 0, elementIndex = 0,
                   clogs = importLog doc, ckst = k\<rparr>
                  (allElements doc) of
             Inl (error, lg1) \<Rightarrow>
               Inl (getErrorWithLogs (lg1 @ [''Exception caught: '' @ error])
                      (''SVG conversion error: '' @ error))
           | Inr c \<Rightarrow>
               if folder c = []
               then Inl (getErrorWithLogs
                           (clogs c @ [''Import completed: '' @ string_of_nat (successCount c)
                                         @ '' success, '' @ string_of_nat (failCount c)
                                         @ '' failed''])
                           ''No valid paths could be imported'')
               else Inr (folder c)))
   \<and> (\<forall>c'. processElement parse R F N c et = Inr c' \<longrightarrow>
         elementIndex c' = elementIndex c + 1
         \<and> (\<exists>m. clogs c' = clogs c @ processingLine (fst et) (snd et) (elementIndex c + 1) # m)
         \<and> (folder c' = folder c
             \<or> (\<exists>w. folder c' = folder c @ [(elementNameOf (fst et) (elementIndex c + 1), w)])))
   \<and> (\<forall>c'. forEach parse R F N c (allElements doc) = Inr c' \<longrightarrow>
         elementIndex c' = elementIndex c + length (allElements doc)
         \<and> (\<exists>rest. clogs c' = clogs c @ rest
               \<and> subseq (processingLines (elementIndex c) (allElements doc)) rest)
         \<and> (\<exists>ns. map fst (folder c') = map fst (folder c) @ ns
               \<and> subseq ns (nodeNames (elementIndex c) (allElements doc))))
   \<and> (\<forall>nodes. convertFromSVG parse R F N k doc = Inr nodes \<longrightarrow>
         subseq (map fst nodes) (nodeNames 0 (allElements doc)))"
proof -
  let ?c0 = "\<lparr>folder = [], successCount = 0, failCount = 0, elementIndex = 0,
               clogs = importLog doc, ckst = k\<rparr>"
  have 5: "processAll parse R F N lg k (allElements doc) =
       forEach parse R F N
         \<lparr>folder = [], successCount = 0, failCount = 0, elementIndex = 0, clogs = lg, ckst = k\<rparr>
         (allElements doc)"
    by (simp add: processAll_def)
  have 6: "forEach parse R F N c (et # els) =
       (case processElement parse R F N c et of
          Inl x \<Rightarrow> Inl x
        | Inr c1 \<Rightarrow> forEach parse R F N c1 els)"
    by simp
  have 7: "\<not> (\<exists>e\<in>set doc. tag e = ''parsererror'') \<and> totalElements doc \<noteq> 0 \<longrightarrow>
        convertFromSVG parse R F N k doc =
          (case forEach parse R F N ?c0 (allElements doc) of
             Inl (error, lg1) \<Rightarrow>
               Inl (getErrorWithLogs (lg1 @ [''Exception caught: '' @ error])
                      (''SVG conversion error: '' @ error))
           | Inr c \<Rightarrow>
               if folder c = []
               then Inl (getErrorWithLogs
                           (clogs c @ [''Import completed: '' @ string_of_nat (successCount c)
                                         @ '' success, '' @ string_of_nat (failCount c)
                                         @ '' failed''])
                           ''No valid paths could be imported'')
               else Inr (folder c))"
    using convert_loop [of doc parse R F N k] by (simp add: processAll_def)
  have 8: "\<forall>c'. processElement parse R F N c et = Inr c' \<longrightarrow>
         elementIndex c' = elementIndex c + 1
         \<and> (\<exists>m. clogs c' = clogs c @ processingLine (fst et) (snd et) (elementIndex c + 1) # m)
         \<and> (folder c' = folder c
             \<or> (\<exists>w. folder c' = folder c @ [(elementNameOf (fst et) (elementIndex c + 1), w)]))"
    using processElement_Inr [of parse R F N c et] by blast
  have 9: "\<forall>c'. forEach parse R F N c (allElements doc) = Inr c' \<longrightarrow>
         elementIndex c' = elementIndex c + length (allElements doc)
         \<and> (\<exists>rest. clogs c' = clogs c @ rest
               \<and> subseq (processingLines (elementIndex c) (allElements doc)) rest)
         \<and> (\<exists>ns. map fst (folder c') = map fst (folder c) @ ns
               \<and> subseq ns (nodeNames (elementIndex c) (allElements doc)))"
    using forEach_Inr [of parse R F N c "allElements doc"] by blast
  have 10: "subseq (map fst nodes) (nodeNames 0 (allElements doc))"
    if r: "convertFromSVG parse R F N k doc = Inr nodes" for nodes
  proof -
    have n: "\<not> isl (convertFromSVG parse R F N k doc)" using r by simp
    then have a: "\<not> (\<exists>e\<in>set doc. tag e = ''parsererror'')" "totalElements doc \<noteq> 0"
      using convert_fails [of parse R F N k doc] by auto
    from n convert_fails [of parse R F N k doc]
    obtain c where c: "processAll parse R F N (importLog doc) k (allElements doc) = Inr c"
      by (cases "processAll parse R F N (importLog doc) k (allElements doc)") auto
    have "nodes = folder c"
      using r convert_loop [OF a, of parse R F N k] c by (simp split: if_splits)
    moreover have "subseq (map fst (folder c)) (nodeNames 0 (allElements doc))"
      using forEach_Inr [OF c [unfolded processAll_def]] by simp
    ultimately show ?thesis by simp
  qed
  show ?thesis
    using allElements_concat [of doc] allElements_sorted [of doc] allElements_within [of t doc]
      5 6 7 8 9 10
    by (simp add: supportedTypes_def)
qed

text \<open>
  Two paths that follow two rectangles in the document are processed before them,
  and a path that follows a rectangle comes before it in the imported group.
\<close>

theorem type_grouped_order_example:
  "allElements
     [\<lparr>tag = ''rect'', attributes = [(''id'', ''r1'')], textContent = ''''\<rparr>,
      \<lparr>tag = ''path'', attributes = [(''id'', ''p1'')], textContent = ''''\<rparr>,
      \<lparr>tag = ''text'', attributes = [], textContent = ''hi''\<rparr>,
      \<lparr>tag = ''rect'', attributes = [(''id'', ''r2'')], textContent = ''''\<rparr>,
      \<lparr>tag = ''path'', attributes = [(''id'', ''p2'')], textContent = ''''\<rparr>]
   = [(\<lparr>tag = ''path'', attributes = [(''id'', ''p1'')], textContent = ''''\<rparr>, ''path''),
      (\<lparr>tag = ''path'', attributes = [(''id'', ''p2'')], textContent = ''''\<rparr>, ''path''),
      (\<lparr>tag = ''rect'', attributes = [(''id'', ''r1'')], textContent = ''''\<rparr>, ''rect''),
      (\<lparr>tag = ''rect'', attributes = [(''id'', ''r2'')], textContent = ''''\<rparr>, ''rect'')]
   \<and> convertFromSVG
        (table_parse [(''M 0,0 L 3,4'', [MOVE_TO 0 0, LINE_TO 3 4]),
                      (''M 0,0 h 10 v 5 h -10 Z'',
                       [MOVE_TO 0 0, HORIZ_LINE_TO 10, VERT_LINE_TO 5, HORIZ_LINE_TO 0, CLOSE_PATH])])
        sample_reducers echo no_throw ()
        [\<lparr>tag = ''rect'', attributes = [(''id'', ''r1'')], textContent = ''''\<rparr>,
         \<lparr>tag = ''path'', attributes = [(''id'', ''p1''), (''d'', ''M 0,0 L 3,4'')],
            textContent = ''''\<rparr>]
     = Inr [(''p1'', [Line (XYZ 0 0 0) (XYZ 3 (- 4) 0)]),
            (''r1'', [Line (XYZ 0 0 0) (XYZ 10 0 0), Line (XYZ 10 0 0) (XYZ 10 (- 5) 0),
                      Line (XYZ 10 (- 5) 0) (XYZ 0 (- 5) 0), Line (XYZ 0 (- 5) 0) (XYZ 0 0 0)])]"
proof -
  let ?r1 = "\<lparr>tag = ''rect'', attributes = [(''id'', ''r1'')], textContent = ''''\<rparr>"
  let ?p1 = "\<lparr>tag = ''path'', attributes = [(''id'', ''p1''), (''d'', ''M 0,0 L 3,4'')],
            textContent = ''''\<rparr>"
  let ?parse = "table_parse [(''M 0,0 L 3,4'', [MOVE_TO 0 0, LINE_TO 3 4]),
                      (''M 0,0 h 10 v 5 h -10 Z'',
                       [MOVE_TO 0 0, HORIZ_LINE_TO 10, VERT_LINE_TO 5, HORIZ_LINE_TO 0, CLOSE_PATH])]"
  let ?rect = "[Line (XYZ 0 0 0) (XYZ 10 0 0), Line (XYZ 10 0 0) (XYZ 10 (- 5) 0),
                Line (XYZ 10 (- 5) 0) (XYZ 0 (- 5) 0), Line (XYZ 0 (- 5) 0) (XYZ 0 0 0)]"
  let ?c0 = "\<lparr>folder = [], successCount = 0, failCount = 0, elementIndex = 0,
               clogs = importLog [?r1, ?p1], ckst = ()\<rparr> :: (primitive list, unit) conv"
  have tp: "trim ''M 0,0 L 3,4'' = ''M 0,0 L 3,4''"
    and tr: "trim ''M 0,0 h 10 v 5 h -10 Z'' = ''M 0,0 h 10 v 5 h -10 Z''"
    by (simp_all add: trim_def is_space_def)
  have ep: "\<not> emptyData (pathDataOf sample_reducers ?p1 ''path'')"
    by (simp add: emptyData_def pathDataOf_def getAttribute_def tp)
  have er: "\<not> emptyData (pathDataOf sample_reducers ?r1 ''rect'')"
    by (simp add: emptyData_def pathDataOf_def convertBasicShapeToPath_def sample_reducers_def tr)
  have pp: "?parse (the (pathDataOf sample_reducers ?p1 ''path'')) = Inr [MOVE_TO 0 0, LINE_TO 3 4]"
    by (simp add: pathDataOf_def getAttribute_def table_parse_def)
  have pr: "?parse (the (pathDataOf sample_reducers ?r1 ''rect''))
              = Inr [MOVE_TO 0 0, HORIZ_LINE_TO 10, VERT_LINE_TO 5, HORIZ_LINE_TO 0, CLOSE_PATH]"
    by (simp add: pathDataOf_def convertBasicShapeToPath_def sample_reducers_def table_parse_def)
  have rp: "requests [MOVE_TO 0 0, LINE_TO 3 4] = [Line (XYZ 0 0 0) (XYZ 3 (- 4) 0)]"
    by (simp add: requests_def initial_def Let_def)
  have far: "distToStart (XYZ 0 (- 5) 0) (XYZ 0 0 0) > 1 / 1000"
    unfolding distToStart_def sqrt_gt_milli by simp
  have rr: "requests [MOVE_TO 0 0, HORIZ_LINE_TO 10, VERT_LINE_TO 5, HORIZ_LINE_TO 0, CLOSE_PATH]
              = ?rect"
    using far by (simp add: requests_def initial_def Let_def)
  have al: "allElements [?r1, ?p1] = [(?p1, ''path''), (?r1, ''rect'')]"
    by (simp add: allElements_def querySelectorAll_def)
  have nz: "totalElements [?r1, ?p1] \<noteq> 0" "\<not> (\<exists>e\<in>set [?r1, ?p1]. tag e = ''parsererror'')"
    by (simp_all add: totalElements_def querySelectorAll_def)
  obtain c1 where c1: "processElement ?parse sample_reducers echo no_throw ?c0 (?p1, ''path'') = Inr c1"
    "folder c1 = [(''p1'', [Line (XYZ 0 0 0) (XYZ 3 (- 4) 0)])]" "elementIndex c1 = 1"
    using element_built [where R = sample_reducers and e = ?p1 and type = "''path''"
        and parse = ?parse and cmds = "[MOVE_TO 0 0, LINE_TO 3 4]" and F = echo and c = ?c0
        and es = "[Line (XYZ 0 0 0) (XYZ 3 (- 4) 0)]" and ?k1.0 = "()"
        and w = "[Line (XYZ 0 0 0) (XYZ 3 (- 4) 0)]" and ?k2.0 = "()" and N = no_throw]
      ep pp returns_echo
    by (auto simp add: rp serve_echo no_throw_def elementNameOf_def getAttribute_def or_else_def)
  obtain c2 where c2: "processElement ?parse sample_reducers echo no_throw c1 (?r1, ''rect'') = Inr c2"
    "folder c2 = [(''p1'', [Line (XYZ 0 0 0) (XYZ 3 (- 4) 0)]), (''r1'', ?rect)]"
    using element_built [where R = sample_reducers and e = ?r1 and type = "''rect''"
        and parse = ?parse
        and cmds = "[MOVE_TO 0 0, HORIZ_LINE_TO 10, VERT_LINE_TO 5, HORIZ_LINE_TO 0, CLOSE_PATH]"
        and F = echo and c = c1 and es = ?rect and ?k1.0 = "()" and w = ?rect and ?k2.0 = "()"
        and N = no_throw]
      er pr returns_echo c1(2,3)
    by (auto simp add: rr serve_echo no_throw_def elementNameOf_def getAttribute_def or_else_def)
  have f: "forEach ?parse sample_reducers echo no_throw ?c0 (allElements [?r1, ?p1]) = Inr c2"
    unfolding al by (simp add: c1(1) c2(1))
  have 2: "convertFromSVG ?parse sample_reducers echo no_throw () [?r1, ?p1]
             = Inr [(''p1'', [Line (XYZ 0 0 0) (XYZ 3 (- 4) 0)]), (''r1'', ?rect)]"
    using type_grouped_order [of "[?r1, ?p1]" "''path''" ?parse sample_reducers echo no_throw
        "[]" "()", THEN conjunct2, THEN conjunct2, THEN conjunct2, THEN conjunct2, THEN conjunct2,
        THEN conjunct2, THEN conjunct1] nz
    by (simp add: f c2(2))
  have 1: "allElements
     [\<lparr>tag = ''rect'', attributes = [(''id'', ''r1'')], textContent = ''''\<rparr>,
      \<lparr>tag = ''path'', attributes = [(''id'', ''p1'')], textContent = ''''\<rparr>,
      \<lparr>tag = ''text'', attributes = [], textContent = ''hi''\<rparr>,
      \<lparr>tag = ''rect'', attributes = [(''id'', ''r2'')], textContent = ''''\<rparr>,
      \<lparr>tag = ''path'', attributes = [(''id'', ''p2'')], textContent = ''''\<rparr>]
   = [(\<lparr>tag = ''path'', attributes = [(''id'', ''p1'')], textContent = ''''\<rparr>, ''path''),
      (\<lparr>tag = ''path'', attributes = [(''id'', ''p2'')], textContent = ''''\<rparr>, ''path''),
      (\<lparr>tag = ''rect'', attributes = [(''id'', ''r1'')], textContent = ''''\<rparr>, ''rect''),
      (\<lparr>tag = ''rect'', attributes = [(''id'', ''r2'')], textContent = ''''\<rparr>, ''rect'')]"
    using type_grouped_order [of
     "[\<lparr>tag = ''rect'', attributes = [(''id'', ''r1'')], textContent = ''''\<rparr>,
      \<lparr>tag = ''path'', attributes = [(''id'', ''p1'')], textContent = ''''\<rparr>,
      \<lparr>tag = ''text'', attributes = [], textContent = ''hi''\<rparr>,
      \<lparr>tag = ''rect'', attributes = [(''id'', ''r2'')], textContent = ''''\<rparr>,
      \<lparr>tag = ''path'', attributes = [(''id'', ''p2'')], textContent = ''''\<rparr>]"
     "''path''" "table_parse []" sample_reducers strict no_throw "[]" 0, THEN conjunct1]
    by (simp add: supportedTypes_def)
  show ?thesis using 1 2 by blast
qed

section \<open>The path string of a polyline\<close>

lemma loop_text: "polyline_loop ps i path = path @ lineto_text (drop i ps)"
proof (induction ps i path rule: polyline_loop.induct)
  case (1 pairs i path)
  show ?case
  proof (cases "i < length pairs")
    case False
    then show ?thesis by (simp add: polyline_loop.simps [of pairs i path])
  next
    case True
    note lt = this
    show ?thesis
    proof (cases "i + 1 < length pairs")
      case True
      have d: "drop i pairs = pairs ! i # pairs ! (i + 1) # drop (i + 2) pairs"
        using True lt by (simp add: Cons_nth_drop_Suc)
      show ?thesis
        using "1.IH" [OF lt] True lt
        by (simp add: polyline_loop.simps [of pairs i path] d)
    next
      case False
      have d: "drop i pairs = [pairs ! i]"
        using False lt by (metis Cons_nth_drop_Suc Suc_eq_plus1 drop_all not_less)
      show ?thesis
        using "1.IH" [OF lt] False lt
        by (simp add: polyline_loop.simps [of pairs i path] d)
    qed
  qed
qed

lemma points_or_else:
  "(case getAttribute e ''points'' of None \<Rightarrow> '''' | Some v \<Rightarrow> (if v = '''' then '''' else v))
     = or_else (getAttribute e ''points'') ''''"
  by (simp add: or_else_def split: option.splits)

lemma polylineToPath_eq:
  "polylineToPath e =
     (if length (pairs_of (or_else (getAttribute e ''points'') '''')) < 2 then ''''
      else polyline_text (pairs_of (or_else (getAttribute e ''points'') '''')))"
  by (simp add: polylineToPath_def points_or_else Let_def loop_text polyline_text_def)

lemma polyline_text_nonempty: "polyline_text ts \<noteq> ''''"
  by (simp add: polyline_text_def)

lemma length_lineto_commands: "length (lineto_commands num ts) = length ts div 2"
  by (induction num ts rule: lineto_commands.induct) simp_all

lemma run_linetos:
  assumes "\<forall>k a b. fst (line F k a b) \<noteq> None"
  shows "length (edges (foldl (step F) s (lineto_commands num ts)))
           = length (edges s) + length ts div 2"
proof (induction num ts arbitrary: s rule: lineto_commands.induct)
  case (1 num a b rest)
  have "length (pushed (line F (kst s) (currentPoint s) (XYZ (num a) (- num b) 0))) = 1"
    using assms by (auto simp: pushed_def split: option.splits)
  then show ?case
    by (simp add: "1.IH" Let_def)
qed simp_all

lemma trim_M: "trim (CHR ''M'' # rest) \<noteq> ''''"
  by (simp add: trim_def is_space_def dropWhile_eq_Nil_conv)

lemma polyline_text_M: "polyline_text ts = CHR ''M'' # CHR '' '' # ts ! 0 @ '','' @ ts ! 1 @ lineto_text (drop 2 ts)"
  by (simp add: polyline_text_def)

lemma string_of_nat_Suc_Suc_0 [simp]: "string_of_nat (Suc (Suc 0)) = ''2''"
  by code_simp

lemma cpe_move:
  "parse d = Inr [MOVE_TO x y] \<Longrightarrow>
   convertPathToEdges parse F lg k d =
     (Inr [], lg @ [''Parsed 1 path commands'', ''Total edges generated: 0''], k)"
  by (simp add: convertPathToEdges_def Let_def addLog_def initial_def thrown_def)

lemma cpe_move_close:
  "parse d = Inr [MOVE_TO x y, CLOSE_PATH] \<Longrightarrow>
   convertPathToEdges parse F lg k d =
     (Inr [], lg @ [''Parsed 2 path commands'', ''Total edges generated: 0''], k)"
  by (simp add: convertPathToEdges_def Let_def addLog_def initial_def thrown_def distToStart_def)

section \<open>Polylines with too few points\<close>

text \<open>
  Claim C1, amended. For a polyline or polygon whose \<^verbatim>\<open>points\<close> attribute holds fewer
  than two coordinates (not one complete pair), the reducer returns the empty string
  and the loop body skips the element at once: it only counts the element in
  \<^verbatim>\<open>elementIndex\<close> and logs two lines, the second one saying that the path data is
  empty; the group, both counters and the kernel state stay as they are and neither
  the parser nor the kernel is used (there is no counter of skipped elements). From
  two coordinates on the reducer returns a string that is not empty and passes the
  test for empty path data, the polygon's string being the polyline's followed by
  \<^verbatim>\<open> Z\<close>; for two or three coordinates, one pair, it is \<^verbatim>\<open>M x,y\<close> (\<^verbatim>\<open>M x,y Z\<close> for a
  polygon). That string is handed to the interpreter: if the parser rejects it the
  element is counted as failed, and if the parser reads it as the one \<^verbatim>\<open>MOVE_TO\<close>
  (followed by \<^verbatim>\<open>CLOSE_PATH\<close> for a polygon) the interpreter returns no edges,
  whatever the kernel, and the element is skipped then, with the log line
  \<^verbatim>\<open>no edges generated, skipping\<close>; the group, both counters and the kernel state stay
  as they are.
\<close>

theorem short_polyline_skipped:
  "((type = ''polyline'' \<or> type = ''polygon'')
      \<and> length (pairs_of (or_else (getAttribute e ''points'') '''')) < 2 \<longrightarrow>
      convertBasicShapeToPath R e type = Some ''''
      \<and> processElement parse R F N c (e, type) =
          Inr (c\<lparr>elementIndex := elementIndex c + 1,
                 clogs := clogs c @ [processingLine e type (elementIndex c + 1),
                            label type (elementIndex c + 1) @ '': empty path data, skipping'']\<rparr>))
   \<and> (2 \<le> length (pairs_of (or_else (getAttribute e ''points'') '''')) \<longrightarrow>
        polylineToPath e \<noteq> '''' \<and> polygonToPath e \<noteq> ''''
        \<and> polygonToPath e = polylineToPath e @ '' Z''
        \<and> pathDataOf R e ''polyline'' = Some (polylineToPath e)
        \<and> pathDataOf R e ''polygon'' = Some (polygonToPath e)
        \<and> \<not> emptyData (pathDataOf R e ''polyline'')
        \<and> \<not> emptyData (pathDataOf R e ''polygon'')
        \<and> (length (pairs_of (or_else (getAttribute e ''points'') '''')) < 4 \<longrightarrow>
             polylineToPath e =
               ''M '' @ pairs_of (or_else (getAttribute e ''points'') '''') ! 0 @ '',''
                 @ pairs_of (or_else (getAttribute e ''points'') '''') ! 1
             \<and> polygonToPath e =
               ''M '' @ pairs_of (or_else (getAttribute e ''points'') '''') ! 0 @ '',''
                 @ pairs_of (or_else (getAttribute e ''points'') '''') ! 1 @ '' Z''))
   \<and> ((type = ''polyline'' \<or> type = ''polygon'')
        \<and> 2 \<le> length (pairs_of (or_else (getAttribute e ''points'') '''')) \<longrightarrow>
        (\<forall>err. parse (the (pathDataOf R e type)) = Inl err \<longrightarrow>
           processElement parse R F N c (e, type) =
             Inr (c\<lparr>elementIndex := elementIndex c + 1,
                    clogs := clogs c @ [processingLine e type (elementIndex c + 1),
                               ''Path conversion exception: '' @ err,
                               label type (elementIndex c + 1) @ '' conversion failed: ''
                                 @ ''Path conversion error: '' @ err],
                    failCount := failCount c + 1\<rparr>)))
   \<and> (2 \<le> length (pairs_of (or_else (getAttribute e ''points'') '''')) \<longrightarrow>
        (\<forall>x y. parse (polylineToPath e) = Inr [MOVE_TO x y] \<longrightarrow>
           processElement parse R F N c (e, ''polyline'') =
             Inr (c\<lparr>elementIndex := elementIndex c + 1,
                    clogs := clogs c @ [processingLine e ''polyline'' (elementIndex c + 1),
                               ''Parsed 1 path commands'', ''Total edges generated: 0'',
                               label ''polyline'' (elementIndex c + 1) @ '': generated 0 edges'',
                               label ''polyline'' (elementIndex c + 1)
                                 @ '': no edges generated, skipping'']\<rparr>))
        \<and> (\<forall>x y. parse (polygonToPath e) = Inr [MOVE_TO x y, CLOSE_PATH] \<longrightarrow>
           processElement parse R F N c (e, ''polygon'') =
             Inr (c\<lparr>elementIndex := elementIndex c + 1,
                    clogs := clogs c @ [processingLine e ''polygon'' (elementIndex c + 1),
                               ''Parsed 2 path commands'', ''Total edges generated: 0'',
                               label ''polygon'' (elementIndex c + 1) @ '': generated 0 edges'',
                               label ''polygon'' (elementIndex c + 1)
                                 @ '': no edges generated, skipping'']\<rparr>)))"
proof -
  let ?ts = "pairs_of (or_else (getAttribute e ''points'') '''')"
  have a: "convertBasicShapeToPath R e type = Some ''''
      \<and> processElement parse R F N c (e, type) =
          Inr (c\<lparr>elementIndex := elementIndex c + 1,
                 clogs := clogs c @ [processingLine e type (elementIndex c + 1),
                            label type (elementIndex c + 1) @ '': empty path data, skipping'']\<rparr>)"
    if t: "type = ''polyline'' \<or> type = ''polygon''" and l: "length ?ts < 2"
  proof -
    have p: "polylineToPath e = ''''" using l by (simp add: polylineToPath_eq)
    have r: "convertBasicShapeToPath R e type = Some ''''"
      using t p by (auto simp: convertBasicShapeToPath_def polygonToPath_def)
    have "emptyData (pathDataOf R e type)"
      using t r by (auto simp: emptyData_def pathDataOf_def)
    from skip_empty [OF this] r show ?thesis by simp
  qed
  have dl: "pathDataOf R e ''polyline'' = Some (polylineToPath e)"
    and dg: "pathDataOf R e ''polygon'' = Some (polygonToPath e)"
    by (simp_all add: pathDataOf_def convertBasicShapeToPath_def)
  have p: "polylineToPath e = polyline_text ?ts" if "2 \<le> length ?ts"
    using that by (simp add: polylineToPath_eq)
  have g: "polygonToPath e = polylineToPath e @ '' Z''" if "2 \<le> length ?ts"
    using p [OF that] by (simp add: polygonToPath_def polyline_text_def)
  have nl: "\<not> emptyData (pathDataOf R e ''polyline'')" if "2 \<le> length ?ts"
    unfolding dl p [OF that] polyline_text_M emptyData_def using trim_M by simp
  have ng: "\<not> emptyData (pathDataOf R e ''polygon'')" if "2 \<le> length ?ts"
    unfolding dg g [OF that] p [OF that] polyline_text_M emptyData_def using trim_M by simp
  have b: "polylineToPath e \<noteq> '''' \<and> polygonToPath e \<noteq> ''''
        \<and> polygonToPath e = polylineToPath e @ '' Z''
        \<and> pathDataOf R e ''polyline'' = Some (polylineToPath e)
        \<and> pathDataOf R e ''polygon'' = Some (polygonToPath e)
        \<and> \<not> emptyData (pathDataOf R e ''polyline'')
        \<and> \<not> emptyData (pathDataOf R e ''polygon'')
        \<and> (length ?ts < 4 \<longrightarrow>
             polylineToPath e = ''M '' @ ?ts ! 0 @ '','' @ ?ts ! 1
             \<and> polygonToPath e = ''M '' @ ?ts ! 0 @ '','' @ ?ts ! 1 @ '' Z'')"
    if l: "2 \<le> length ?ts"
  proof -
    have "length ?ts < 4 \<Longrightarrow> lineto_text (drop 2 ?ts) = ''''"
      using l by (cases "drop 2 ?ts" rule: lineto_text.cases) (auto dest: arg_cong [of _ _ length])
    then show ?thesis
      using p [OF l] g [OF l] nl [OF l] ng [OF l] dl dg
      by (auto simp: polyline_text_def)
  qed
  have f: "processElement parse R F N c (e, type) =
             Inr (c\<lparr>elementIndex := elementIndex c + 1,
                    clogs := clogs c @ [processingLine e type (elementIndex c + 1),
                               ''Path conversion exception: '' @ err,
                               label type (elementIndex c + 1) @ '' conversion failed: ''
                                 @ ''Path conversion error: '' @ err],
                    failCount := failCount c + 1\<rparr>)"
    if t: "type = ''polyline'' \<or> type = ''polygon''" and l: "2 \<le> length ?ts"
      and e: "parse (the (pathDataOf R e type)) = Inl err" for err
  proof -
    have "\<not> emptyData (pathDataOf R e type)"
      using t nl [OF l] ng [OF l] by blast
    then show ?thesis using e by (rule parse_failure)
  qed
  have m: "processElement parse R F N c (e, ''polyline'') =
             Inr (c\<lparr>elementIndex := elementIndex c + 1,
                    clogs := clogs c @ [processingLine e ''polyline'' (elementIndex c + 1),
                               ''Parsed 1 path commands'', ''Total edges generated: 0'',
                               label ''polyline'' (elementIndex c + 1) @ '': generated 0 edges'',
                               label ''polyline'' (elementIndex c + 1)
                                 @ '': no edges generated, skipping'']\<rparr>)"
    if l: "2 \<le> length ?ts" and e: "parse (polylineToPath e) = Inr [MOVE_TO x y]" for x y
  proof -
    have "parse (the (pathDataOf R e ''polyline'')) = Inr [MOVE_TO x y]"
      using e by (simp add: dl)
    then have "convertPathToEdges parse F
                 (clogs c @ [processingLine e ''polyline'' (elementIndex c + 1)]) (ckst c)
                 (the (pathDataOf R e ''polyline''))
               = (Inr [], (clogs c @ [processingLine e ''polyline'' (elementIndex c + 1)])
                           @ [''Parsed 1 path commands'', ''Total edges generated: 0''], ckst c)"
      by (rule cpe_move)
    then show ?thesis
      using no_edges [where R = R and e = e and type = "''polyline''" and parse = parse and F = F
          and c = c and N = N and ?k1.0 = "ckst c"
          and lg = "(clogs c @ [processingLine e ''polyline'' (elementIndex c + 1)])
                           @ [''Parsed 1 path commands'', ''Total edges generated: 0'']"]
        nl [OF l]
      by simp
  qed
  have z: "processElement parse R F N c (e, ''polygon'') =
             Inr (c\<lparr>elementIndex := elementIndex c + 1,
                    clogs := clogs c @ [processingLine e ''polygon'' (elementIndex c + 1),
                               ''Parsed 2 path commands'', ''Total edges generated: 0'',
                               label ''polygon'' (elementIndex c + 1) @ '': generated 0 edges'',
                               label ''polygon'' (elementIndex c + 1)
                                 @ '': no edges generated, skipping'']\<rparr>)"
    if l: "2 \<le> length ?ts" and e: "parse (polygonToPath e) = Inr [MOVE_TO x y, CLOSE_PATH]"
    for x y
  proof -
    have "parse (the (pathDataOf R e ''polygon'')) = Inr [MOVE_TO x y, CLOSE_PATH]"
      using e by (simp add: dg)
    then have "convertPathToEdges parse F
                 (clogs c @ [processingLine e ''polygon'' (elementIndex c + 1)]) (ckst c)
                 (the (pathDataOf R e ''polygon''))
               = (Inr [], (clogs c @ [processingLine e ''polygon'' (elementIndex c + 1)])
                           @ [''Parsed 2 path commands'', ''Total edges generated: 0''], ckst c)"
      by (rule cpe_move_close)
    then show ?thesis
      using no_edges [where R = R and e = e and type = "''polygon''" and parse = parse and F = F
          and c = c and N = N and ?k1.0 = "ckst c"
          and lg = "(clogs c @ [processingLine e ''polygon'' (elementIndex c + 1)])
                           @ [''Parsed 2 path commands'', ''Total edges generated: 0'']"]
        ng [OF l]
      by simp
  qed
  show ?thesis using a b f m z by blast
qed

theorem short_polyline_skipped_witness:
  "processElement (table_parse []) sample_reducers strict no_throw
     \<lparr>folder = [], successCount = 0, failCount = 0, elementIndex = 0, clogs = [], ckst = 0\<rparr>
     (\<lparr>tag = ''polygon'', attributes = [(''points'', '' 7 '')], textContent = ''''\<rparr>, ''polygon'')
   = Inr \<lparr>folder = [], successCount = 0, failCount = 0, elementIndex = 1,
      clogs = [''Processing polygon 1: '' @ [CHR 0x22] @ ''Element 1'' @ [CHR 0x22],
               ''polygon 1: empty path data, skipping''],
      ckst = 0\<rparr>
   \<and> polylineToPath \<lparr>tag = ''polyline'', attributes = [(''points'', ''0,0'')], textContent = ''''\<rparr>
       = ''M 0,0''
   \<and> polygonToPath \<lparr>tag = ''polygon'', attributes = [(''points'', ''0,0'')], textContent = ''''\<rparr>
       = ''M 0,0 Z''
   \<and> processElement (table_parse [(''M 0,0 Z'', [MOVE_TO 0 0, CLOSE_PATH])]) sample_reducers
        brittle no_throw
        \<lparr>folder = [], successCount = 0, failCount = 0, elementIndex = 0, clogs = [], ckst = 0\<rparr>
        (\<lparr>tag = ''polygon'', attributes = [(''points'', ''0,0'')], textContent = ''''\<rparr>, ''polygon'')
   = Inr \<lparr>folder = [], successCount = 0, failCount = 0, elementIndex = 1,
      clogs = [''Processing polygon 1: '' @ [CHR 0x22] @ ''Element 1'' @ [CHR 0x22],
               ''Parsed 2 path commands'', ''Total edges generated: 0'',
               ''polygon 1: generated 0 edges'', ''polygon 1: no edges generated, skipping''],
      ckst = 0\<rparr>"
  using short_polyline_skipped [where type = "''polygon''"
      and e = "\<lparr>tag = ''polygon'', attributes = [(''points'', '' 7 '')], textContent = ''''\<rparr>"
      and R = sample_reducers and parse = "table_parse []" and F = strict and N = no_throw
      and c = "\<lparr>folder = [], successCount = 0, failCount = 0, elementIndex = 0, clogs = [],
                ckst = 0\<rparr>"]
    short_polyline_skipped [where type = "''polyline''"
      and e = "\<lparr>tag = ''polyline'', attributes = [(''points'', ''0,0'')], textContent = ''''\<rparr>"
      and R = sample_reducers and parse = "table_parse []" and F = strict and N = no_throw
      and c = "\<lparr>folder = [], successCount = 0, failCount = 0, elementIndex = 0, clogs = [],
                ckst = 0\<rparr>"]
    short_polyline_skipped [where type = "''polygon''"
      and e = "\<lparr>tag = ''polygon'', attributes = [(''points'', ''0,0'')], textContent = ''''\<rparr>"
      and R = sample_reducers and parse = "table_parse [(''M 0,0 Z'', [MOVE_TO 0 0, CLOSE_PATH])]"
      and F = brittle and N = no_throw
      and c = "\<lparr>folder = [], successCount = 0, failCount = 0, elementIndex = 0, clogs = [],
                ckst = 0\<rparr>"]
  by (simp add: getAttribute_def or_else_def pairs_empty pairs_example processingLine_def
      elementNameOf_def label_def table_parse_def)

text \<open>
  The claim as it was written fails on the attribute \<^verbatim>\<open>0,0\<close>, one pair: the reducer
  returns \<^verbatim>\<open>M 0,0\<close> (and \<^verbatim>\<open>M 0,0 Z\<close> for a polygon), the interpreter runs on it, as
  its two log lines show, and the element is skipped only afterwards, for having no
  edges.
\<close>

theorem single_point_counterexample:
  "length (pairs_of ''0,0'') div 2 = 1
   \<and> polylineToPath \<lparr>tag = ''polyline'', attributes = [(''points'', ''0,0'')], textContent = ''''\<rparr>
       = ''M 0,0''
   \<and> polygonToPath \<lparr>tag = ''polygon'', attributes = [(''points'', ''0,0'')], textContent = ''''\<rparr>
       = ''M 0,0 Z''
   \<and> processElement (table_parse [(''M 0,0'', [MOVE_TO 0 0])]) sample_reducers strict no_throw
         \<lparr>folder = [], successCount = 0, failCount = 0, elementIndex = 0, clogs = [], ckst = 0\<rparr>
         (\<lparr>tag = ''polyline'', attributes = [(''points'', ''0,0'')], textContent = ''''\<rparr>,
          ''polyline'')
       = Inr \<lparr>folder = [], successCount = 0, failCount = 0, elementIndex = 1,
            clogs = [''Processing polyline 1: '' @ [CHR 0x22] @ ''Element 1'' @ [CHR 0x22],
                     ''Parsed 1 path commands'', ''Total edges generated: 0'',
                     ''polyline 1: generated 0 edges'', ''polyline 1: no edges generated, skipping''],
            ckst = 0\<rparr>"
proof -
  let ?e = "\<lparr>tag = ''polyline'', attributes = [(''points'', ''0,0'')], textContent = ''''\<rparr>"
  have p: "polylineToPath ?e = ''M 0,0''"
    by (simp add: polylineToPath_eq getAttribute_def or_else_def pairs_example polyline_text_def)
  have g: "polygonToPath \<lparr>tag = ''polygon'', attributes = [(''points'', ''0,0'')],
             textContent = ''''\<rparr> = ''M 0,0 Z''"
    by (simp add: polygonToPath_def polylineToPath_eq getAttribute_def or_else_def pairs_example
        polyline_text_def)
  have t: "trim ''M 0,0'' = ''M 0,0''"
    by (simp add: trim_def is_space_def)
  have d: "pathDataOf sample_reducers ?e ''polyline'' = Some ''M 0,0''"
    by (simp add: pathDataOf_def convertBasicShapeToPath_def p)
  have n: "\<not> emptyData (pathDataOf sample_reducers ?e ''polyline'')"
    by (simp add: d emptyData_def t)
  have c: "convertPathToEdges (table_parse [(''M 0,0'', [MOVE_TO 0 0])]) strict lg (0::nat)
             (the (pathDataOf sample_reducers ?e ''polyline''))
             = (Inr [], lg @ [''Parsed 1 path commands'', ''Total edges generated: 0''], 0)" for lg
    by (simp add: d convertPathToEdges_def table_parse_def Let_def addLog_def initial_def thrown_def)
  have l: "processElement (table_parse [(''M 0,0'', [MOVE_TO 0 0])]) sample_reducers strict no_throw
         \<lparr>folder = [], successCount = 0, failCount = 0, elementIndex = 0, clogs = [], ckst = 0\<rparr>
         (?e, ''polyline'')
       = Inr \<lparr>folder = [], successCount = 0, failCount = 0, elementIndex = 1,
            clogs = [''Processing polyline 1: '' @ [CHR 0x22] @ ''Element 1'' @ [CHR 0x22],
                     ''Parsed 1 path commands'', ''Total edges generated: 0'',
                     ''polyline 1: generated 0 edges'', ''polyline 1: no edges generated, skipping''],
            ckst = 0\<rparr>"
    using no_edges [where R = sample_reducers and e = ?e and type = "''polyline''"
        and parse = "table_parse [(''M 0,0'', [MOVE_TO 0 0])]" and F = strict and N = no_throw
        and c = "\<lparr>folder = [], successCount = 0, failCount = 0, elementIndex = 0, clogs = [],
                  ckst = 0\<rparr>" and ?k1.0 = 0
        and lg = "[processingLine ?e ''polyline'' 1]
                    @ [''Parsed 1 path commands'', ''Total edges generated: 0'']"]
      n c [of "[processingLine ?e ''polyline'' 1]"]
    by (simp add: processingLine_def elementNameOf_def label_def getAttribute_def or_else_def)
  show ?thesis using p g l by (simp add: pairs_example)
qed

section \<open>The lines of a polyline\<close>

lemma run_linetos_quiet:
  assumes "\<forall>k a b. line_throws F k a b = None"
  shows "run F s (lineto_commands num ts) = Inr (foldl (step F) s (lineto_commands num ts))"
proof (induction num ts arbitrary: s rule: lineto_commands.induct)
  case (1 num a b rest)
  have "thrown F s (LINE_TO (num a) (num b)) = None"
    using assms by (simp add: thrown_def)
  then show ?case by (simp add: "1.IH")
qed simp_all

lemma run_polyline_quiet:
  assumes "\<forall>k a b. line_throws F k a b = None"
  shows "run F s (polyline_commands num ts) = Inr (foldl (step F) s (polyline_commands num ts))"
  using run_linetos_quiet [OF assms, of "step F s (MOVE_TO (num (ts ! 0)) (num (ts ! 1)))" num
      "drop 2 ts"]
  by (simp add: polyline_commands_def thrown_def)

text \<open>
  Claim C7. Let the \<^verbatim>\<open>points\<close> attribute of an element split into an even number
  \<open>n \<ge> 4\<close> of coordinate strings. Then \<^verbatim>\<open>polylineToPath\<close> returns the text
  \<^verbatim>\<open>M t0,t1 L t2,t3 ...\<close> of these strings; and if the parser reads that text as the
  path grammar says and every line construction of the kernel succeeds (it returns,
  and returns a line), \<^verbatim>\<open>convertPathToEdges\<close> on it returns ok with exactly
  \<open>n / 2 - 1\<close> edges, one for each of the \<open>n / 2 - 1\<close> primitives the interpreter
  emits.
\<close>

theorem polyline_line_count:
  assumes "ts = pairs_of (or_else (getAttribute e ''points'') '''')"
    "even (length ts)" "4 \<le> length ts"
    "parse (polyline_text ts) = Inr (polyline_commands num ts)"
    "\<forall>k a b. fst (line F k a b) \<noteq> None"
    "\<forall>k a b. line_throws F k a b = None"
  shows "polylineToPath e = polyline_text ts
       \<and> (\<exists>es. fst (convertPathToEdges parse F lg k (polylineToPath e)) = Inr es
                \<and> length es = length ts div 2 - 1)
       \<and> length (requests (polyline_commands num ts)) = length ts div 2 - 1"
proof -
  have p: "polylineToPath e = polyline_text ts"
    using assms(1,3) by (simp add: polylineToPath_eq)
  have n: "length (drop 2 ts) div 2 = length ts div 2 - 1"
    by simp
  have r: "length (edges (foldl (step G) (initial l j) (polyline_commands num ts)))
             = length ts div 2 - 1"
    if "\<forall>k a b. fst (line G k a b) \<noteq> None" for G :: "('x, 'y, 'z) shapeFactory" and l j
    using run_linetos [OF that, of "step G (initial l j) (MOVE_TO (num (ts ! 0)) (num (ts ! 1)))"
        num "drop 2 ts"] n
    by (simp add: polyline_commands_def Let_def initial_def)
  have c: "\<exists>es. fst (convertPathToEdges parse F lg k (polylineToPath e)) = Inr es
                \<and> length es = length ts div 2 - 1"
    using r [OF assms(5)]
    by (simp add: p convertPathToEdges_def assms(4) Let_def run_polyline_quiet [OF assms(6)])
  have "\<forall>k a b. fst (line echo k a b) \<noteq> None"
    by simp
  from r [OF this, of "[]" "()"]
  have q: "length (requests (polyline_commands num ts)) = length ts div 2 - 1"
    by (simp add: requests_def)
  show ?thesis using p c q by blast
qed

theorem polyline_line_count_witness:
  "even (length (pairs_of '' 0,0 10,0,  10,10 ''))
   \<and> 4 \<le> length (pairs_of '' 0,0 10,0,  10,10 '')
   \<and> polylineToPath \<lparr>tag = ''polyline'', attributes = [(''points'', '' 0,0 10,0,  10,10 '')],
        textContent = ''''\<rparr> = ''M 0,0 L 10,0 L 10,10''
   \<and> (\<exists>es. fst (convertPathToEdges
                   (table_parse [(''M 0,0 L 10,0 L 10,10'',
                                  [MOVE_TO 0 0, LINE_TO 10 0, LINE_TO 10 10])])
                   echo [] ()
                   (polylineToPath \<lparr>tag = ''polyline'',
                      attributes = [(''points'', '' 0,0 10,0,  10,10 '')],
                      textContent = ''''\<rparr>)) = Inr es
            \<and> length es = 2)"
proof -
  let ?e = "\<lparr>tag = ''polyline'', attributes = [(''points'', '' 0,0 10,0,  10,10 '')],
        textContent = ''''\<rparr>"
  let ?ts = "[''0'', ''0'', ''10'', ''0'', ''10'', ''10'']"
  let ?parse = "table_parse [(''M 0,0 L 10,0 L 10,10'', [MOVE_TO 0 0, LINE_TO 10 0, LINE_TO 10 10])]"
  let ?num = "table_num [(''0'', 0), (''10'', 10)]"
  have h1: "?ts = pairs_of (or_else (getAttribute ?e ''points'') '''')"
    by (simp add: getAttribute_def or_else_def pairs_example2)
  have h2: "even (length ?ts)" by simp
  have h3: "4 \<le> length ?ts" by simp
  have h4: "?parse (polyline_text ?ts) = Inr (polyline_commands ?num ?ts)"
    by (simp add: polyline_text_def polyline_commands_def table_parse_def table_num_def)
  have h5: "\<forall>k a b. fst (line echo k a b) \<noteq> None" by simp
  have h6: "\<forall>k a b. line_throws echo k a b = None" by simp
  from polyline_line_count [where ts = ?ts and e = ?e and parse = ?parse and num = ?num
        and F = echo and lg = "[]" and k = "()", OF h1 h2 h3 h4 h5 h6]
  show ?thesis
    by (auto simp add: pairs_example2 polyline_text_def)
qed

section \<open>Failures of single elements\<close>

lemma cpe_parts:
  "fst (convertPathToEdges parse F lg k d) = Inr es
   \<Longrightarrow> snd (snd (convertPathToEdges parse F lg k d)) = k1
   \<Longrightarrow> \<exists>lg'. convertPathToEdges parse F lg k d = (Inr es, lg', k1)"
  by (cases "convertPathToEdges parse F lg k d") auto

lemma processAll_escapes:
  "isl (processAll parse R F N lg k els) \<longleftrightarrow>
     (\<exists>pre et post c1. els = pre @ et # post \<and> processAll parse R F N lg k pre = Inr c1
        \<and> isl (processElement parse R F N c1 et))"
  unfolding processAll_def by (rule forEach_escapes)

lemma processAll_Inr:
  assumes "processAll parse R F N lg k els = Inr c'"
  shows "elementIndex c' = length els \<and> successCount c' = length (folder c')"
  using forEach_Inr [OF assms [unfolded processAll_def]] by simp

lemma processAll_quiet:
  assumes "\<forall>k es. wire_throws F k es = None" "\<forall>n w. N n w = None"
  shows "\<exists>c'. processAll parse R F N lg k els = Inr c'"
proof -
  have "\<not> isl (processAll parse R F N lg k els)"
    unfolding processAll_def using assms by (rule forEach_quiet)
  then show ?thesis by (cases "processAll parse R F N lg k els") auto
qed

lemma convert_escapes:
  assumes "\<not> (\<exists>e\<in>set doc. tag e = ''parsererror'')" "totalElements doc \<noteq> 0"
    "processAll parse R F N (importLog doc) k (allElements doc) = Inl (error, lg1)"
  shows "convertFromSVG parse R F N k doc =
           Inl (getErrorWithLogs (lg1 @ [''Exception caught: '' @ error])
                  (''SVG conversion error: '' @ error))"
  using convert_loop [OF assms(1,2), of parse R F N k] assms(3) by simp

text \<open>
  Two paths for the examples: one line, and three lines, of which the kernel
  \<open>brittle\<close> cannot make a wire.
\<close>

lemma example_one_line:
  assumes "ckst c = k"
  shows "\<exists>c'. processElement
           (table_parse [(''M 0,0 L 3,4'', [MOVE_TO 0 0, LINE_TO 3 4]),
                         (''M 0,0 L 1,0 L 1,1 L 0,1'',
                          [MOVE_TO 0 0, LINE_TO 1 0, LINE_TO 1 1, LINE_TO 0 1])])
           sample_reducers brittle no_throw c
           (\<lparr>tag = ''path'', attributes = [(''id'', ''good''), (''d'', ''M 0,0 L 3,4'')],
              textContent = ''''\<rparr>, ''path'') = Inr c'
         \<and> folder c' = folder c @ [(''good'', [Line (XYZ 0 0 0) (XYZ 3 (- 4) 0)])]
         \<and> ckst c' = k + 2"
proof -
  let ?parse = "table_parse [(''M 0,0 L 3,4'', [MOVE_TO 0 0, LINE_TO 3 4]),
                         (''M 0,0 L 1,0 L 1,1 L 0,1'',
                          [MOVE_TO 0 0, LINE_TO 1 0, LINE_TO 1 1, LINE_TO 0 1])]"
  let ?good = "\<lparr>tag = ''path'', attributes = [(''id'', ''good''), (''d'', ''M 0,0 L 3,4'')],
              textContent = ''''\<rparr>"
  let ?lg = "clogs c @ [processingLine ?good ''path'' (elementIndex c + 1)]"
  have tg: "trim ''M 0,0 L 3,4'' = ''M 0,0 L 3,4''"
    by (simp add: trim_def is_space_def)
  have d: "pathDataOf sample_reducers ?good ''path'' = Some ''M 0,0 L 3,4''"
    by (simp add: pathDataOf_def getAttribute_def)
  have eg: "\<not> emptyData (pathDataOf sample_reducers ?good ''path'')"
    by (simp add: d emptyData_def tg)
  have "fst (convertPathToEdges ?parse brittle ?lg k ''M 0,0 L 3,4'')
          = Inr [Line (XYZ 0 0 0) (XYZ 3 (- 4) 0)]"
    "snd (snd (convertPathToEdges ?parse brittle ?lg k ''M 0,0 L 3,4'')) = k + 1"
    by (simp_all add: convertPathToEdges_def table_parse_def thrown_def initial_def Let_def)
  from cpe_parts [OF this] obtain lg' where
    cv: "convertPathToEdges ?parse brittle ?lg (ckst c)
           (the (pathDataOf sample_reducers ?good ''path''))
         = (Inr [Line (XYZ 0 0 0) (XYZ 3 (- 4) 0)], lg', k + 1)"
    unfolding d assms by auto
  show ?thesis
    using wire_success [where R = sample_reducers and e = ?good and type = "''path''"
        and parse = ?parse and F = brittle and c = c
        and es = "[Line (XYZ 0 0 0) (XYZ 3 (- 4) 0)]" and lg = lg' and ?k1.0 = "k + 1"
        and w = "[Line (XYZ 0 0 0) (XYZ 3 (- 4) 0)]" and ?k2.0 = "k + 2" and N = no_throw]
      eg cv
    by (simp add: no_throw_def elementNameOf_def getAttribute_def or_else_def)
qed

lemma example_three_lines:
  "\<exists>lg. processElement
           (table_parse [(''M 0,0 L 3,4'', [MOVE_TO 0 0, LINE_TO 3 4]),
                         (''M 0,0 L 1,0 L 1,1 L 0,1'',
                          [MOVE_TO 0 0, LINE_TO 1 0, LINE_TO 1 1, LINE_TO 0 1])])
           sample_reducers brittle no_throw c
           (\<lparr>tag = ''path'', attributes = [(''d'', ''M 0,0 L 1,0 L 1,1 L 0,1'')],
              textContent = ''''\<rparr>, ''path'') = Inl (''wire not connected'', lg)"
proof -
  let ?parse = "table_parse [(''M 0,0 L 3,4'', [MOVE_TO 0 0, LINE_TO 3 4]),
                         (''M 0,0 L 1,0 L 1,1 L 0,1'',
                          [MOVE_TO 0 0, LINE_TO 1 0, LINE_TO 1 1, LINE_TO 0 1])]"
  let ?big = "\<lparr>tag = ''path'', attributes = [(''d'', ''M 0,0 L 1,0 L 1,1 L 0,1'')],
              textContent = ''''\<rparr>"
  let ?lg = "clogs c @ [processingLine ?big ''path'' (elementIndex c + 1)]"
  let ?es = "[Line (XYZ 0 0 0) (XYZ 1 0 0), Line (XYZ 1 0 0) (XYZ 1 (- 1) 0),
              Line (XYZ 1 (- 1) 0) (XYZ 0 (- 1) 0)]"
  have tb: "trim ''M 0,0 L 1,0 L 1,1 L 0,1'' = ''M 0,0 L 1,0 L 1,1 L 0,1''"
    by (simp add: trim_def is_space_def)
  have d: "pathDataOf sample_reducers ?big ''path'' = Some ''M 0,0 L 1,0 L 1,1 L 0,1''"
    by (simp add: pathDataOf_def getAttribute_def)
  have eb: "\<not> emptyData (pathDataOf sample_reducers ?big ''path'')"
    by (simp add: d emptyData_def tb)
  have "fst (convertPathToEdges ?parse brittle ?lg (ckst c) ''M 0,0 L 1,0 L 1,1 L 0,1'') = Inr ?es"
    "snd (snd (convertPathToEdges ?parse brittle ?lg (ckst c) ''M 0,0 L 1,0 L 1,1 L 0,1''))
       = ckst c + 3"
    by (simp_all add: convertPathToEdges_def table_parse_def thrown_def initial_def Let_def)
  from cpe_parts [OF this] obtain lg' where
    cv: "convertPathToEdges ?parse brittle ?lg (ckst c)
           (the (pathDataOf sample_reducers ?big ''path'')) = (Inr ?es, lg', ckst c + 3)"
    unfolding d by auto
  show ?thesis
    using wire_exception [where R = sample_reducers and e = ?big and type = "''path''"
        and parse = ?parse and F = brittle and c = c and es = ?es and lg = lg'
        and ?k1.0 = "ckst c + 3" and error = "''wire not connected''" and N = no_throw]
      eb cv
    by simp
qed

text \<open>
  Claim C8, amended. \<^verbatim>\<open>convertFromSVG\<close> fails exactly when the document holds a
  \<^verbatim>\<open>parsererror\<close> element, or none of the supported elements, or an exception leaves
  the loop over the elements, or the group is empty after the loop. An exception
  leaves the loop exactly at the first element whose edges are not empty and for
  which \<^verbatim>\<open>wire\<close> throws or the creation of the shape node throws; the import then
  fails with \<^verbatim>\<open>SVG conversion error\<close>, whatever nodes were made before. When no such
  call throws, the loop visits every element whatever happened before: after it
  \<^verbatim>\<open>elementIndex\<close> is the number of elements and the group has as many nodes as
  \<^verbatim>\<open>successCount\<close> says. An element whose path data is empty, whose path data the
  parser rejects, whose conversion to edges fails in any way (so also by an
  exception of \<^verbatim>\<open>line\<close> or \<^verbatim>\<open>bezier\<close>, which \<^verbatim>\<open>convertPathToEdges\<close> catches), or for
  whose edges \<^verbatim>\<open>wire\<close> returns a failure, leaves the group as it is and is logged;
  all but the first add one to \<^verbatim>\<open>failCount\<close>.
\<close>

theorem fault_isolation:
  "(isl (convertFromSVG parse R F N k doc) \<longleftrightarrow>
      (\<exists>e\<in>set doc. tag e = ''parsererror'') \<or> totalElements doc = 0
      \<or> (case processAll parse R F N (importLog doc) k (allElements doc) of
            Inl x \<Rightarrow> True
          | Inr c \<Rightarrow> folder c = []))
   \<and> (totalElements doc = 0 \<longleftrightarrow> allElements doc = [])
   \<and> (isl (processAll parse R F N lg k els) \<longleftrightarrow>
        (\<exists>pre et post c1. els = pre @ et # post \<and> processAll parse R F N lg k pre = Inr c1
           \<and> isl (processElement parse R F N c1 et)))
   \<and> (isl (processElement parse R F N c (e, type)) \<longleftrightarrow>
        \<not> emptyData (pathDataOf R e type)
        \<and> (\<exists>es lg k1.
              convertPathToEdges parse F (clogs c @ [processingLine e type (elementIndex c + 1)])
                (ckst c) (the (pathDataOf R e type)) = (Inr es, lg, k1)
              \<and> es \<noteq> []
              \<and> (wire_throws F k1 es \<noteq> None
                  \<or> (\<exists>w k2. wire F k1 es = (Inr w, k2)
                        \<and> N (elementNameOf e (elementIndex c + 1)) w \<noteq> None))))
   \<and> (\<forall>error lg1. \<not> (\<exists>e\<in>set doc. tag e = ''parsererror'') \<and> totalElements doc \<noteq> 0
          \<and> processAll parse R F N (importLog doc) k (allElements doc) = Inl (error, lg1) \<longrightarrow>
        convertFromSVG parse R F N k doc =
          Inl (getErrorWithLogs (lg1 @ [''Exception caught: '' @ error])
                 (''SVG conversion error: '' @ error)))
   \<and> (\<forall>c'. processAll parse R F N lg k els = Inr c' \<longrightarrow>
         elementIndex c' = length els \<and> successCount c' = length (folder c'))
   \<and> ((\<forall>k es. wire_throws F k es = None) \<and> (\<forall>n w. N n w = None) \<longrightarrow>
         (\<exists>c'. processAll parse R F N lg k els = Inr c'))
   \<and> (emptyData (pathDataOf R e type) \<longrightarrow>
        processElement parse R F N c (e, type) =
          Inr (c\<lparr>elementIndex := elementIndex c + 1,
                 clogs := clogs c @ [processingLine e type (elementIndex c + 1),
                            label type (elementIndex c + 1) @ '': empty path data, skipping'']\<rparr>))
   \<and> (\<not> emptyData (pathDataOf R e type) \<and> parse (the (pathDataOf R e type)) = Inl err \<longrightarrow>
        processElement parse R F N c (e, type) =
          Inr (c\<lparr>elementIndex := elementIndex c + 1,
                 clogs := clogs c @ [processingLine e type (elementIndex c + 1),
                            ''Path conversion exception: '' @ err,
                            label type (elementIndex c + 1) @ '' conversion failed: ''
                              @ ''Path conversion error: '' @ err],
                 failCount := failCount c + 1\<rparr>))
   \<and> (\<not> emptyData (pathDataOf R e type)
        \<and> convertPathToEdges parse F (clogs c @ [processingLine e type (elementIndex c + 1)])
            (ckst c) (the (pathDataOf R e type)) = (Inl msg, lg2, k3) \<longrightarrow>
        processElement parse R F N c (e, type) =
          Inr (c\<lparr>elementIndex := elementIndex c + 1,
                 clogs := lg2 @ [label type (elementIndex c + 1) @ '' conversion failed: '' @ msg],
                 ckst := k3, failCount := failCount c + 1\<rparr>))
   \<and> (\<not> emptyData (pathDataOf R e type) \<and> parse (the (pathDataOf R e type)) = Inr cmds
        \<and> returns F \<and> serve F (ckst c) (requests cmds) = (es, k1) \<and> es \<noteq> []
        \<and> wire_throws F k1 es = None \<and> wire F k1 es = (Inl werr, k2) \<longrightarrow>
        (\<exists>c'. processElement parse R F N c (e, type) = Inr c'
           \<and> folder c' = folder c
           \<and> successCount c' = successCount c
           \<and> failCount c' = failCount c + 1
           \<and> elementIndex c' = elementIndex c + 1
           \<and> ckst c' = k2
           \<and> last (clogs c')
               = label type (elementIndex c + 1) @ '' wire creation failed: '' @ werr))
   \<and> (\<not> emptyData (pathDataOf R e type) \<and> parse (the (pathDataOf R e type)) = Inr cmds
        \<and> returns F \<and> serve F (ckst c) (requests cmds) = (es, k1) \<and> es \<noteq> []
        \<and> wire_throws F k1 es = Some xerr \<longrightarrow>
        (\<exists>lg'. processElement parse R F N c (e, type) = Inl (xerr, lg')))"
proof -
  have 6: "\<forall>c'. processAll parse R F N lg k els = Inr c' \<longrightarrow>
         elementIndex c' = length els \<and> successCount c' = length (folder c')"
    using processAll_Inr [of parse R F N lg k els] by blast
  have 7: "(\<forall>k es. wire_throws F k es = None) \<and> (\<forall>n w. N n w = None) \<longrightarrow>
         (\<exists>c'. processAll parse R F N lg k els = Inr c')"
    using processAll_quiet [of F N parse R lg k els] by blast
  have 5: "\<forall>error lg1. \<not> (\<exists>e\<in>set doc. tag e = ''parsererror'') \<and> totalElements doc \<noteq> 0
          \<and> processAll parse R F N (importLog doc) k (allElements doc) = Inl (error, lg1) \<longrightarrow>
        convertFromSVG parse R F N k doc =
          Inl (getErrorWithLogs (lg1 @ [''Exception caught: '' @ error])
                 (''SVG conversion error: '' @ error))"
    using convert_escapes [of doc parse R F N k] by blast
  have 10: "\<not> emptyData (pathDataOf R e type)
        \<and> convertPathToEdges parse F (clogs c @ [processingLine e type (elementIndex c + 1)])
            (ckst c) (the (pathDataOf R e type)) = (Inl msg, lg2, k3) \<longrightarrow>
        processElement parse R F N c (e, type) =
          Inr (c\<lparr>elementIndex := elementIndex c + 1,
                 clogs := lg2 @ [label type (elementIndex c + 1) @ '' conversion failed: '' @ msg],
                 ckst := k3, failCount := failCount c + 1\<rparr>)"
    using conversion_failure [where R = R and e = e and type = type and parse = parse and F = F
        and c = c and msg = msg and lg = lg2 and ?k1.0 = k3 and N = N]
    by blast
  have 11: "\<not> emptyData (pathDataOf R e type) \<and> parse (the (pathDataOf R e type)) = Inr cmds
        \<and> returns F \<and> serve F (ckst c) (requests cmds) = (es, k1) \<and> es \<noteq> []
        \<and> wire_throws F k1 es = None \<and> wire F k1 es = (Inl werr, k2) \<longrightarrow>
        (\<exists>c'. processElement parse R F N c (e, type) = Inr c'
           \<and> folder c' = folder c
           \<and> successCount c' = successCount c
           \<and> failCount c' = failCount c + 1
           \<and> elementIndex c' = elementIndex c + 1
           \<and> ckst c' = k2
           \<and> last (clogs c')
               = label type (elementIndex c + 1) @ '' wire creation failed: '' @ werr)"
    using element_wire_failed [where R = R and e = e and type = type and parse = parse
        and cmds = cmds and F = F and c = c and es = es and ?k1.0 = k1 and err = werr
        and ?k2.0 = k2 and N = N]
    by blast
  have 12: "\<not> emptyData (pathDataOf R e type) \<and> parse (the (pathDataOf R e type)) = Inr cmds
        \<and> returns F \<and> serve F (ckst c) (requests cmds) = (es, k1) \<and> es \<noteq> []
        \<and> wire_throws F k1 es = Some xerr \<longrightarrow>
        (\<exists>lg'. processElement parse R F N c (e, type) = Inl (xerr, lg'))"
    using element_wire_throws [where R = R and e = e and type = type and parse = parse
        and cmds = cmds and F = F and c = c and es = es and ?k1.0 = k1 and error = xerr and N = N]
    by blast
  show ?thesis
    using convert_fails [of parse R F N k doc] total_zero [of doc]
      processAll_escapes [of parse R F N lg k els]
      processElement_escapes [of parse R F N c e type] 5 6 7
      skip_empty [of R e type parse F N c]
      parse_failure [where R = R and e = e and type = type and parse = parse and err = err
        and F = F and N = N and c = c]
      10 11 12
    by blast
qed

theorem fault_isolation_witness:
  "convertFromSVG (table_parse [(''M 0,0 L 3,4'', [MOVE_TO 0 0, LINE_TO 3 4])])
     sample_reducers strict no_throw 0
     [\<lparr>tag = ''path'', attributes = [(''d'', ''M 0,0 L'')], textContent = ''''\<rparr>,
      \<lparr>tag = ''polyline'', attributes = [], textContent = ''''\<rparr>,
      \<lparr>tag = ''path'', attributes = [(''id'', ''good''), (''d'', ''M 0,0 L 3,4'')],
         textContent = ''''\<rparr>]
   = Inr [(''good'', [Line (XYZ 0 0 0) (XYZ 3 (- 4) 0)])]
   \<and> isl (convertFromSVG (table_parse []) sample_reducers strict no_throw 0
            [\<lparr>tag = ''path'', attributes = [(''d'', ''M 0,0 L'')], textContent = ''''\<rparr>,
             \<lparr>tag = ''polyline'', attributes = [], textContent = ''''\<rparr>])
   \<and> (\<exists>lg. convertFromSVG
         (table_parse [(''M 0,0 L 3,4'', [MOVE_TO 0 0, LINE_TO 3 4]),
                       (''M 0,0 L 1,0 L 1,1 L 0,1'',
                        [MOVE_TO 0 0, LINE_TO 1 0, LINE_TO 1 1, LINE_TO 0 1])])
         sample_reducers brittle no_throw 0
         [\<lparr>tag = ''path'', attributes = [(''d'', ''M 0,0 L 1,0 L 1,1 L 0,1'')], textContent = ''''\<rparr>]
       = Inl (getErrorWithLogs lg ''SVG conversion error: wire not connected''))"
proof -
  let ?bad = "\<lparr>tag = ''path'', attributes = [(''d'', ''M 0,0 L'')], textContent = ''''\<rparr>"
  let ?poly = "\<lparr>tag = ''polyline'', attributes = [], textContent = ''''\<rparr>"
  let ?good = "\<lparr>tag = ''path'', attributes = [(''id'', ''good''), (''d'', ''M 0,0 L 3,4'')],
         textContent = ''''\<rparr>"
  let ?big = "\<lparr>tag = ''path'', attributes = [(''d'', ''M 0,0 L 1,0 L 1,1 L 0,1'')],
         textContent = ''''\<rparr>"
  let ?parse = "table_parse [(''M 0,0 L 3,4'', [MOVE_TO 0 0, LINE_TO 3 4])]"
  let ?parse2 = "table_parse [(''M 0,0 L 3,4'', [MOVE_TO 0 0, LINE_TO 3 4]),
                       (''M 0,0 L 1,0 L 1,1 L 0,1'',
                        [MOVE_TO 0 0, LINE_TO 1 0, LINE_TO 1 1, LINE_TO 0 1])]"
  have tb: "trim ''M 0,0 L'' = ''M 0,0 L''" and tg: "trim ''M 0,0 L 3,4'' = ''M 0,0 L 3,4''"
    by (simp_all add: trim_def is_space_def)
  have eb: "\<not> emptyData (pathDataOf sample_reducers ?bad ''path'')"
    by (simp add: emptyData_def pathDataOf_def getAttribute_def tb)
  have eg: "\<not> emptyData (pathDataOf sample_reducers ?good ''path'')"
    by (simp add: emptyData_def pathDataOf_def getAttribute_def tg)
  have ep: "emptyData (pathDataOf sample_reducers ?poly ''polyline'')"
    by (simp add: emptyData_def pathDataOf_def convertBasicShapeToPath_def polylineToPath_eq
        getAttribute_def or_else_def pairs_empty)
  have pb: "?parse (the (pathDataOf sample_reducers ?bad ''path'')) = Inl ''Unexpected character''"
    by (simp add: pathDataOf_def getAttribute_def table_parse_def)
  have pb': "table_parse [] (the (pathDataOf sample_reducers ?bad ''path''))
               = Inl ''Unexpected character''"
    by (simp add: pathDataOf_def getAttribute_def table_parse_def)
  have pg: "?parse (the (pathDataOf sample_reducers ?good ''path''))
              = Inr [MOVE_TO 0 0, LINE_TO 3 4]"
    by (simp add: pathDataOf_def getAttribute_def table_parse_def)
  have rq: "serve strict k (requests [MOVE_TO 0 0, LINE_TO 3 4])
              = ([Line (XYZ 0 0 0) (XYZ 3 (- 4) 0)], k + 1)" for k
    by (simp add: requests_def initial_def Let_def)
  let ?c0 = "\<lparr>folder = [], successCount = 0, failCount = 0, elementIndex = 0,
               clogs = importLog [?bad, ?poly, ?good], ckst = (0::nat)\<rparr>
             :: (primitive list, nat) conv"
  obtain c1 where c1: "processElement ?parse sample_reducers strict no_throw ?c0 (?bad, ''path'')
      = Inr c1" "folder c1 = []" "ckst c1 = 0" "elementIndex c1 = 1"
    using fault_isolation [where parse = ?parse and R = sample_reducers and F = strict
        and N = no_throw and k = 0 and doc = "[]" and lg = "[]" and els = "[]" and e = ?bad
        and type = "''path''" and c = ?c0 and err = "''Unexpected character''"] eb pb
    by simp
  obtain c2 where c2: "processElement ?parse sample_reducers strict no_throw c1 (?good, ''path'')
      = Inr c2" "folder c2 = [(''good'', [Line (XYZ 0 0 0) (XYZ 3 (- 4) 0)])]"
    using element_built [where R = sample_reducers and e = ?good and type = "''path''"
        and parse = ?parse and cmds = "[MOVE_TO 0 0, LINE_TO 3 4]" and F = strict and c = c1
        and es = "[Line (XYZ 0 0 0) (XYZ 3 (- 4) 0)]" and ?k1.0 = 1
        and w = "[Line (XYZ 0 0 0) (XYZ 3 (- 4) 0)]" and ?k2.0 = 2 and N = no_throw]
      eg pg returns_strict rq [of 0] c1(2,3,4)
    by (auto simp add: no_throw_def elementNameOf_def getAttribute_def or_else_def)
  obtain c3 where c3: "processElement ?parse sample_reducers strict no_throw c2 (?poly, ''polyline'')
      = Inr c3" "folder c3 = folder c2"
    using skip_empty [OF ep, of ?parse strict no_throw c2] by simp
  have al: "allElements [?bad, ?poly, ?good]
              = [(?bad, ''path''), (?good, ''path''), (?poly, ''polyline'')]"
    by (simp add: allElements_def querySelectorAll_def)
  have f: "processAll ?parse sample_reducers strict no_throw (importLog [?bad, ?poly, ?good]) 0
             (allElements [?bad, ?poly, ?good]) = Inr c3"
    unfolding al processAll_def by (simp add: c1(1) c2(1) c3(1))
  have nz: "totalElements [?bad, ?poly, ?good] \<noteq> 0"
    "\<not> (\<exists>e\<in>set [?bad, ?poly, ?good]. tag e = ''parsererror'')"
    by (simp_all add: totalElements_def querySelectorAll_def)
  have 1: "convertFromSVG ?parse sample_reducers strict no_throw 0 [?bad, ?poly, ?good]
             = Inr [(''good'', [Line (XYZ 0 0 0) (XYZ 3 (- 4) 0)])]"
    using convert_loop [OF nz(2,1), of ?parse sample_reducers strict no_throw 0]
    by (simp add: f c3(2) c2(2))
  let ?d0 = "\<lparr>folder = [], successCount = 0, failCount = 0, elementIndex = 0,
               clogs = importLog [?bad, ?poly], ckst = (0::nat)\<rparr>
             :: (primitive list, nat) conv"
  obtain d1 where d1: "processElement (table_parse []) sample_reducers strict no_throw ?d0
      (?bad, ''path'') = Inr d1" "folder d1 = []"
    using parse_failure [where R = sample_reducers and e = ?bad and type = "''path''"
        and parse = "table_parse []" and err = "''Unexpected character''" and F = strict
        and N = no_throw and c = ?d0] eb pb'
    by simp
  obtain d2 where d2: "processElement (table_parse []) sample_reducers strict no_throw d1
      (?poly, ''polyline'') = Inr d2" "folder d2 = []"
    using skip_empty [OF ep, of "table_parse []" strict no_throw d1] d1(2) by simp
  have al2: "allElements [?bad, ?poly] = [(?bad, ''path''), (?poly, ''polyline'')]"
    by (simp add: allElements_def querySelectorAll_def)
  have "processAll (table_parse []) sample_reducers strict no_throw (importLog [?bad, ?poly]) 0
           (allElements [?bad, ?poly]) = Inr d2"
    unfolding al2 processAll_def by (simp add: d1(1) d2(1))
  with fault_isolation [where parse = "table_parse []" and R = sample_reducers and F = strict
      and N = no_throw and k = 0 and doc = "[?bad, ?poly]"] d2(2)
  have 2: "isl (convertFromSVG (table_parse []) sample_reducers strict no_throw 0 [?bad, ?poly])"
    by simp
  let ?e0 = "\<lparr>folder = [], successCount = 0, failCount = 0, elementIndex = 0,
               clogs = importLog [?big], ckst = (0::nat)\<rparr>
             :: (primitive list, nat) conv"
  obtain lg where e1: "processElement ?parse2 sample_reducers brittle no_throw ?e0 (?big, ''path'')
      = Inl (''wire not connected'', lg)"
    using example_three_lines [of ?e0] by blast
  have al3: "allElements [?big] = [(?big, ''path'')]"
    by (simp add: allElements_def querySelectorAll_def)
  have f3: "processAll ?parse2 sample_reducers brittle no_throw (importLog [?big]) 0
           (allElements [?big]) = Inl (''wire not connected'', lg)"
    unfolding al3 processAll_def by (simp add: e1)
  have nz3: "totalElements [?big] \<noteq> 0" "\<not> (\<exists>e\<in>set [?big]. tag e = ''parsererror'')"
    by (simp_all add: totalElements_def querySelectorAll_def)
  have "convertFromSVG ?parse2 sample_reducers brittle no_throw 0 [?big]
          = Inl (getErrorWithLogs (lg @ [''Exception caught: '' @ ''wire not connected''])
                   (''SVG conversion error: '' @ ''wire not connected''))"
    using fault_isolation [where parse = ?parse2 and R = sample_reducers and F = brittle
        and N = no_throw and k = 0 and doc = "[?big]", THEN conjunct2, THEN conjunct2,
        THEN conjunct2, THEN conjunct2, THEN conjunct1, rule_format,
        of "''wire not connected''" lg] nz3 f3
    by blast
  then have 3: "\<exists>lg. convertFromSVG ?parse2 sample_reducers brittle no_throw 0 [?big]
          = Inl (getErrorWithLogs lg ''SVG conversion error: wire not connected'')"
    by auto
  show ?thesis using 1 2 3 by blast
qed

text \<open>
  The claim as it was written fails on a kernel whose \<^verbatim>\<open>wire\<close> throws. The document
  holds two paths and no parser error; the first path becomes a shape node of the
  group; \<^verbatim>\<open>wire\<close> throws on the three edges of the second one, and the import fails
  with \<^verbatim>\<open>SVG conversion error\<close>: none of the three conditions of the document holds,
  and the failure of one element is not contained.
\<close>

theorem uncontained_exception_counterexample:
  "\<not> (\<exists>e\<in>set [\<lparr>tag = ''path'', attributes = [(''id'', ''good''), (''d'', ''M 0,0 L 3,4'')],
                   textContent = ''''\<rparr>,
                 \<lparr>tag = ''path'', attributes = [(''d'', ''M 0,0 L 1,0 L 1,1 L 0,1'')],
                   textContent = ''''\<rparr>]. tag e = ''parsererror'')
   \<and> totalElements [\<lparr>tag = ''path'', attributes = [(''id'', ''good''), (''d'', ''M 0,0 L 3,4'')],
                      textContent = ''''\<rparr>,
                    \<lparr>tag = ''path'', attributes = [(''d'', ''M 0,0 L 1,0 L 1,1 L 0,1'')],
                      textContent = ''''\<rparr>] = 2
   \<and> (\<exists>c1 lg. processAll
         (table_parse [(''M 0,0 L 3,4'', [MOVE_TO 0 0, LINE_TO 3 4]),
                       (''M 0,0 L 1,0 L 1,1 L 0,1'',
                        [MOVE_TO 0 0, LINE_TO 1 0, LINE_TO 1 1, LINE_TO 0 1])])
         sample_reducers brittle no_throw [] 0
         [(\<lparr>tag = ''path'', attributes = [(''id'', ''good''), (''d'', ''M 0,0 L 3,4'')],
             textContent = ''''\<rparr>, ''path'')] = Inr c1
       \<and> folder c1 = [(''good'', [Line (XYZ 0 0 0) (XYZ 3 (- 4) 0)])]
       \<and> processElement
           (table_parse [(''M 0,0 L 3,4'', [MOVE_TO 0 0, LINE_TO 3 4]),
                         (''M 0,0 L 1,0 L 1,1 L 0,1'',
                          [MOVE_TO 0 0, LINE_TO 1 0, LINE_TO 1 1, LINE_TO 0 1])])
           sample_reducers brittle no_throw c1
           (\<lparr>tag = ''path'', attributes = [(''d'', ''M 0,0 L 1,0 L 1,1 L 0,1'')],
              textContent = ''''\<rparr>, ''path'') = Inl (''wire not connected'', lg))
   \<and> (\<exists>lg. convertFromSVG
         (table_parse [(''M 0,0 L 3,4'', [MOVE_TO 0 0, LINE_TO 3 4]),
                       (''M 0,0 L 1,0 L 1,1 L 0,1'',
                        [MOVE_TO 0 0, LINE_TO 1 0, LINE_TO 1 1, LINE_TO 0 1])])
         sample_reducers brittle no_throw 0
         [\<lparr>tag = ''path'', attributes = [(''id'', ''good''), (''d'', ''M 0,0 L 3,4'')],
            textContent = ''''\<rparr>,
          \<lparr>tag = ''path'', attributes = [(''d'', ''M 0,0 L 1,0 L 1,1 L 0,1'')],
            textContent = ''''\<rparr>]
       = Inl (getErrorWithLogs lg ''SVG conversion error: wire not connected''))"
proof -
  let ?good = "\<lparr>tag = ''path'', attributes = [(''id'', ''good''), (''d'', ''M 0,0 L 3,4'')],
         textContent = ''''\<rparr>"
  let ?big = "\<lparr>tag = ''path'', attributes = [(''d'', ''M 0,0 L 1,0 L 1,1 L 0,1'')],
         textContent = ''''\<rparr>"
  let ?parse = "table_parse [(''M 0,0 L 3,4'', [MOVE_TO 0 0, LINE_TO 3 4]),
                       (''M 0,0 L 1,0 L 1,1 L 0,1'',
                        [MOVE_TO 0 0, LINE_TO 1 0, LINE_TO 1 1, LINE_TO 0 1])]"
  have nz: "\<not> (\<exists>e\<in>set [?good, ?big]. tag e = ''parsererror'')" "totalElements [?good, ?big] = 2"
    by (simp_all add: totalElements_def querySelectorAll_def)
  have al: "allElements [?good, ?big] = [(?good, ''path''), (?big, ''path'')]"
    by (simp add: allElements_def querySelectorAll_def)
  let ?a0 = "\<lparr>folder = [], successCount = 0, failCount = 0, elementIndex = 0,
               clogs = [], ckst = (0::nat)\<rparr> :: (primitive list, nat) conv"
  obtain a1 where a1: "processElement ?parse sample_reducers brittle no_throw ?a0 (?good, ''path'')
      = Inr a1" "folder a1 = [(''good'', [Line (XYZ 0 0 0) (XYZ 3 (- 4) 0)])]"
    using example_one_line [of ?a0 0] by auto
  obtain lga where a2: "processElement ?parse sample_reducers brittle no_throw a1 (?big, ''path'')
      = Inl (''wire not connected'', lga)"
    using example_three_lines [of a1] by blast
  have 3: "\<exists>c1 lg. processAll ?parse sample_reducers brittle no_throw [] 0 [(?good, ''path'')]
             = Inr c1
       \<and> folder c1 = [(''good'', [Line (XYZ 0 0 0) (XYZ 3 (- 4) 0)])]
       \<and> processElement ?parse sample_reducers brittle no_throw c1 (?big, ''path'')
           = Inl (''wire not connected'', lg)"
    using a1 a2 by (auto simp add: processAll_def)
  let ?c0 = "\<lparr>folder = [], successCount = 0, failCount = 0, elementIndex = 0,
               clogs = importLog [?good, ?big], ckst = (0::nat)\<rparr> :: (primitive list, nat) conv"
  obtain c1 where c1: "processElement ?parse sample_reducers brittle no_throw ?c0 (?good, ''path'')
      = Inr c1"
    using example_one_line [of ?c0 0] by auto
  obtain lg where c2: "processElement ?parse sample_reducers brittle no_throw c1 (?big, ''path'')
      = Inl (''wire not connected'', lg)"
    using example_three_lines [of c1] by blast
  have f: "processAll ?parse sample_reducers brittle no_throw (importLog [?good, ?big]) 0
             (allElements [?good, ?big]) = Inl (''wire not connected'', lg)"
    unfolding al processAll_def by (simp add: c1 c2)
  have "totalElements [?good, ?big] \<noteq> 0" using nz(2) by simp
  from convert_escapes [OF nz(1) this f]
  have 4: "\<exists>lg. convertFromSVG ?parse sample_reducers brittle no_throw 0 [?good, ?big]
             = Inl (getErrorWithLogs lg ''SVG conversion error: wire not connected'')"
    by auto
  show ?thesis using nz 3 4 by blast
qed

end
